theory Spec2Isabelle
  imports Main "HOL-Library.Word" "HOL-Library.AList"
begin

section \<open>The stack-bounds analyzer \<open>validateControlFlow2\<close> of core/vm\<close>

text \<open>
  The repository holds two revisions of \<open>validateControlFlow2\<close>: the one in
  \<open>src/core/vm/validate_linear.go\<close> and the one in \<open>src/unnamed/part_001\<close>.
  Both are embedded here, function by function. The definitions of the first keep the
  source's names; the definitions of the second carry the suffix \<open>_rev\<close>.
  Go's 64-bit \<open>int\<close> is modelled as the unbounded \<open>int\<close>: the values are code
  offsets and stack heights, which stay far below \<open>2^63\<close> on any code that fits in
  memory.
\<close>

subsection \<open>Data\<close>

type_synonym byte = "8 word"

text \<open>\<open>type bounds struct { min int; max int }\<close>; the fields are renamed because
  \<open>min\<close> and \<open>max\<close> are HOL constants.\<close>

record bounds =
  min_b :: int
  max_b :: int

text \<open>\<open>FunctionMetadata\<close>, one entry of the type table: \<open>Input\<close> and \<open>Output\<close>
  are \<open>uint8\<close>, \<open>MaxStackHeight\<close> is \<open>uint16\<close>.\<close>

record FunctionMetadata =
  Input :: "8 word"
  Output :: "8 word"
  MaxStackHeight :: "16 word"

text \<open>Modelled from the spec: the declaration of \<open>operation\<close> is not under src/.
  The spec's OpDescriptor gives \<open>min_stack: u16\<close>, \<open>max_stack: u16\<close>,
  \<open>immediate: u8\<close>, \<open>terminal: bool\<close>; these are the four fields the analyzer reads.
  The jump table \<open>jt\<close> is a parameter of the analyzer: an array of 256 entries, none
  of them nil.\<close>

record operation =
  minStack :: nat
  maxStack :: nat
  immediate :: nat
  terminal :: bool

type_synonym JumpTable = "byte \<Rightarrow> operation"

text \<open>The errors the analyzer returns. \<open>fmt.Errorf("%w: ...")\<close> wraps a sentinel with a
  position text; the model keeps the sentinel (what \<open>errors.Is\<close> sees) and the two
  payloads \<open>ErrStackUnderflow{stackLen, required}\<close> and \<open>ErrStackOverflow{stackLen, limit}\<close>.
  \<open>Panic\<close> stands for a Go run-time panic (index or slice bound out of range).\<close>

datatype error =
    ErrUnreachableCode
  | ErrStackUnderflow int int
  | ErrStackOverflow int int
  | ErrInvalidNumberOfOutputs
  | ErrInvalidOutputs
  | ErrInvalidCodeTermination
  | ErrInvalidBackwardJump
  | ErrInvalidMaxStackHeight
  | Panic

text \<open>The analysis state that lives across loop iterations: the map
  \<open>stackBounds map[int]*bounds\<close> and the accumulator \<open>maxStackHeight\<close>. The map is an
  association list with one pair per key (\<open>AList.update\<close> replaces the value of a key
  that is present), so that \<open>len(stackBounds)\<close> is its length. Every
  \<open>&bounds{...}\<close> is a fresh struct that is never written again, so the pointers are
  modelled by their values.\<close>

record vstate =
  stackBounds :: "(int \<times> bounds) list"
  maxStackHeight :: int

subsection \<open>Constants that are declared outside src/\<close>

text \<open>Modelled from the spec: \<open>params.StackLimit\<close> is not under src/; the spec
  gives the limit of 1024 stack items, and the interpreter's \<open>opCallf\<close> and \<open>opJumpf\<close>
  (src/core/vm/eof_instructions.go) write the same limit as the literal 1024.\<close>

definition StackLimit :: int where
  "StackLimit = 1024"

text \<open>Modelled from the spec: the opcode numbers are declared in a file that is not under
  src/. The spec's scenarios give \<open>E0\<close> for \<open>RJUMP\<close>, \<open>33\<close> for \<open>CALLER\<close>,
  \<open>50\<close> for \<open>POP\<close>, \<open>60\<close> for \<open>PUSH1\<close>, \<open>01\<close> for \<open>ADD\<close> and \<open>00\<close> for
  \<open>STOP\<close>. The spec names the other opcodes without their numbers; they are given the
  numbers of the EVM and of the EOF proposals the repository implements. The general
  lemmas below use of these numbers only that they differ from one another.\<close>

definition STOP :: byte where "STOP = 0x00"
definition ADD :: byte where "ADD = 0x01"
definition CALLER :: byte where "CALLER = 0x33"
definition CODESIZE :: byte where "CODESIZE = 0x38"
definition CODECOPY :: byte where "CODECOPY = 0x39"
definition EXTCODESIZE :: byte where "EXTCODESIZE = 0x3b"
definition EXTCODECOPY :: byte where "EXTCODECOPY = 0x3c"
definition EXTCODEHASH :: byte where "EXTCODEHASH = 0x3f"
definition POP :: byte where "POP = 0x50"
definition JUMP :: byte where "JUMP = 0x56"
definition JUMPI :: byte where "JUMPI = 0x57"
definition PC :: byte where "PC = 0x58"
definition GAS :: byte where "GAS = 0x5a"
definition PUSH0 :: byte where "PUSH0 = 0x5f"
definition PUSH1 :: byte where "PUSH1 = 0x60"
definition DATALOAD :: byte where "DATALOAD = 0xd0"
definition DATALOADN :: byte where "DATALOADN = 0xd1"
definition DATASIZE :: byte where "DATASIZE = 0xd2"
definition DATACOPY :: byte where "DATACOPY = 0xd3"
definition RJUMP :: byte where "RJUMP = 0xe0"
definition RJUMPI :: byte where "RJUMPI = 0xe1"
definition RJUMPV :: byte where "RJUMPV = 0xe2"
definition CALLF :: byte where "CALLF = 0xe3"
definition RETF :: byte where "RETF = 0xe4"
definition JUMPF :: byte where "JUMPF = 0xe5"
definition DUPN :: byte where "DUPN = 0xe6"
definition SWAPN :: byte where "SWAPN = 0xe7"
definition EXCHANGE :: byte where "EXCHANGE = 0xe8"
definition EOFCREATE :: byte where "EOFCREATE = 0xec"
definition TXCREATE :: byte where "TXCREATE = 0xed"
definition RETURNCONTRACT :: byte where "RETURNCONTRACT = 0xee"
definition CREATE :: byte where "CREATE = 0xf0"
definition CALL :: byte where "CALL = 0xf1"
definition CALLCODE :: byte where "CALLCODE = 0xf2"
definition DELEGATECALL :: byte where "DELEGATECALL = 0xf4"
definition CREATE2 :: byte where "CREATE2 = 0xf5"
definition RETURNDATALOAD :: byte where "RETURNDATALOAD = 0xf7"
definition EXTCALL :: byte where "EXTCALL = 0xf8"
definition EXTDELEGATECALL :: byte where "EXTDELEGATECALL = 0xf9"
definition STATICCALL :: byte where "STATICCALL = 0xfa"
definition SELFDESTRUCT :: byte where "SELFDESTRUCT = 0xff"

text \<open>Modelled from the spec: the functions \<open>minStack(pops, push)\<close> and
  \<open>maxStack(pops, push)\<close> are not under src/. The spec: \<open>min_stack\<close> is the number of
  items the opcode consumes, \<open>max_stack\<close> is \<open>1024 - (outputs - inputs)\<close>. They are
  named \<open>minStackOf\<close> and \<open>maxStackOf\<close> here, \<open>minStack\<close> and \<open>maxStack\<close> being the
  fields of \<open>operation\<close> as well.\<close>

definition minStackOf :: "nat \<Rightarrow> nat \<Rightarrow> nat" where
  "minStackOf pops push = pops"

definition maxStackOf :: "nat \<Rightarrow> nat \<Rightarrow> nat" where
  "maxStackOf pops push = 1024 + pops - push"

text \<open>The operation \<open>undefined\<close> of \<open>enableEOF\<close> (src/core/vm/eips.go):
  \<open>minStack(0, 0)\<close>, \<open>maxStack(0, 0)\<close>, no operand, not terminal. The fields
  \<open>execute\<close>, \<open>constantGas\<close>, \<open>dynamicGas\<close>, \<open>memorySize\<close> and \<open>undefined\<close> of an
  operation are not read by the analyzer and are left out of the record.\<close>

definition undefinedOp :: operation where
  "undefinedOp = \<lparr>minStack = minStackOf 0 0, maxStack = maxStackOf 0 0, immediate = 0, terminal = False\<rparr>"

text \<open>\<open>enableEOF\<close> (src/core/vm/eips.go): every assignment of the source, in the
  source's order (a later assignment to the same opcode wins, as in the source, whose last
  assignment is to \<open>STATICCALL\<close>).\<close>

definition enableEOF :: "JumpTable \<Rightarrow> JumpTable" where
  "enableEOF jt = jt
     (CALL := undefinedOp,
      CALLCODE := undefinedOp,
      DELEGATECALL := undefinedOp,
      STATICCALL := undefinedOp,
      SELFDESTRUCT := undefinedOp,
      JUMP := undefinedOp,
      JUMPI := undefinedOp,
      PC := undefinedOp,
      CREATE := undefinedOp,
      CREATE2 := undefinedOp,
      CODESIZE := undefinedOp,
      CODECOPY := undefinedOp,
      EXTCODESIZE := undefinedOp,
      EXTCODECOPY := undefinedOp,
      EXTCODEHASH := undefinedOp,
      GAS := undefinedOp,
      RJUMP := \<lparr>minStack = minStackOf 0 0, maxStack = maxStackOf 0 0, immediate = 2, terminal = True\<rparr>,
      RJUMPI := \<lparr>minStack = minStackOf 1 0, maxStack = maxStackOf 1 0, immediate = 2, terminal = False\<rparr>,
      RJUMPV := \<lparr>minStack = minStackOf 1 0, maxStack = maxStackOf 1 0, immediate = 1, terminal = False\<rparr>,
      CALLF := \<lparr>minStack = minStackOf 0 0, maxStack = maxStackOf 0 0, immediate = 2, terminal = False\<rparr>,
      RETF := \<lparr>minStack = minStackOf 0 0, maxStack = maxStackOf 0 0, immediate = 0, terminal = True\<rparr>,
      JUMPF := \<lparr>minStack = minStackOf 0 0, maxStack = maxStackOf 0 0, immediate = 2, terminal = False\<rparr>,
      EOFCREATE := \<lparr>minStack = minStackOf 4 1, maxStack = maxStackOf 4 1, immediate = 1, terminal = False\<rparr>,
      TXCREATE := \<lparr>minStack = minStackOf 5 1, maxStack = maxStackOf 5 1, immediate = 0, terminal = False\<rparr>,
      RETURNCONTRACT := \<lparr>minStack = minStackOf 2 0, maxStack = maxStackOf 2 0, immediate = 1, terminal = False\<rparr>,
      DATALOAD := \<lparr>minStack = minStackOf 1 1, maxStack = maxStackOf 1 1, immediate = 0, terminal = False\<rparr>,
      DATALOADN := \<lparr>minStack = minStackOf 0 1, maxStack = maxStackOf 0 1, immediate = 2, terminal = False\<rparr>,
      DATASIZE := \<lparr>minStack = minStackOf 0 1, maxStack = maxStackOf 0 1, immediate = 0, terminal = False\<rparr>,
      DATACOPY := \<lparr>minStack = minStackOf 3 0, maxStack = maxStackOf 3 0, immediate = 0, terminal = False\<rparr>,
      DUPN := \<lparr>minStack = minStackOf 0 1, maxStack = maxStackOf 0 1, immediate = 1, terminal = False\<rparr>,
      SWAPN := \<lparr>minStack = minStackOf 0 0, maxStack = maxStackOf 0 0, immediate = 1, terminal = False\<rparr>,
      EXCHANGE := \<lparr>minStack = minStackOf 0 0, maxStack = maxStackOf 0 0, immediate = 1, terminal = False\<rparr>,
      RETURNDATALOAD := \<lparr>minStack = minStackOf 1 1, maxStack = maxStackOf 1 1, immediate = 0, terminal = False\<rparr>,
      EXTCALL := \<lparr>minStack = minStackOf 6 1, maxStack = maxStackOf 6 1, immediate = 0, terminal = False\<rparr>,
      EXTDELEGATECALL := \<lparr>minStack = minStackOf 5 1, maxStack = maxStackOf 5 1, immediate = 0, terminal = False\<rparr>,
      STATICCALL := \<lparr>minStack = minStackOf 5 1, maxStack = maxStackOf 5 1, immediate = 0, terminal = False\<rparr>)"

text \<open>Modelled from the spec: the table \<open>enableEOF\<close> is applied to is built outside
  src/. Its entries for the opcodes of the spec's scenarios are given: \<open>STOP\<close>
  (terminal, pops and pushes nothing), \<open>CALLER\<close> and \<open>PUSH0\<close> (push one item),
  \<open>PUSH1\<close> (one operand byte, pushes one item), \<open>POP\<close> (pops one item) and \<open>ADD\<close>
  (pops two items, pushes one). Every other byte has the operation \<open>undefinedOp\<close>;
  the concrete runs below use the opcodes given here and those of \<open>enableEOF\<close> only.\<close>

definition baseTable :: JumpTable where
  "baseTable = (\<lambda>_. undefinedOp)
     (STOP := \<lparr>minStack = minStackOf 0 0, maxStack = maxStackOf 0 0, immediate = 0, terminal = True\<rparr>,
      ADD := \<lparr>minStack = minStackOf 2 1, maxStack = maxStackOf 2 1, immediate = 0, terminal = False\<rparr>,
      CALLER := \<lparr>minStack = minStackOf 0 1, maxStack = maxStackOf 0 1, immediate = 0, terminal = False\<rparr>,
      POP := \<lparr>minStack = minStackOf 1 0, maxStack = maxStackOf 1 0, immediate = 0, terminal = False\<rparr>,
      PUSH0 := \<lparr>minStack = minStackOf 0 1, maxStack = maxStackOf 0 1, immediate = 0, terminal = False\<rparr>,
      PUSH1 := \<lparr>minStack = minStackOf 0 1, maxStack = maxStackOf 0 1, immediate = 1, terminal = False\<rparr>)"

definition eofTable :: JumpTable where
  "eofTable = enableEOF baseTable"

subsection \<open>Slices, immediates and the type table\<close>

text \<open>\<open>code[k]\<close>: Go panics when the index is out of range.\<close>

definition byteAt :: "byte list \<Rightarrow> int \<Rightarrow> error + byte" where
  "byteAt code k =
     (if 0 \<le> k \<and> k < int (length code) then Inr (code ! nat k) else Inl Panic)"

text \<open>\<open>code[k:]\<close>: Go panics when \<open>k\<close> is negative or beyond the length.\<close>

definition sliceFrom :: "byte list \<Rightarrow> int \<Rightarrow> error + byte list" where
  "sliceFrom code k =
     (if 0 \<le> k \<and> k \<le> int (length code) then Inr (drop (nat k) code) else Inl Panic)"

text \<open>Modelled from the spec: \<open>parseUint16\<close> is not under src/. The spec's
  \<open>read_u16_be\<close> is the unsigned big-endian two-byte read that fails when fewer than two
  bytes remain. Both call sites discard the error (\<open>arg, _ := parseUint16(...)\<close>) and go
  on with the returned integer, taken to be 0 in the failure case; no theorem below
  reads a section index from fewer than two bytes.\<close>

definition parseUint16 :: "byte list \<Rightarrow> int" where
  "parseUint16 b = (case b of b0 # b1 # _ \<Rightarrow> uint b0 * 256 + uint b1 | _ \<Rightarrow> 0)"

text \<open>Modelled from the spec: \<open>parseInt16\<close> is not under src/. The spec's
  \<open>read_i16_be\<close> is the signed (two's complement) big-endian two-byte read that fails
  when fewer than two bytes remain. The Go function returns an \<open>int\<close> only, so the
  failure is a panic.\<close>

definition parseInt16 :: "byte list \<Rightarrow> error + int" where
  "parseInt16 b =
     (case b of
        b0 # b1 # _ \<Rightarrow>
          (let u = uint b0 * 256 + uint b1 in Inr (if u < 32768 then u else u - 65536))
      | _ \<Rightarrow> Inl Panic)"

text \<open>\<open>metadata[i]\<close> on \<open>[]*FunctionMetadata\<close> (no nil entries).\<close>

definition metadataAt :: "FunctionMetadata list \<Rightarrow> int \<Rightarrow> error + FunctionMetadata" where
  "metadataAt metadata i =
     (if 0 \<le> i \<and> i < int (length metadata) then Inr (metadata ! nat i) else Inl Panic)"

text \<open>The closure \<open>setBounds\<close>: stores fresh bounds at \<open>pos\<close> and raises the
  accumulator; it returns the stored bounds, which the callers below rebuild from the
  arguments.\<close>

definition setBounds :: "vstate \<Rightarrow> int \<Rightarrow> int \<Rightarrow> int \<Rightarrow> vstate" where
  "setBounds st pos mn maxi =
     st\<lparr>stackBounds := AList.update pos \<lparr>min_b = mn, max_b = maxi\<rparr> (stackBounds st),
        maxStackHeight := max (maxStackHeight st) maxi\<rparr>"

text \<open>\<open>StackLimit - jt[op].maxStack + jt[op].minStack\<close>, computed in \<open>int\<close>.\<close>

definition changeOf :: "JumpTable \<Rightarrow> byte \<Rightarrow> int" where
  "changeOf jt op = StackLimit - int (maxStack (jt op)) + int (minStack (jt op))"

subsection \<open>The revision in src/core/vm/validate_linear.go\<close>

text \<open>The first \<open>switch op\<close> of the loop body. The result is the position (moved by 2
  after \<open>DUPN\<close> and \<open>SWAPN\<close>), the current bounds (replaced after \<open>CALLF\<close>) and the
  state.\<close>

definition checkOp ::
  "byte list \<Rightarrow> FunctionMetadata \<Rightarrow> FunctionMetadata list \<Rightarrow> JumpTable \<Rightarrow> int \<Rightarrow> byte \<Rightarrow>
     bounds \<Rightarrow> vstate \<Rightarrow> error + (int \<times> bounds \<times> vstate)" where
  "checkOp code sec metadata jt pos op cur st =
     (if op = CALLF then
        (case sliceFrom code (pos + 1) of
           Inl e \<Rightarrow> Inl e
         | Inr b \<Rightarrow>
           (case metadataAt metadata (parseUint16 b) of
              Inl e \<Rightarrow> Inl e
            | Inr newSection \<Rightarrow>
                if uint (Input newSection) > min_b cur
                then Inl (ErrStackUnderflow (min_b cur) (uint (Input newSection)))
                else if max_b cur + uint (MaxStackHeight newSection) - uint (Input newSection)
                          > StackLimit
                then Inl (ErrStackOverflow
                       (max_b cur + uint (MaxStackHeight newSection) - uint (Input newSection))
                       StackLimit)
                else
                  (let change = uint (Output newSection) - uint (Input newSection)
                   in Inr (pos, \<lparr>min_b = min_b cur + change, max_b = max_b cur + change\<rparr>,
                           setBounds st pos (min_b cur + change) (max_b cur + change)))))
      else if op = RETF then
        (if max_b cur \<noteq> min_b cur then Inl ErrInvalidNumberOfOutputs
         else if uint (Output sec) > min_b cur then Inl ErrInvalidOutputs
         else Inr (pos, cur, st))
      else if op = JUMPF then
        (case sliceFrom code (pos + 1) of
           Inl e \<Rightarrow> Inl e
         | Inr b \<Rightarrow>
           (case metadataAt metadata (parseUint16 b) of
              Inl e \<Rightarrow> Inl e
            | Inr newSection \<Rightarrow>
                if max_b cur + uint (MaxStackHeight newSection) - uint (Input newSection)
                     > StackLimit
                then Inl (ErrStackOverflow
                       (max_b cur + uint (MaxStackHeight newSection) - uint (Input newSection))
                       StackLimit)
                else if Output newSection = 0x80 then
                  (if uint (Input newSection) \<ge> min_b cur
                   then Inl (ErrStackUnderflow (min_b cur) (uint (Input newSection)))
                   else Inr (pos, cur, st))
                else if max_b cur \<noteq> min_b cur then Inl ErrInvalidNumberOfOutputs
                else if max_b cur
                          \<noteq> uint (Output sec) + uint (Input newSection) - uint (Output newSection)
                then Inl ErrInvalidNumberOfOutputs
                else Inr (pos, cur, st)))
      else if op = DUPN \<or> op = SWAPN then
        (case byteAt code (pos + 1) of
           Inl e \<Rightarrow> Inl e
         | Inr v \<Rightarrow>
             (let arg = uint v + 1
              in if arg \<ge> min_b cur then Inl (ErrStackUnderflow (min_b cur) arg)
                 else Inr (pos + 2, cur, st)))
      else if op = EXCHANGE then
        (case byteAt code (pos + 1) of
           Inl e \<Rightarrow> Inl e
         | Inr v \<Rightarrow>
             (let arg = uint v; n = arg div 16 + 1; m = arg mod 16 + 1
              in if n + m \<ge> min_b cur then Inl (ErrStackUnderflow (min_b cur) (n + m))
                 else Inr (pos, cur, st)))
      else
        (if int (minStack (jt op)) > min_b cur
         then Inl (ErrStackUnderflow (min_b cur) (int (minStack (jt op))))
         else Inr (pos, cur, st)))"

text \<open>The loop that decodes the jump table of \<open>RJUMPV\<close>:
  \<open>for i := 0; i < count-1; i++ { arg := parseInt16(code[pos+2+2*i:]); next = append(next, base+arg) }\<close>,
  over the list of the indices \<open>i\<close>.\<close>

fun rjumpvTargets :: "byte list \<Rightarrow> int \<Rightarrow> int \<Rightarrow> nat list \<Rightarrow> error + int list" where
  "rjumpvTargets code pos base [] = Inr []"
| "rjumpvTargets code pos base (i # is) =
     (case sliceFrom code (pos + 2 + 2 * int i) of
        Inl e \<Rightarrow> Inl e
      | Inr b \<Rightarrow>
        (case parseInt16 b of
           Inl e \<Rightarrow> Inl e
         | Inr arg \<Rightarrow>
           (case rjumpvTargets code pos base is of
              Inl e \<Rightarrow> Inl e
            | Inr ts \<Rightarrow> Inr ((base + arg) # ts))))"

text \<open>The second \<open>switch op\<close>: the slice \<open>next\<close>, as its first element \<open>next[0]\<close> and
  the rest \<open>next[1:]\<close>.\<close>

definition nextOffsets :: "byte list \<Rightarrow> JumpTable \<Rightarrow> int \<Rightarrow> byte \<Rightarrow> error + (int \<times> int list)" where
  "nextOffsets code jt pos op =
     (if op = RJUMP then
        (case sliceFrom code (pos + 1) of
           Inl e \<Rightarrow> Inl e
         | Inr b \<Rightarrow>
           (case parseInt16 b of Inl e \<Rightarrow> Inl e | Inr arg \<Rightarrow> Inr (pos + 2 + arg, [])))
      else if op = RJUMPI then
        (case sliceFrom code (pos + 1) of
           Inl e \<Rightarrow> Inl e
         | Inr b \<Rightarrow>
           (case parseInt16 b of Inl e \<Rightarrow> Inl e | Inr arg \<Rightarrow> Inr (pos + 2, [pos + 2 + arg])))
      else if op = RJUMPV then
        (case byteAt code (pos + 1) of
           Inl e \<Rightarrow> Inl e
         | Inr c \<Rightarrow>
             (let count = uint c + 1
              in case rjumpvTargets code pos (pos + 2 + 2 * count) [0..<nat (count - 1)] of
                   Inl e \<Rightarrow> Inl e
                 | Inr ts \<Rightarrow> Inr (pos + 2 + 2 * count, ts)))
      else if immediate (jt op) \<noteq> 0 then Inr (pos + int (immediate (jt op)), [])
      else Inr (pos, []))"

text \<open>One round of \<open>for _, instr := range next[1:]\<close>.\<close>

definition propagateOne ::
  "byte list \<Rightarrow> JumpTable \<Rightarrow> int \<Rightarrow> bounds \<Rightarrow> int \<Rightarrow> vstate \<Rightarrow> error + vstate" where
  "propagateOne code jt pos cur instr st =
     (let nextPC = instr + 1 in
      if nextPC > int (length code) then Inl ErrInvalidCodeTermination
      else
        (case byteAt code nextPC of
           Inl e \<Rightarrow> Inl e
         | Inr nextOP \<Rightarrow>
             (let nextBounds =
                    (case map_of (stackBounds st) nextPC of
                       None \<Rightarrow> \<lparr>min_b = min_b cur + changeOf jt nextOP,
                                  max_b = max_b cur + changeOf jt nextOP\<rparr>
                     | Some nb \<Rightarrow> \<lparr>min_b = min (min_b nb) (min_b cur),
                                     max_b = max (max_b nb) (max_b cur)\<rparr>);
                  st' = setBounds st nextPC (min_b nextBounds) (max_b nextBounds)
              in if nextPC < pos \<and> max_b nextBounds \<noteq> max_b cur + changeOf jt nextOP
                 then Inl ErrInvalidBackwardJump
                 else if nextPC < pos \<and> min_b nextBounds \<noteq> min_b cur + changeOf jt nextOP
                 then Inl ErrInvalidBackwardJump
                 else Inr st')))"

fun propagate ::
  "byte list \<Rightarrow> JumpTable \<Rightarrow> int \<Rightarrow> bounds \<Rightarrow> int list \<Rightarrow> vstate \<Rightarrow> error + vstate" where
  "propagate code jt pos cur [] st = Inr st"
| "propagate code jt pos cur (instr # rest) st =
     (case propagateOne code jt pos cur instr st of
        Inl e \<Rightarrow> Inl e
      | Inr st' \<Rightarrow> propagate code jt pos cur rest st')"

text \<open>The body of the outer loop at position \<open>pos\<close>, up to the loop's own \<open>pos++\<close>:
  the new position and state, or the error returned.\<close>

definition body ::
  "byte list \<Rightarrow> FunctionMetadata \<Rightarrow> FunctionMetadata list \<Rightarrow> JumpTable \<Rightarrow> int \<Rightarrow> vstate \<Rightarrow>
     error + (int \<times> vstate)" where
  "body code sec metadata jt pos st =
     (case byteAt code pos of
        Inl e \<Rightarrow> Inl e
      | Inr op \<Rightarrow>
        (case map_of (stackBounds st) pos of
           None \<Rightarrow> Inl ErrUnreachableCode
         | Some currentBounds \<Rightarrow>
           (case checkOp code sec metadata jt pos op currentBounds st of
              Inl e \<Rightarrow> Inl e
            | Inr (pos1, cur, st1) \<Rightarrow>
              (case nextOffsets code jt pos1 op of
                 Inl e \<Rightarrow> Inl e
               | Inr (next0, rest) \<Rightarrow>
                 (case propagate code jt pos1 cur rest st1 of
                    Inl e \<Rightarrow> Inl e
                  | Inr st2 \<Rightarrow>
                      if \<not> terminal (jt op) \<and> op \<noteq> RJUMP
                      then Inr (next0, setBounds st2 (next0 + 1)
                                  (min_b cur + changeOf jt op) (max_b cur + changeOf jt op))
                      else Inr (next0, st2))))))"

text \<open>The outer loop \<open>for pos := 0; pos < len(code); pos++\<close>. \<open>RJUMP\<close> sets \<open>pos\<close> to
  its target, which may lie behind, so the loop need not end: \<open>None\<close> is a run that
  does not return.\<close>

partial_function (option) walk ::
  "byte list \<Rightarrow> FunctionMetadata \<Rightarrow> FunctionMetadata list \<Rightarrow> JumpTable \<Rightarrow> int \<Rightarrow> vstate \<Rightarrow>
     (error + vstate) option" where
  "walk code sec metadata jt pos st =
     (if pos < int (length code) then
        (case body code sec metadata jt pos st of
           Inl e \<Rightarrow> Some (Inl e)
         | Inr (pos', st') \<Rightarrow> walk code sec metadata jt (pos' + 1) st')
      else Some (Inr st))"

text \<open>The state before the loop: \<open>stackBounds[0] = &bounds{Input, Input}\<close> and
  \<open>maxStackHeight = Input\<close>.\<close>

definition initState :: "FunctionMetadata \<Rightarrow> vstate" where
  "initState sec =
     \<lparr>stackBounds = [(0, \<lparr>min_b = uint (Input sec), max_b = uint (Input sec)\<rparr>)],
      maxStackHeight = uint (Input sec)\<rparr>"

text \<open>The checks after the loop and the value returned.\<close>

definition finish :: "FunctionMetadata \<Rightarrow> vstate \<Rightarrow> error + int" where
  "finish sec st =
     (if maxStackHeight st \<ge> StackLimit then Inl (ErrStackOverflow (maxStackHeight st) StackLimit)
      else if maxStackHeight st \<noteq> uint (MaxStackHeight sec) then Inl ErrInvalidMaxStackHeight
      else Inr (int (length (stackBounds st))))"

definition validateControlFlow2 ::
  "byte list \<Rightarrow> int \<Rightarrow> FunctionMetadata list \<Rightarrow> JumpTable \<Rightarrow> (error + int) option" where
  "validateControlFlow2 code section metadata jt =
     (case metadataAt metadata section of
        Inl e \<Rightarrow> Some (Inl e)
      | Inr sec \<Rightarrow>
        (case walk code sec metadata jt 0 (initState sec) of
           None \<Rightarrow> None
         | Some (Inl e) \<Rightarrow> Some (Inl e)
         | Some (Inr st) \<Rightarrow> Some (finish sec st)))"

text \<open>The configurations \<open>(pos, state)\<close> at which the loop condition is evaluated
  during a run: the start, and after every completed round the position after
  \<open>pos++\<close>.\<close>

inductive visits ::
  "byte list \<Rightarrow> FunctionMetadata \<Rightarrow> FunctionMetadata list \<Rightarrow> JumpTable \<Rightarrow> int \<Rightarrow> vstate \<Rightarrow> bool"
  for code sec metadata jt where
    start: "visits code sec metadata jt 0 (initState sec)"
  | step: "visits code sec metadata jt pos st \<Longrightarrow> pos < int (length code) \<Longrightarrow>
           body code sec metadata jt pos st = Inr (pos', st') \<Longrightarrow>
           visits code sec metadata jt (pos' + 1) st'"

subsection \<open>The revision in src/unnamed/part_001\<close>

text \<open>The first \<open>switch op\<close>. It differs from \<open>checkOp\<close> in three comparisons:
  \<open>want > have\<close> instead of \<open>want >= have\<close> at \<open>JUMPF\<close> into a section with
  output \<open>0x80\<close>, at \<open>DUPN\<close>/\<open>SWAPN\<close> and at \<open>EXCHANGE\<close>.\<close>

definition checkOp_rev ::
  "byte list \<Rightarrow> FunctionMetadata \<Rightarrow> FunctionMetadata list \<Rightarrow> JumpTable \<Rightarrow> int \<Rightarrow> byte \<Rightarrow>
     bounds \<Rightarrow> vstate \<Rightarrow> error + (int \<times> bounds \<times> vstate)" where
  "checkOp_rev code sec metadata jt pos op cur st =
     (if op = CALLF then
        (case sliceFrom code (pos + 1) of
           Inl e \<Rightarrow> Inl e
         | Inr b \<Rightarrow>
           (case metadataAt metadata (parseUint16 b) of
              Inl e \<Rightarrow> Inl e
            | Inr newSection \<Rightarrow>
                if uint (Input newSection) > min_b cur
                then Inl (ErrStackUnderflow (min_b cur) (uint (Input newSection)))
                else if max_b cur + uint (MaxStackHeight newSection) - uint (Input newSection)
                          > StackLimit
                then Inl (ErrStackOverflow
                       (max_b cur + uint (MaxStackHeight newSection) - uint (Input newSection))
                       StackLimit)
                else
                  (let change = uint (Output newSection) - uint (Input newSection)
                   in Inr (pos, \<lparr>min_b = min_b cur + change, max_b = max_b cur + change\<rparr>,
                           setBounds st pos (min_b cur + change) (max_b cur + change)))))
      else if op = RETF then
        (if max_b cur \<noteq> min_b cur then Inl ErrInvalidNumberOfOutputs
         else if uint (Output sec) > min_b cur then Inl ErrInvalidOutputs
         else Inr (pos, cur, st))
      else if op = JUMPF then
        (case sliceFrom code (pos + 1) of
           Inl e \<Rightarrow> Inl e
         | Inr b \<Rightarrow>
           (case metadataAt metadata (parseUint16 b) of
              Inl e \<Rightarrow> Inl e
            | Inr newSection \<Rightarrow>
                if max_b cur + uint (MaxStackHeight newSection) - uint (Input newSection)
                     > StackLimit
                then Inl (ErrStackOverflow
                       (max_b cur + uint (MaxStackHeight newSection) - uint (Input newSection))
                       StackLimit)
                else if Output newSection = 0x80 then
                  (if uint (Input newSection) > min_b cur
                   then Inl (ErrStackUnderflow (min_b cur) (uint (Input newSection)))
                   else Inr (pos, cur, st))
                else if max_b cur \<noteq> min_b cur then Inl ErrInvalidNumberOfOutputs
                else if max_b cur
                          \<noteq> uint (Output sec) + uint (Input newSection) - uint (Output newSection)
                then Inl ErrInvalidNumberOfOutputs
                else Inr (pos, cur, st)))
      else if op = DUPN \<or> op = SWAPN then
        (case byteAt code (pos + 1) of
           Inl e \<Rightarrow> Inl e
         | Inr v \<Rightarrow>
             (let arg = uint v + 1
              in if arg > min_b cur then Inl (ErrStackUnderflow (min_b cur) arg)
                 else Inr (pos + 2, cur, st)))
      else if op = EXCHANGE then
        (case byteAt code (pos + 1) of
           Inl e \<Rightarrow> Inl e
         | Inr v \<Rightarrow>
             (let arg = uint v; n = arg div 16 + 1; m = arg mod 16 + 1
              in if n + m > min_b cur then Inl (ErrStackUnderflow (min_b cur) (n + m))
                 else Inr (pos, cur, st)))
      else
        (if int (minStack (jt op)) > min_b cur
         then Inl (ErrStackUnderflow (min_b cur) (int (minStack (jt op))))
         else Inr (pos, cur, st)))"

text \<open>\<open>currentStackMax\<close> and \<open>currentStackMin\<close>: the current bounds, moved by
  \<open>StackLimit - jt[op].maxStack\<close> unless the opcode is terminal or \<open>CALLF\<close>.\<close>

definition exitBounds_rev :: "JumpTable \<Rightarrow> byte \<Rightarrow> bounds \<Rightarrow> bounds" where
  "exitBounds_rev jt op cur =
     (if \<not> terminal (jt op) \<and> op \<noteq> CALLF
      then \<lparr>min_b = min_b cur + (StackLimit - int (maxStack (jt op))),
            max_b = max_b cur + (StackLimit - int (maxStack (jt op)))\<rparr>
      else cur)"

text \<open>The second \<open>switch op\<close>: as \<open>nextOffsets\<close>, but the \<open>RJUMPV\<close> offsets are
  taken from \<open>pos+1+2*count\<close>.\<close>

definition nextOffsets_rev ::
  "byte list \<Rightarrow> JumpTable \<Rightarrow> int \<Rightarrow> byte \<Rightarrow> error + (int \<times> int list)" where
  "nextOffsets_rev code jt pos op =
     (if op = RJUMP then
        (case sliceFrom code (pos + 1) of
           Inl e \<Rightarrow> Inl e
         | Inr b \<Rightarrow>
           (case parseInt16 b of Inl e \<Rightarrow> Inl e | Inr arg \<Rightarrow> Inr (pos + 2 + arg, [])))
      else if op = RJUMPI then
        (case sliceFrom code (pos + 1) of
           Inl e \<Rightarrow> Inl e
         | Inr b \<Rightarrow>
           (case parseInt16 b of Inl e \<Rightarrow> Inl e | Inr arg \<Rightarrow> Inr (pos + 2, [pos + 2 + arg])))
      else if op = RJUMPV then
        (case byteAt code (pos + 1) of
           Inl e \<Rightarrow> Inl e
         | Inr c \<Rightarrow>
             (let count = uint c + 1
              in case rjumpvTargets code pos (pos + 1 + 2 * count) [0..<nat (count - 1)] of
                   Inl e \<Rightarrow> Inl e
                 | Inr ts \<Rightarrow> Inr (pos + 1 + 2 * count, ts)))
      else if immediate (jt op) \<noteq> 0 then Inr (pos + int (immediate (jt op)), [])
      else Inr (pos, []))"

text \<open>One round of \<open>for _, instr := range next[1:]\<close>; \<open>ex\<close> holds
  \<open>currentStackMin\<close> and \<open>currentStackMax\<close>.\<close>

definition propagateOne_rev ::
  "byte list \<Rightarrow> JumpTable \<Rightarrow> int \<Rightarrow> bounds \<Rightarrow> bounds \<Rightarrow> int \<Rightarrow> vstate \<Rightarrow> error + vstate" where
  "propagateOne_rev code jt pos cur ex instr st =
     (let nextPC = instr + 1 in
      if nextPC \<ge> int (length code) then Inl ErrInvalidCodeTermination
      else
        (case byteAt code nextPC of
           Inl e \<Rightarrow> Inl e
         | Inr nextOP \<Rightarrow>
             if nextPC \<ge> pos then
               (case map_of (stackBounds st) nextPC of
                  None \<Rightarrow> Inr (setBounds st nextPC (min_b ex) (max_b ex))
                | Some nb \<Rightarrow>
                    Inr (setBounds st nextPC (min (min_b nb) (min_b ex)) (max (max_b nb) (max_b ex))))
             else
               (case map_of (stackBounds st) nextPC of
                  None \<Rightarrow> Inl ErrInvalidBackwardJump
                | Some nb \<Rightarrow>
                    if max_b nb + changeOf jt nextOP \<noteq> max_b cur then Inl ErrInvalidBackwardJump
                    else if min_b nb + changeOf jt nextOP \<noteq> min_b cur then Inl ErrInvalidBackwardJump
                    else Inr st)))"

fun propagate_rev ::
  "byte list \<Rightarrow> JumpTable \<Rightarrow> int \<Rightarrow> bounds \<Rightarrow> bounds \<Rightarrow> int list \<Rightarrow> vstate \<Rightarrow> error + vstate" where
  "propagate_rev code jt pos cur ex [] st = Inr st"
| "propagate_rev code jt pos cur ex (instr # rest) st =
     (case propagateOne_rev code jt pos cur ex instr st of
        Inl e \<Rightarrow> Inl e
      | Inr st' \<Rightarrow> propagate_rev code jt pos cur ex rest st')"

text \<open>The body of the outer loop, up to the loop's own \<open>pos++\<close>.\<close>

definition body_rev ::
  "byte list \<Rightarrow> FunctionMetadata \<Rightarrow> FunctionMetadata list \<Rightarrow> JumpTable \<Rightarrow> int \<Rightarrow> vstate \<Rightarrow>
     error + (int \<times> vstate)" where
  "body_rev code sec metadata jt pos st =
     (case byteAt code pos of
        Inl e \<Rightarrow> Inl e
      | Inr op \<Rightarrow>
        (case map_of (stackBounds st) pos of
           None \<Rightarrow> Inl ErrUnreachableCode
         | Some currentBounds \<Rightarrow>
           (case checkOp_rev code sec metadata jt pos op currentBounds st of
              Inl e \<Rightarrow> Inl e
            | Inr (pos1, cur, st1) \<Rightarrow>
              (case nextOffsets_rev code jt pos1 op of
                 Inl e \<Rightarrow> Inl e
               | Inr (next0, rest) \<Rightarrow>
                 (case propagate_rev code jt pos1 cur (exitBounds_rev jt op cur) rest st1 of
                    Inl e \<Rightarrow> Inl e
                  | Inr st2 \<Rightarrow>
                      (let pos2 = (if op \<noteq> RJUMP then next0 else pos1)
                       in if \<not> terminal (jt op)
                          then Inr (pos2, setBounds st2 (pos2 + 1)
                                      (min_b (exitBounds_rev jt op cur))
                                      (max_b (exitBounds_rev jt op cur)))
                          else Inr (pos2, st2)))))))"

text \<open>In this revision \<open>pos\<close> never moves back inside the body, so the outer loop ends.\<close>

lemma checkOp_rev_pos:
  "checkOp_rev code sec metadata jt pos op cur st = Inr (pos1, cur1, st1) \<Longrightarrow> pos \<le> pos1"
  by (auto simp: checkOp_rev_def Let_def split: if_splits sum.splits)

lemma nextOffsets_rev_pos:
  "nextOffsets_rev code jt pos op = Inr (next0, rest) \<Longrightarrow> op \<noteq> RJUMP \<Longrightarrow> pos \<le> next0"
  by (auto simp: nextOffsets_rev_def Let_def split: if_splits sum.splits)

lemma body_rev_pos:
  assumes "body_rev code sec metadata jt pos st = Inr (pos', st')"
  shows "pos \<le> pos'"
proof -
  from assms obtain op currentBounds pos1 cur st1 next0 rest where
    c: "checkOp_rev code sec metadata jt pos op currentBounds st = Inr (pos1, cur, st1)" and
    n: "nextOffsets_rev code jt pos1 op = Inr (next0, rest)" and
    p: "pos' = (if op \<noteq> RJUMP then next0 else pos1)"
    by (auto simp: body_rev_def Let_def split: sum.splits option.splits if_splits)
  from c have "pos \<le> pos1" by (rule checkOp_rev_pos)
  moreover have "op \<noteq> RJUMP \<Longrightarrow> pos1 \<le> next0" using n by (rule nextOffsets_rev_pos)
  ultimately show ?thesis using p by (cases "op = RJUMP") auto
qed

function walk_rev ::
  "byte list \<Rightarrow> FunctionMetadata \<Rightarrow> FunctionMetadata list \<Rightarrow> JumpTable \<Rightarrow> int \<Rightarrow> vstate \<Rightarrow>
     error + vstate" where
  "walk_rev code sec metadata jt pos st =
     (if pos < int (length code) then
        (case body_rev code sec metadata jt pos st of
           Inl e \<Rightarrow> Inl e
         | Inr (pos', st') \<Rightarrow> walk_rev code sec metadata jt (pos' + 1) st')
      else Inr st)"
  by pat_completeness auto
termination
proof (relation "measure (\<lambda>(code, sec, metadata, jt, pos, st). nat (int (length code) - pos))")
  show "wf (measure (\<lambda>(code, sec, metadata, jt, pos, st). nat (int (length code) - pos)))"
    by simp
next
  fix code :: "byte list" and sec metadata jt pos st x2 x y
  assume "pos < int (length code)"
    and "body_rev code sec metadata jt pos st = Inr x2"
    and "(x, y) = x2"
  then have "pos \<le> x" using body_rev_pos [of code sec metadata jt pos st x y] by simp
  with \<open>pos < int (length code)\<close>
  show "((code, sec, metadata, jt, x + 1, y), (code, sec, metadata, jt, pos, st))
          \<in> measure (\<lambda>(code, sec, metadata, jt, pos, st). nat (int (length code) - pos))"
    by simp
qed

declare walk_rev.simps [simp del]

text \<open>The state before the loop: \<open>setBounds(0, Input, Input)\<close> on the empty map, with
  \<open>maxStackHeight = Input\<close>.\<close>

definition initState_rev :: "FunctionMetadata \<Rightarrow> vstate" where
  "initState_rev sec =
     setBounds \<lparr>stackBounds = [], maxStackHeight = uint (Input sec)\<rparr> 0
       (uint (Input sec)) (uint (Input sec))"

definition validateControlFlow2_rev ::
  "byte list \<Rightarrow> int \<Rightarrow> FunctionMetadata list \<Rightarrow> JumpTable \<Rightarrow> error + int" where
  "validateControlFlow2_rev code section metadata jt =
     (case metadataAt metadata section of
        Inl e \<Rightarrow> Inl e
      | Inr sec \<Rightarrow>
        (case walk_rev code sec metadata jt 0 (initState_rev sec) of
           Inl e \<Rightarrow> Inl e
         | Inr st \<Rightarrow> finish sec st))"

text \<open>The loop-head configurations of this revision.\<close>

inductive visits_rev ::
  "byte list \<Rightarrow> FunctionMetadata \<Rightarrow> FunctionMetadata list \<Rightarrow> JumpTable \<Rightarrow> int \<Rightarrow> vstate \<Rightarrow> bool"
  for code sec metadata jt where
    start_rev: "visits_rev code sec metadata jt 0 (initState_rev sec)"
  | step_rev: "visits_rev code sec metadata jt pos st \<Longrightarrow> pos < int (length code) \<Longrightarrow>
           body_rev code sec metadata jt pos st = Inr (pos', st') \<Longrightarrow>
           visits_rev code sec metadata jt (pos' + 1) st'"

text \<open>The configuration after \<open>n\<close> completed rounds of the loop, when there are that
  many: an executable reading of the loop's intermediate states, for both revisions.\<close>

fun configAfter ::
  "byte list \<Rightarrow> FunctionMetadata \<Rightarrow> FunctionMetadata list \<Rightarrow> JumpTable \<Rightarrow> nat \<Rightarrow>
     (int \<times> vstate) option" where
  "configAfter code sec metadata jt 0 = Some (0, initState sec)"
| "configAfter code sec metadata jt (Suc n) =
     (case configAfter code sec metadata jt n of
        None \<Rightarrow> None
      | Some (pos, st) \<Rightarrow>
          if pos < int (length code) then
            (case body code sec metadata jt pos st of
               Inl e \<Rightarrow> None
             | Inr (pos', st') \<Rightarrow> Some (pos' + 1, st'))
          else None)"

fun configAfter_rev ::
  "byte list \<Rightarrow> FunctionMetadata \<Rightarrow> FunctionMetadata list \<Rightarrow> JumpTable \<Rightarrow> nat \<Rightarrow>
     (int \<times> vstate) option" where
  "configAfter_rev code sec metadata jt 0 = Some (0, initState_rev sec)"
| "configAfter_rev code sec metadata jt (Suc n) =
     (case configAfter_rev code sec metadata jt n of
        None \<Rightarrow> None
      | Some (pos, st) \<Rightarrow>
          if pos < int (length code) then
            (case body_rev code sec metadata jt pos st of
               Inl e \<Rightarrow> None
             | Inr (pos', st') \<Rightarrow> Some (pos' + 1, st'))
          else None)"

subsection \<open>The states of a run\<close>

text \<open>The states of the analysis during a run of validate_linear.go: the state at every
  loop head, the state after the first \<open>switch\<close> of a round, and the state after each of
  the first \<open>k\<close> rounds of \<open>for _, instr := range next[1:]\<close>. The map and the
  accumulator change only inside \<open>setBounds\<close>, which is called at most once in the
  first \<open>switch\<close>, at most once for every \<open>instr\<close> and at most once at the end of a
  round, so in a run that reaches the end of the loop these are all the states the map
  and the accumulator go through.\<close>

inductive passes ::
  "byte list \<Rightarrow> FunctionMetadata \<Rightarrow> FunctionMetadata list \<Rightarrow> JumpTable \<Rightarrow> vstate \<Rightarrow> bool"
  for code sec metadata jt where
    at_head: "visits code sec metadata jt pos st \<Longrightarrow> passes code sec metadata jt st"
  | after_switch:
      "visits code sec metadata jt pos st \<Longrightarrow> pos < int (length code) \<Longrightarrow>
       byteAt code pos = Inr op \<Longrightarrow> map_of (stackBounds st) pos = Some currentBounds \<Longrightarrow>
       checkOp code sec metadata jt pos op currentBounds st = Inr (pos1, cur, st1) \<Longrightarrow>
       passes code sec metadata jt st1"
  | after_target:
      "visits code sec metadata jt pos st \<Longrightarrow> pos < int (length code) \<Longrightarrow>
       byteAt code pos = Inr op \<Longrightarrow> map_of (stackBounds st) pos = Some currentBounds \<Longrightarrow>
       checkOp code sec metadata jt pos op currentBounds st = Inr (pos1, cur, st1) \<Longrightarrow>
       nextOffsets code jt pos1 op = Inr (next0, rest) \<Longrightarrow>
       propagate code jt pos1 cur (take k rest) st1 = Inr s \<Longrightarrow>
       passes code sec metadata jt s"

text \<open>The same for the revision of part_001.\<close>

inductive passes_rev ::
  "byte list \<Rightarrow> FunctionMetadata \<Rightarrow> FunctionMetadata list \<Rightarrow> JumpTable \<Rightarrow> vstate \<Rightarrow> bool"
  for code sec metadata jt where
    at_head_rev: "visits_rev code sec metadata jt pos st \<Longrightarrow> passes_rev code sec metadata jt st"
  | after_switch_rev:
      "visits_rev code sec metadata jt pos st \<Longrightarrow> pos < int (length code) \<Longrightarrow>
       byteAt code pos = Inr op \<Longrightarrow> map_of (stackBounds st) pos = Some currentBounds \<Longrightarrow>
       checkOp_rev code sec metadata jt pos op currentBounds st = Inr (pos1, cur, st1) \<Longrightarrow>
       passes_rev code sec metadata jt st1"
  | after_target_rev:
      "visits_rev code sec metadata jt pos st \<Longrightarrow> pos < int (length code) \<Longrightarrow>
       byteAt code pos = Inr op \<Longrightarrow> map_of (stackBounds st) pos = Some currentBounds \<Longrightarrow>
       checkOp_rev code sec metadata jt pos op currentBounds st = Inr (pos1, cur, st1) \<Longrightarrow>
       nextOffsets_rev code jt pos1 op = Inr (next0, rest) \<Longrightarrow>
       propagate_rev code jt pos1 cur (exitBounds_rev jt op cur) (take k rest) st1 = Inr s \<Longrightarrow>
       passes_rev code sec metadata jt s"

text \<open>No key leaves the map and the accumulator does not decrease.\<close>

definition grows :: "vstate \<Rightarrow> vstate \<Rightarrow> bool" where
  "grows st st' \<longleftrightarrow>
     dom (map_of (stackBounds st)) \<subseteq> dom (map_of (stackBounds st')) \<and>
     maxStackHeight st \<le> maxStackHeight st'"

subsection \<open>An invariant of both loops\<close>

text \<open>The map has one pair per key, and the accumulator is at least the section's inputs
  and at least the \<open>max\<close> of every bounds in the map.\<close>

definition boundsInv :: "FunctionMetadata \<Rightarrow> vstate \<Rightarrow> bool" where
  "boundsInv sec st \<longleftrightarrow>
     distinct (map fst (stackBounds st)) \<and> uint (Input sec) \<le> maxStackHeight st \<and>
     (\<forall>p b. map_of (stackBounds st) p = Some b \<longrightarrow> max_b b \<le> maxStackHeight st)"

subsection \<open>The loops and their configurations\<close>

lemma walk_visits:
  "visits code sec metadata jt pos st \<Longrightarrow>
   walk code sec metadata jt 0 (initState sec) = walk code sec metadata jt pos st"
proof (induction rule: visits.induct)
  case start
  show ?case by simp
next
  case (step pos st pos' st')
  have "walk code sec metadata jt pos st = walk code sec metadata jt (pos' + 1) st'"
    using step.hyps(2,3) by (subst walk.simps) simp
  with step.IH show ?case by simp
qed

lemma walk_returns_visits_aux:
  assumes "walk code sec metadata jt pos st = Some r"
  shows "visits code sec metadata jt pos st \<longrightarrow>
         (case r of
           Inl e \<Rightarrow> (\<exists>p s. visits code sec metadata jt p s \<and> p < int (length code) \<and>
                              body code sec metadata jt p s = Inl e)
         | Inr s \<Rightarrow> (\<exists>p. visits code sec metadata jt p s \<and> \<not> p < int (length code)))"
proof (rule walk.raw_induct [where P = "\<lambda>code sec metadata jt pos st r.
         visits code sec metadata jt pos st \<longrightarrow>
         (case r of
           Inl e \<Rightarrow> (\<exists>p s. visits code sec metadata jt p s \<and> p < int (length code) \<and>
                              body code sec metadata jt p s = Inl e)
         | Inr s \<Rightarrow> (\<exists>p. visits code sec metadata jt p s \<and> \<not> p < int (length code)))",
      OF _ assms])
  fix walk' code sec metadata jt pos st r
  assume IH: "\<And>code sec metadata jt pos st r. walk' code sec metadata jt pos st = Some r \<Longrightarrow>
         visits code sec metadata jt pos st \<longrightarrow>
         (case r of
           Inl e \<Rightarrow> (\<exists>p s. visits code sec metadata jt p s \<and> p < int (length code) \<and>
                              body code sec metadata jt p s = Inl e)
         | Inr s \<Rightarrow> (\<exists>p. visits code sec metadata jt p s \<and> \<not> p < int (length code)))"
    and eq: "(if pos < int (length code)
      then case body code sec metadata jt pos st of Inl e \<Rightarrow> Some (Inl e)
           | Inr (pos', st') \<Rightarrow> walk' code sec metadata jt (pos' + 1) st'
      else Some (Inr st)) = Some r"
  show "visits code sec metadata jt pos st \<longrightarrow>
         (case r of
           Inl e \<Rightarrow> (\<exists>p s. visits code sec metadata jt p s \<and> p < int (length code) \<and>
                              body code sec metadata jt p s = Inl e)
         | Inr s \<Rightarrow> (\<exists>p. visits code sec metadata jt p s \<and> \<not> p < int (length code)))"
  proof
    assume v: "visits code sec metadata jt pos st"
    show "case r of
           Inl e \<Rightarrow> (\<exists>p s. visits code sec metadata jt p s \<and> p < int (length code) \<and>
                              body code sec metadata jt p s = Inl e)
         | Inr s \<Rightarrow> (\<exists>p. visits code sec metadata jt p s \<and> \<not> p < int (length code))"
    proof (cases "pos < int (length code)")
      case False
      with eq v show ?thesis by auto
    next
      case True
      show ?thesis
      proof (cases "body code sec metadata jt pos st")
        case (Inl e)
        with True eq v show ?thesis by (auto intro!: exI [of _ pos] exI [of _ st])
      next
        case (Inr ps)
        obtain pos' st' where ps: "ps = (pos', st')" by (cases ps)
        with True Inr eq have w: "walk' code sec metadata jt (pos' + 1) st' = Some r" by simp
        have v': "visits code sec metadata jt (pos' + 1) st'"
          using v True Inr ps by (auto intro: visits.step)
        from IH [OF w] v' show ?thesis by simp
      qed
    qed
  qed
qed

lemma walk_rev_visits:
  "visits_rev code sec metadata jt pos st \<Longrightarrow>
   walk_rev code sec metadata jt 0 (initState_rev sec) = walk_rev code sec metadata jt pos st"
proof (induction rule: visits_rev.induct)
  case start_rev
  show ?case by simp
next
  case (step_rev pos st pos' st')
  have "walk_rev code sec metadata jt pos st = walk_rev code sec metadata jt (pos' + 1) st'"
    using step_rev.hyps(2,3) by (subst walk_rev.simps) simp
  with step_rev.IH show ?case by simp
qed

lemma walk_rev_returns_visits:
  "visits_rev code sec metadata jt pos st \<Longrightarrow>
   (case walk_rev code sec metadata jt pos st of
      Inl e \<Rightarrow> (\<exists>p s. visits_rev code sec metadata jt p s \<and> p < int (length code) \<and>
                         body_rev code sec metadata jt p s = Inl e)
    | Inr s \<Rightarrow> (\<exists>p. visits_rev code sec metadata jt p s \<and> \<not> p < int (length code)))"
proof (induction code sec metadata jt pos st rule: walk_rev.induct)
  case (1 code sec metadata jt pos st)
  show ?case
  proof (cases "pos < int (length code)")
    case False
    with "1.prems" show ?thesis by (subst walk_rev.simps) auto
  next
    case True
    show ?thesis
    proof (cases "body_rev code sec metadata jt pos st")
      case (Inl e)
      with True "1.prems" show ?thesis
        by (subst walk_rev.simps) (auto intro!: exI [of _ pos] exI [of _ st])
    next
      case (Inr ps)
      obtain pos' st' where ps: "ps = (pos', st')" by (cases ps)
      have v': "visits_rev code sec metadata jt (pos' + 1) st'"
        using "1.prems" True Inr ps by (auto intro: visits_rev.step_rev)
      have "walk_rev code sec metadata jt pos st = walk_rev code sec metadata jt (pos' + 1) st'"
        using True Inr ps by (subst walk_rev.simps) simp
      with "1.IH" [OF True Inr ps [symmetric] v'] show ?thesis by simp
    qed
  qed
qed

lemma setBounds_inv: "boundsInv sec st \<Longrightarrow> boundsInv sec (setBounds st p mn mx)"
  by (auto simp: boundsInv_def setBounds_def distinct_update update_conv' le_max_iff_disj)

lemma initState_inv: "boundsInv sec (initState sec)"
  by (simp add: boundsInv_def initState_def)

lemma initState_rev_inv: "boundsInv sec (initState_rev sec)"
  by (simp add: boundsInv_def initState_rev_def setBounds_def)

lemma checkOp_inv:
  "checkOp code sec metadata jt pos op cur st = Inr (pos1, cur1, st1) \<Longrightarrow>
   boundsInv sec st \<Longrightarrow> boundsInv sec st1"
  by (auto simp: checkOp_def Let_def setBounds_inv split: if_splits sum.splits)

lemma checkOp_rev_inv:
  "checkOp_rev code sec metadata jt pos op cur st = Inr (pos1, cur1, st1) \<Longrightarrow>
   boundsInv sec st \<Longrightarrow> boundsInv sec st1"
  by (auto simp: checkOp_rev_def Let_def setBounds_inv split: if_splits sum.splits)

lemma propagateOne_inv:
  "propagateOne code jt pos cur instr st = Inr st' \<Longrightarrow> boundsInv sec st \<Longrightarrow> boundsInv sec st'"
  by (auto simp: propagateOne_def Let_def setBounds_inv split: if_splits sum.splits)

lemma propagateOne_rev_inv:
  "propagateOne_rev code jt pos cur ex instr st = Inr st' \<Longrightarrow> boundsInv sec st \<Longrightarrow>
   boundsInv sec st'"
  by (auto simp: propagateOne_rev_def Let_def setBounds_inv split: if_splits sum.splits option.splits)

lemma propagate_inv:
  "propagate code jt pos cur rest st = Inr st' \<Longrightarrow> boundsInv sec st \<Longrightarrow> boundsInv sec st'"
  by (induction rest arbitrary: st) (auto split: sum.splits dest: propagateOne_inv)

lemma propagate_rev_inv:
  "propagate_rev code jt pos cur ex rest st = Inr st' \<Longrightarrow> boundsInv sec st \<Longrightarrow>
   boundsInv sec st'"
  by (induction rest arbitrary: st) (auto split: sum.splits dest: propagateOne_rev_inv)

lemma body_inv:
  "body code sec metadata jt pos st = Inr (pos', st') \<Longrightarrow> boundsInv sec st \<Longrightarrow>
   boundsInv sec st'"
  by (auto simp: body_def split: sum.splits option.splits if_splits)
     (blast intro: setBounds_inv checkOp_inv propagate_inv)+

lemma body_rev_inv:
  "body_rev code sec metadata jt pos st = Inr (pos', st') \<Longrightarrow> boundsInv sec st \<Longrightarrow>
   boundsInv sec st'"
  by (auto simp: body_rev_def Let_def split: sum.splits option.splits if_splits)
     (blast intro: setBounds_inv checkOp_rev_inv propagate_rev_inv)+

lemma visits_inv: "visits code sec metadata jt pos st \<Longrightarrow> boundsInv sec st"
  by (induction rule: visits.induct) (auto simp: initState_inv dest: body_inv)

lemma visits_rev_inv: "visits_rev code sec metadata jt pos st \<Longrightarrow> boundsInv sec st"
  by (induction rule: visits_rev.induct) (auto simp: initState_rev_inv dest: body_rev_inv)

lemma validate_fails_at:
  assumes "metadataAt metadata section = Inr sec"
    and "visits code sec metadata jt pos st"
    and "pos < int (length code)"
    and "body code sec metadata jt pos st = Inl e"
  shows "validateControlFlow2 code section metadata jt = Some (Inl e)"
proof -
  have "walk code sec metadata jt pos st = Some (Inl e)"
    using assms(3,4) by (subst walk.simps) simp
  with walk_visits [OF assms(2)] assms(1) show ?thesis
    by (simp add: validateControlFlow2_def)
qed

lemma validate_rev_fails_at:
  assumes "metadataAt metadata section = Inr sec"
    and "visits_rev code sec metadata jt pos st"
    and "pos < int (length code)"
    and "body_rev code sec metadata jt pos st = Inl e"
  shows "validateControlFlow2_rev code section metadata jt = Inl e"
proof -
  have "walk_rev code sec metadata jt pos st = Inl e"
    using assms(3,4) by (subst walk_rev.simps) simp
  with walk_rev_visits [OF assms(2)] assms(1) show ?thesis
    by (simp add: validateControlFlow2_rev_def)
qed

lemma walk_final_inv:
  assumes "walk code sec metadata jt 0 (initState sec) = Some (Inr st)"
  shows "boundsInv sec st"
proof -
  from walk_returns_visits_aux [OF assms] visits.start [of code sec metadata jt]
  obtain p where "visits code sec metadata jt p st" by auto
  then show ?thesis by (rule visits_inv)
qed

lemma walk_rev_final_inv:
  assumes "walk_rev code sec metadata jt 0 (initState_rev sec) = Inr st"
  shows "boundsInv sec st"
proof -
  from walk_rev_returns_visits [OF visits_rev.start_rev [of code sec metadata jt]] assms
  obtain p where "visits_rev code sec metadata jt p st" by auto
  then show ?thesis by (rule visits_rev_inv)
qed

lemma visits_rev_nonneg: "visits_rev code sec metadata jt pos st \<Longrightarrow> 0 \<le> pos"
  by (induction rule: visits_rev.induct) (auto dest: body_rev_pos)

lemma configAfter_visits:
  "configAfter code sec metadata jt n = Some (pos, st) \<Longrightarrow> visits code sec metadata jt pos st"
proof (induction n arbitrary: pos st)
  case 0
  then show ?case by (auto intro: visits.start)
next
  case (Suc n)
  then show ?case
    by (auto split: option.splits if_splits sum.splits intro: visits.step)
qed

lemma configAfter_rev_visits:
  "configAfter_rev code sec metadata jt n = Some (pos, st) \<Longrightarrow>
   visits_rev code sec metadata jt pos st"
proof (induction n arbitrary: pos st)
  case 0
  then show ?case by (auto intro: visits_rev.start_rev)
next
  case (Suc n)
  then show ?case
    by (auto split: option.splits if_splits sum.splits intro: visits_rev.step_rev)
qed

lemma length_stackBounds:
  "boundsInv sec st \<Longrightarrow> length (stackBounds st) = card (dom (map_of (stackBounds st)))"
proof -
  assume "boundsInv sec st"
  then have d: "distinct (map fst (stackBounds st))" by (simp add: boundsInv_def)
  have "card (dom (map_of (stackBounds st))) = card (set (map fst (stackBounds st)))"
    by (simp add: dom_map_of_conv_image_fst)
  also have "\<dots> = length (map fst (stackBounds st))" using d by (rule distinct_card)
  finally show ?thesis by simp
qed

subsection \<open>Keys and accumulator along a run\<close>

lemma grows_refl: "grows st st"
  by (simp add: grows_def)

lemma grows_trans: "grows a b \<Longrightarrow> grows b c \<Longrightarrow> grows a c"
  by (auto simp: grows_def)

lemma grows_setBounds: "grows st (setBounds st p mn mx)"
  by (auto simp: grows_def setBounds_def update_conv')

lemma checkOp_grows:
  "checkOp code sec metadata jt pos op cur st = Inr (pos1, cur1, st1) \<Longrightarrow> grows st st1"
  by (auto simp: checkOp_def Let_def grows_refl grows_setBounds split: if_splits sum.splits)

lemma checkOp_rev_grows:
  "checkOp_rev code sec metadata jt pos op cur st = Inr (pos1, cur1, st1) \<Longrightarrow> grows st st1"
  by (auto simp: checkOp_rev_def Let_def grows_refl grows_setBounds split: if_splits sum.splits)

lemma propagateOne_writes:
  "propagateOne code jt pos cur instr st = Inr st' \<Longrightarrow> \<exists>p mn mx. st' = setBounds st p mn mx"
  by (auto simp: propagateOne_def Let_def split: if_splits sum.splits)

lemma propagateOne_rev_writes:
  "propagateOne_rev code jt pos cur ex instr st = Inr st' \<Longrightarrow>
   st' = st \<or> (\<exists>p mn mx. st' = setBounds st p mn mx)"
  by (auto simp: propagateOne_rev_def Let_def split: if_splits sum.splits option.splits)

lemma propagate_append:
  "propagate code jt pos cur (xs @ ys) st =
     (case propagate code jt pos cur xs st of
        Inl e \<Rightarrow> Inl e
      | Inr s \<Rightarrow> propagate code jt pos cur ys s)"
  by (induction xs arbitrary: st) (auto split: sum.splits)

lemma propagate_rev_append:
  "propagate_rev code jt pos cur ex (xs @ ys) st =
     (case propagate_rev code jt pos cur ex xs st of
        Inl e \<Rightarrow> Inl e
      | Inr s \<Rightarrow> propagate_rev code jt pos cur ex ys s)"
  by (induction xs arbitrary: st) (auto split: sum.splits)

lemma propagate_grows:
  "propagate code jt pos cur rest st = Inr st' \<Longrightarrow> grows st st'"
proof (induction rest arbitrary: st)
  case Nil
  then show ?case by (simp add: grows_refl)
next
  case (Cons x xs)
  then obtain s where a: "propagateOne code jt pos cur x st = Inr s"
    and b: "propagate code jt pos cur xs s = Inr st'"
    by (auto split: sum.splits)
  from a have "grows st s" by (auto dest: propagateOne_writes simp: grows_setBounds)
  with Cons.IH [OF b] show ?case by (blast intro: grows_trans)
qed

lemma propagate_rev_grows:
  "propagate_rev code jt pos cur ex rest st = Inr st' \<Longrightarrow> grows st st'"
proof (induction rest arbitrary: st)
  case Nil
  then show ?case by (simp add: grows_refl)
next
  case (Cons x xs)
  then obtain s where a: "propagateOne_rev code jt pos cur ex x st = Inr s"
    and b: "propagate_rev code jt pos cur ex xs s = Inr st'"
    by (auto split: sum.splits)
  from a have "grows st s" by (auto dest: propagateOne_rev_writes simp: grows_setBounds grows_refl)
  with Cons.IH [OF b] show ?case by (blast intro: grows_trans)
qed

text \<open>A round, taken apart.\<close>

lemma body_parts:
  assumes "body code sec metadata jt pos st = Inr (pos', st')"
  obtains op currentBounds pos1 cur st1 rest st2 where
    "byteAt code pos = Inr op" "map_of (stackBounds st) pos = Some currentBounds"
    "checkOp code sec metadata jt pos op currentBounds st = Inr (pos1, cur, st1)"
    "nextOffsets code jt pos1 op = Inr (pos', rest)"
    "propagate code jt pos1 cur rest st1 = Inr st2"
    "st' = (if \<not> terminal (jt op) \<and> op \<noteq> RJUMP
            then setBounds st2 (pos' + 1) (min_b cur + changeOf jt op) (max_b cur + changeOf jt op)
            else st2)"
  using assms
  by (auto simp: body_def split: sum.splits option.splits if_splits prod.splits)

lemma body_rev_parts:
  assumes "body_rev code sec metadata jt pos st = Inr (pos', st')"
  obtains op currentBounds pos1 cur st1 next0 rest st2 where
    "byteAt code pos = Inr op" "map_of (stackBounds st) pos = Some currentBounds"
    "checkOp_rev code sec metadata jt pos op currentBounds st = Inr (pos1, cur, st1)"
    "nextOffsets_rev code jt pos1 op = Inr (next0, rest)"
    "propagate_rev code jt pos1 cur (exitBounds_rev jt op cur) rest st1 = Inr st2"
    "st' = (if \<not> terminal (jt op)
            then setBounds st2 (pos' + 1) (min_b (exitBounds_rev jt op cur))
                   (max_b (exitBounds_rev jt op cur))
            else st2)"
  using assms
  by (auto simp: body_rev_def Let_def split: sum.splits option.splits if_splits prod.splits)

lemma body_grows:
  assumes "body code sec metadata jt pos st = Inr (pos', st')"
  shows "grows st st'"
proof -
  from assms obtain op currentBounds pos1 cur st1 rest st2 where
    c: "checkOp code sec metadata jt pos op currentBounds st = Inr (pos1, cur, st1)" and
    p: "propagate code jt pos1 cur rest st1 = Inr st2" and
    t: "st' = (if \<not> terminal (jt op) \<and> op \<noteq> RJUMP
            then setBounds st2 (pos' + 1) (min_b cur + changeOf jt op) (max_b cur + changeOf jt op)
            else st2)"
    by (rule body_parts)
  have "grows st st1" using c by (rule checkOp_grows)
  moreover have "grows st1 st2" using p by (rule propagate_grows)
  moreover have "grows st2 st'" using t by (simp add: grows_refl grows_setBounds)
  ultimately show ?thesis by (blast intro: grows_trans)
qed

lemma body_rev_grows:
  assumes "body_rev code sec metadata jt pos st = Inr (pos', st')"
  shows "grows st st'"
proof -
  from assms obtain op currentBounds pos1 cur st1 next0 rest st2 where
    c: "checkOp_rev code sec metadata jt pos op currentBounds st = Inr (pos1, cur, st1)" and
    p: "propagate_rev code jt pos1 cur (exitBounds_rev jt op cur) rest st1 = Inr st2" and
    t: "st' = (if \<not> terminal (jt op)
            then setBounds st2 (pos' + 1) (min_b (exitBounds_rev jt op cur))
                   (max_b (exitBounds_rev jt op cur))
            else st2)"
    by (rule body_rev_parts)
  have "grows st st1" using c by (rule checkOp_rev_grows)
  moreover have "grows st1 st2" using p by (rule propagate_rev_grows)
  moreover have "grows st2 st'" using t by (simp add: grows_refl grows_setBounds)
  ultimately show ?thesis by (blast intro: grows_trans)
qed

text \<open>From a configuration to the end of the loop.\<close>

lemma walk_grows_aux:
  assumes "walk code sec metadata jt pos st = Some r"
  shows "\<forall>fin. r = Inr fin \<longrightarrow> grows st fin"
proof (rule walk.raw_induct [where P = "\<lambda>code sec metadata jt pos st r.
         \<forall>fin. r = Inr fin \<longrightarrow> grows st fin", OF _ assms])
  fix walk' code sec metadata jt pos st r
  assume IH: "\<And>code sec metadata jt pos st r. walk' code sec metadata jt pos st = Some r \<Longrightarrow>
         \<forall>fin. r = Inr fin \<longrightarrow> grows st fin"
    and eq: "(if pos < int (length code)
      then case body code sec metadata jt pos st of Inl e \<Rightarrow> Some (Inl e)
           | Inr (pos', st') \<Rightarrow> walk' code sec metadata jt (pos' + 1) st'
      else Some (Inr st)) = Some r"
  show "\<forall>fin. r = Inr fin \<longrightarrow> grows st fin"
  proof (intro allI impI)
    fix fin assume r: "r = Inr fin"
    show "grows st fin"
    proof (cases "pos < int (length code)")
      case False
      with eq r show ?thesis by (simp add: grows_refl)
    next
      case True
      show ?thesis
      proof (cases "body code sec metadata jt pos st")
        case (Inl e)
        with True eq r show ?thesis by simp
      next
        case (Inr ps)
        obtain pos' st' where ps: "ps = (pos', st')" by (cases ps)
        with True Inr eq have w: "walk' code sec metadata jt (pos' + 1) st' = Some r" by simp
        from IH [OF w] r have "grows st' fin" by simp
        moreover have "grows st st'" using Inr ps by (auto intro: body_grows)
        ultimately show ?thesis by (blast intro: grows_trans)
      qed
    qed
  qed
qed

lemma walk_rev_grows:
  "walk_rev code sec metadata jt pos st = Inr fin \<Longrightarrow> grows st fin"
proof (induction code sec metadata jt pos st rule: walk_rev.induct)
  case (1 code sec metadata jt pos st)
  show ?case
  proof (cases "pos < int (length code)")
    case False
    with "1.prems" show ?thesis by (subst (asm) walk_rev.simps) (simp add: grows_refl)
  next
    case True
    show ?thesis
    proof (cases "body_rev code sec metadata jt pos st")
      case (Inl e)
      with True "1.prems" show ?thesis by (subst (asm) walk_rev.simps) simp
    next
      case (Inr ps)
      obtain pos' st' where ps: "ps = (pos', st')" by (cases ps)
      have "walk_rev code sec metadata jt (pos' + 1) st' = Inr fin"
        using True Inr ps "1.prems" by (subst (asm) walk_rev.simps) simp
      from "1.IH" [OF True Inr ps [symmetric] this] have "grows st' fin" .
      moreover have "grows st st'" using Inr ps by (auto intro: body_rev_grows)
      ultimately show ?thesis by (blast intro: grows_trans)
    qed
  qed
qed

lemma checkOp_writes:
  "checkOp code sec metadata jt pos op cur st = Inr (pos1, cur1, st1) \<Longrightarrow>
   st1 = st \<or> (\<exists>p mn mx. st1 = setBounds st p mn mx)"
  by (auto simp: checkOp_def Let_def split: if_splits sum.splits)

lemma checkOp_rev_writes:
  "checkOp_rev code sec metadata jt pos op cur st = Inr (pos1, cur1, st1) \<Longrightarrow>
   st1 = st \<or> (\<exists>p mn mx. st1 = setBounds st p mn mx)"
  by (auto simp: checkOp_rev_def Let_def split: if_splits sum.splits)

text \<open>The accumulator is the \<open>max\<close> of bounds that some state satisfying \<open>Q\<close> holds;
  a write keeps this, when the state written satisfies \<open>Q\<close>.\<close>

lemma setBounds_attained:
  assumes "\<exists>s q b. Q s \<and> map_of (stackBounds s) q = Some b \<and> max_b b = maxStackHeight st"
    and "Q (setBounds st p mn mx)"
  shows "\<exists>s q b. Q s \<and> map_of (stackBounds s) q = Some b \<and>
           max_b b = maxStackHeight (setBounds st p mn mx)"
proof (cases "mx \<le> maxStackHeight st")
  case True
  then have "maxStackHeight (setBounds st p mn mx) = maxStackHeight st"
    by (simp add: setBounds_def)
  with assms(1) show ?thesis by simp
next
  case False
  then have a: "maxStackHeight (setBounds st p mn mx) = mx" by (simp add: setBounds_def)
  have "map_of (stackBounds (setBounds st p mn mx)) p = Some \<lparr>min_b = mn, max_b = mx\<rparr>"
    by (simp add: setBounds_def update_conv')
  with assms(2) a show ?thesis
    by (intro exI [of _ "setBounds st p mn mx"] exI [of _ p]
          exI [of _ "\<lparr>min_b = mn, max_b = mx\<rparr>"]) simp
qed

lemma propagate_attained:
  assumes "propagate code jt pos cur rest st1 = Inr st2"
    and "\<And>k s. propagate code jt pos cur (take k rest) st1 = Inr s \<Longrightarrow> Q s"
    and "\<exists>s q b. Q s \<and> map_of (stackBounds s) q = Some b \<and> max_b b = maxStackHeight st1"
  shows "\<exists>s q b. Q s \<and> map_of (stackBounds s) q = Some b \<and> max_b b = maxStackHeight st2"
  using assms
proof (induction rest arbitrary: st1)
  case Nil
  then show ?case by simp
next
  case (Cons x xs)
  from Cons.prems(1) obtain s' where a: "propagateOne code jt pos cur x st1 = Inr s'"
    and b: "propagate code jt pos cur xs s' = Inr st2"
    by (auto split: sum.splits)
  have "propagate code jt pos cur (take 1 (x # xs)) st1 = Inr s'" using a by simp
  then have q: "Q s'" by (rule Cons.prems(2))
  from a obtain p mn mx where w: "s' = setBounds st1 p mn mx"
    by (auto dest: propagateOne_writes)
  have att: "\<exists>s q b. Q s \<and> map_of (stackBounds s) q = Some b \<and> max_b b = maxStackHeight s'"
    using Cons.prems(3) q unfolding w by (rule setBounds_attained)
  have pre: "Q s" if "propagate code jt pos cur (take k xs) s' = Inr s" for k s
  proof -
    have "propagate code jt pos cur (take (Suc k) (x # xs)) st1 = Inr s" using a that by simp
    then show ?thesis by (rule Cons.prems(2))
  qed
  show ?case using b pre att by (rule Cons.IH)
qed

lemma propagate_rev_attained:
  assumes "propagate_rev code jt pos cur ex rest st1 = Inr st2"
    and "\<And>k s. propagate_rev code jt pos cur ex (take k rest) st1 = Inr s \<Longrightarrow> Q s"
    and "\<exists>s q b. Q s \<and> map_of (stackBounds s) q = Some b \<and> max_b b = maxStackHeight st1"
  shows "\<exists>s q b. Q s \<and> map_of (stackBounds s) q = Some b \<and> max_b b = maxStackHeight st2"
  using assms
proof (induction rest arbitrary: st1)
  case Nil
  then show ?case by simp
next
  case (Cons x xs)
  from Cons.prems(1) obtain s' where a: "propagateOne_rev code jt pos cur ex x st1 = Inr s'"
    and b: "propagate_rev code jt pos cur ex xs s' = Inr st2"
    by (auto split: sum.splits)
  have "propagate_rev code jt pos cur ex (take 1 (x # xs)) st1 = Inr s'" using a by simp
  then have q: "Q s'" by (rule Cons.prems(2))
  from a have "s' = st1 \<or> (\<exists>p mn mx. s' = setBounds st1 p mn mx)"
    by (rule propagateOne_rev_writes)
  then have att: "\<exists>s q b. Q s \<and> map_of (stackBounds s) q = Some b \<and>
                    max_b b = maxStackHeight s'"
  proof
    assume "s' = st1"
    with Cons.prems(3) show ?thesis by simp
  next
    assume "\<exists>p mn mx. s' = setBounds st1 p mn mx"
    then obtain p mn mx where w: "s' = setBounds st1 p mn mx" by blast
    show ?thesis using Cons.prems(3) q unfolding w by (rule setBounds_attained)
  qed
  have pre: "Q s" if "propagate_rev code jt pos cur ex (take k xs) s' = Inr s" for k s
  proof -
    have "propagate_rev code jt pos cur ex (take (Suc k) (x # xs)) st1 = Inr s"
      using a that by simp
    then show ?thesis by (rule Cons.prems(2))
  qed
  show ?case using b pre att by (rule Cons.IH)
qed

text \<open>At every loop head the accumulator is the \<open>max\<close> of bounds a state of the run
  holds.\<close>

lemma visits_attained:
  "visits code sec metadata jt pos st \<Longrightarrow>
   \<exists>s q b. passes code sec metadata jt s \<and> map_of (stackBounds s) q = Some b \<and>
     max_b b = maxStackHeight st"
proof (induction rule: visits.induct)
  case start
  have "passes code sec metadata jt (initState sec)"
    by (rule passes.at_head [OF visits.start])
  then show ?case
    by (intro exI [of _ "initState sec"] exI [of _ 0]
          exI [of _ "\<lparr>min_b = uint (Input sec), max_b = uint (Input sec)\<rparr>"])
       (simp add: initState_def)
next
  case (step pos st pos' st')
  from step.hyps(3) obtain op currentBounds pos1 cur st1 rest st2 where
    o: "byteAt code pos = Inr op" and m: "map_of (stackBounds st) pos = Some currentBounds" and
    c: "checkOp code sec metadata jt pos op currentBounds st = Inr (pos1, cur, st1)" and
    n: "nextOffsets code jt pos1 op = Inr (pos', rest)" and
    p: "propagate code jt pos1 cur rest st1 = Inr st2" and
    t: "st' = (if \<not> terminal (jt op) \<and> op \<noteq> RJUMP
            then setBounds st2 (pos' + 1) (min_b cur + changeOf jt op) (max_b cur + changeOf jt op)
            else st2)"
    by (rule body_parts)
  have q1: "passes code sec metadata jt st1"
    using step.hyps(1,2) o m c by (rule passes.after_switch)
  have a1: "\<exists>s q b. passes code sec metadata jt s \<and> map_of (stackBounds s) q = Some b \<and>
              max_b b = maxStackHeight st1"
    using checkOp_writes [OF c]
  proof
    assume "st1 = st"
    with step.IH show ?thesis by simp
  next
    assume "\<exists>p mn mx. st1 = setBounds st p mn mx"
    then obtain p mn mx where w: "st1 = setBounds st p mn mx" by blast
    show ?thesis using step.IH q1 unfolding w by (rule setBounds_attained)
  qed
  have q2: "passes code sec metadata jt s"
    if "propagate code jt pos1 cur (take k rest) st1 = Inr s" for k s
    using step.hyps(1,2) o m c n that by (rule passes.after_target)
  have a2: "\<exists>s q b. passes code sec metadata jt s \<and> map_of (stackBounds s) q = Some b \<and>
              max_b b = maxStackHeight st2"
    using p q2 a1 by (rule propagate_attained)
  have q3: "passes code sec metadata jt st'"
    by (rule passes.at_head [OF visits.step [OF step.hyps]])
  show ?case
  proof (cases "\<not> terminal (jt op) \<and> op \<noteq> RJUMP")
    case True
    with t have w: "st' = setBounds st2 (pos' + 1) (min_b cur + changeOf jt op)
                            (max_b cur + changeOf jt op)" by simp
    show ?thesis using a2 q3 unfolding w by (rule setBounds_attained)
  next
    case False
    with t have "st' = st2" by auto
    with a2 show ?thesis by simp
  qed
qed

lemma visits_rev_attained:
  "visits_rev code sec metadata jt pos st \<Longrightarrow>
   \<exists>s q b. passes_rev code sec metadata jt s \<and> map_of (stackBounds s) q = Some b \<and>
     max_b b = maxStackHeight st"
proof (induction rule: visits_rev.induct)
  case start_rev
  have "passes_rev code sec metadata jt (initState_rev sec)"
    by (rule passes_rev.at_head_rev [OF visits_rev.start_rev])
  then show ?case
    by (intro exI [of _ "initState_rev sec"] exI [of _ 0]
          exI [of _ "\<lparr>min_b = uint (Input sec), max_b = uint (Input sec)\<rparr>"])
       (simp add: initState_rev_def setBounds_def)
next
  case (step_rev pos st pos' st')
  from step_rev.hyps(3) obtain op currentBounds pos1 cur st1 next0 rest st2 where
    o: "byteAt code pos = Inr op" and m: "map_of (stackBounds st) pos = Some currentBounds" and
    c: "checkOp_rev code sec metadata jt pos op currentBounds st = Inr (pos1, cur, st1)" and
    n: "nextOffsets_rev code jt pos1 op = Inr (next0, rest)" and
    p: "propagate_rev code jt pos1 cur (exitBounds_rev jt op cur) rest st1 = Inr st2" and
    t: "st' = (if \<not> terminal (jt op)
            then setBounds st2 (pos' + 1) (min_b (exitBounds_rev jt op cur))
                   (max_b (exitBounds_rev jt op cur))
            else st2)"
    by (rule body_rev_parts)
  have q1: "passes_rev code sec metadata jt st1"
    using step_rev.hyps(1,2) o m c by (rule passes_rev.after_switch_rev)
  have a1: "\<exists>s q b. passes_rev code sec metadata jt s \<and> map_of (stackBounds s) q = Some b \<and>
              max_b b = maxStackHeight st1"
    using checkOp_rev_writes [OF c]
  proof
    assume "st1 = st"
    with step_rev.IH show ?thesis by simp
  next
    assume "\<exists>p mn mx. st1 = setBounds st p mn mx"
    then obtain p mn mx where w: "st1 = setBounds st p mn mx" by blast
    show ?thesis using step_rev.IH q1 unfolding w by (rule setBounds_attained)
  qed
  have q2: "passes_rev code sec metadata jt s"
    if "propagate_rev code jt pos1 cur (exitBounds_rev jt op cur) (take k rest) st1 = Inr s"
    for k s
    using step_rev.hyps(1,2) o m c n that by (rule passes_rev.after_target_rev)
  have a2: "\<exists>s q b. passes_rev code sec metadata jt s \<and> map_of (stackBounds s) q = Some b \<and>
              max_b b = maxStackHeight st2"
    using p q2 a1 by (rule propagate_rev_attained)
  have q3: "passes_rev code sec metadata jt st'"
    by (rule passes_rev.at_head_rev [OF visits_rev.step_rev [OF step_rev.hyps]])
  show ?case
  proof (cases "\<not> terminal (jt op)")
    case True
    with t have w: "st' = setBounds st2 (pos' + 1) (min_b (exitBounds_rev jt op cur))
                            (max_b (exitBounds_rev jt op cur))" by simp
    show ?thesis using a2 q3 unfolding w by (rule setBounds_attained)
  next
    case False
    with t have "st' = st2" by auto
    with a2 show ?thesis by simp
  qed
qed

text \<open>Every state of the run satisfies the invariant.\<close>

lemma passes_inv: "passes code sec metadata jt s \<Longrightarrow> boundsInv sec s"
proof (induction rule: passes.induct)
  case (at_head pos st)
  then show ?case by (rule visits_inv)
next
  case (after_switch pos st op currentBounds pos1 cur st1)
  from after_switch(5) visits_inv [OF after_switch(1)] show ?case by (rule checkOp_inv)
next
  case (after_target pos st op currentBounds pos1 cur st1 next0 rest k s)
  have "boundsInv sec st1"
    using after_target(5) visits_inv [OF after_target(1)] by (rule checkOp_inv)
  with after_target(7) show ?case by (rule propagate_inv)
qed

lemma passes_rev_inv: "passes_rev code sec metadata jt s \<Longrightarrow> boundsInv sec s"
proof (induction rule: passes_rev.induct)
  case (at_head_rev pos st)
  then show ?case by (rule visits_rev_inv)
next
  case (after_switch_rev pos st op currentBounds pos1 cur st1)
  from after_switch_rev(5) visits_rev_inv [OF after_switch_rev(1)] show ?case
    by (rule checkOp_rev_inv)
next
  case (after_target_rev pos st op currentBounds pos1 cur st1 next0 rest k s)
  have "boundsInv sec st1"
    using after_target_rev(5) visits_rev_inv [OF after_target_rev(1)] by (rule checkOp_rev_inv)
  with after_target_rev(7) show ?case by (rule propagate_rev_inv)
qed

text \<open>Every state of a run that reaches the end of the loop has grown into the final
  state.\<close>

lemma walk_round:
  assumes "walk code sec metadata jt pos st = Some (Inr fin)" and "pos < int (length code)"
  obtains pos' st' where "body code sec metadata jt pos st = Inr (pos', st')"
    "walk code sec metadata jt (pos' + 1) st' = Some (Inr fin)"
proof (cases "body code sec metadata jt pos st")
  case (Inl e)
  with assms show ?thesis by (subst (asm) walk.simps) simp
next
  case (Inr ps)
  obtain pos' st' where ps: "ps = (pos', st')" by (cases ps)
  have "walk code sec metadata jt (pos' + 1) st' = Some (Inr fin)"
    using assms Inr ps by (subst (asm) walk.simps) simp
  with Inr ps that show ?thesis by simp
qed

lemma walk_rev_round:
  assumes "walk_rev code sec metadata jt pos st = Inr fin" and "pos < int (length code)"
  obtains pos' st' where "body_rev code sec metadata jt pos st = Inr (pos', st')"
    "walk_rev code sec metadata jt (pos' + 1) st' = Inr fin"
proof (cases "body_rev code sec metadata jt pos st")
  case (Inl e)
  with assms show ?thesis by (subst (asm) walk_rev.simps) simp
next
  case (Inr ps)
  obtain pos' st' where ps: "ps = (pos', st')" by (cases ps)
  have "walk_rev code sec metadata jt (pos' + 1) st' = Inr fin"
    using assms Inr ps by (subst (asm) walk_rev.simps) simp
  with Inr ps that show ?thesis by simp
qed

lemma walk_grows:
  "walk code sec metadata jt pos st = Some (Inr fin) \<Longrightarrow> grows st fin"
  using walk_grows_aux [of code sec metadata jt pos st "Inr fin"] by simp

lemma passes_grows:
  assumes "passes code sec metadata jt s"
    and "walk code sec metadata jt 0 (initState sec) = Some (Inr fin)"
  shows "grows s fin"
  using assms
proof (induction rule: passes.induct)
  case (at_head pos st)
  from walk_visits [OF at_head(1)] at_head(2)
  have "walk code sec metadata jt pos st = Some (Inr fin)" by simp
  then show ?case by (rule walk_grows)
next
  case (after_switch pos st op currentBounds pos1 cur st1)
  from walk_visits [OF after_switch(1)] after_switch(6)
  have w: "walk code sec metadata jt pos st = Some (Inr fin)" by simp
  from w after_switch(2) obtain pos' st' where
    b: "body code sec metadata jt pos st = Inr (pos', st')" and
    w': "walk code sec metadata jt (pos' + 1) st' = Some (Inr fin)" by (rule walk_round)
  from b obtain rest st2 where
    p: "propagate code jt pos1 cur rest st1 = Inr st2" and
    t: "st' = (if \<not> terminal (jt op) \<and> op \<noteq> RJUMP
            then setBounds st2 (pos' + 1) (min_b cur + changeOf jt op) (max_b cur + changeOf jt op)
            else st2)"
    using after_switch(3,4,5) by (elim body_parts) simp
  have "grows st1 st2" using p by (rule propagate_grows)
  moreover have "grows st2 st'" using t by (simp add: grows_refl grows_setBounds)
  moreover have "grows st' fin" using w' by (rule walk_grows)
  ultimately show ?case by (blast intro: grows_trans)
next
  case (after_target pos st op currentBounds pos1 cur st1 next0 rest k s)
  from walk_visits [OF after_target(1)] after_target(8)
  have w: "walk code sec metadata jt pos st = Some (Inr fin)" by simp
  from w after_target(2) obtain pos' st' where
    b: "body code sec metadata jt pos st = Inr (pos', st')" and
    w': "walk code sec metadata jt (pos' + 1) st' = Some (Inr fin)" by (rule walk_round)
  from b obtain st2 where
    p: "propagate code jt pos1 cur rest st1 = Inr st2" and
    t: "st' = (if \<not> terminal (jt op) \<and> op \<noteq> RJUMP
            then setBounds st2 (pos' + 1) (min_b cur + changeOf jt op) (max_b cur + changeOf jt op)
            else st2)"
    using after_target(3,4,5,6) by (elim body_parts) simp
  have "propagate code jt pos1 cur (take k rest @ drop k rest) st1 = Inr st2" using p by simp
  then have "propagate code jt pos1 cur (drop k rest) s = Inr st2"
    using after_target(7) by (simp only: propagate_append sum.case)
  then have "grows s st2" by (rule propagate_grows)
  moreover have "grows st2 st'" using t by (simp add: grows_refl grows_setBounds)
  moreover have "grows st' fin" using w' by (rule walk_grows)
  ultimately show ?case by (blast intro: grows_trans)
qed

lemma passes_rev_grows:
  assumes "passes_rev code sec metadata jt s"
    and "walk_rev code sec metadata jt 0 (initState_rev sec) = Inr fin"
  shows "grows s fin"
  using assms
proof (induction rule: passes_rev.induct)
  case (at_head_rev pos st)
  from walk_rev_visits [OF at_head_rev(1)] at_head_rev(2)
  have "walk_rev code sec metadata jt pos st = Inr fin" by simp
  then show ?case by (rule walk_rev_grows)
next
  case (after_switch_rev pos st op currentBounds pos1 cur st1)
  from walk_rev_visits [OF after_switch_rev(1)] after_switch_rev(6)
  have w: "walk_rev code sec metadata jt pos st = Inr fin" by simp
  from w after_switch_rev(2) obtain pos' st' where
    b: "body_rev code sec metadata jt pos st = Inr (pos', st')" and
    w': "walk_rev code sec metadata jt (pos' + 1) st' = Inr fin" by (rule walk_rev_round)
  from b obtain rest st2 where
    p: "propagate_rev code jt pos1 cur (exitBounds_rev jt op cur) rest st1 = Inr st2" and
    t: "st' = (if \<not> terminal (jt op)
            then setBounds st2 (pos' + 1) (min_b (exitBounds_rev jt op cur))
                   (max_b (exitBounds_rev jt op cur))
            else st2)"
    using after_switch_rev(3,4,5) by (elim body_rev_parts) simp
  have "grows st1 st2" using p by (rule propagate_rev_grows)
  moreover have "grows st2 st'" using t by (simp add: grows_refl grows_setBounds)
  moreover have "grows st' fin" using w' by (rule walk_rev_grows)
  ultimately show ?case by (blast intro: grows_trans)
next
  case (after_target_rev pos st op currentBounds pos1 cur st1 next0 rest k s)
  from walk_rev_visits [OF after_target_rev(1)] after_target_rev(8)
  have w: "walk_rev code sec metadata jt pos st = Inr fin" by simp
  from w after_target_rev(2) obtain pos' st' where
    b: "body_rev code sec metadata jt pos st = Inr (pos', st')" and
    w': "walk_rev code sec metadata jt (pos' + 1) st' = Inr fin" by (rule walk_rev_round)
  from b obtain st2 where
    p: "propagate_rev code jt pos1 cur (exitBounds_rev jt op cur) rest st1 = Inr st2" and
    t: "st' = (if \<not> terminal (jt op)
            then setBounds st2 (pos' + 1) (min_b (exitBounds_rev jt op cur))
                   (max_b (exitBounds_rev jt op cur))
            else st2)"
    using after_target_rev(3,4,5,6) by (elim body_rev_parts) simp
  have "propagate_rev code jt pos1 cur (exitBounds_rev jt op cur)
          (take k rest @ drop k rest) st1 = Inr st2" using p by simp
  then have "propagate_rev code jt pos1 cur (exitBounds_rev jt op cur) (drop k rest) s = Inr st2"
    using after_target_rev(7) by (simp only: propagate_rev_append sum.case)
  then have "grows s st2" by (rule propagate_rev_grows)
  moreover have "grows st2 st'" using t by (simp add: grows_refl grows_setBounds)
  moreover have "grows st' fin" using w' by (rule walk_rev_grows)
  ultimately show ?case by (blast intro: grows_trans)
qed

subsection \<open>The first switch at single opcodes\<close>

lemma checkOp_CALLF:
  assumes "sliceFrom code (pos + 1) = Inr b" and "metadataAt metadata (parseUint16 b) = Inr callee"
  shows "checkOp code sec metadata jt pos CALLF cur st =
    (if uint (Input callee) > min_b cur
     then Inl (ErrStackUnderflow (min_b cur) (uint (Input callee)))
     else if max_b cur + uint (MaxStackHeight callee) - uint (Input callee) > StackLimit
     then Inl (ErrStackOverflow (max_b cur + uint (MaxStackHeight callee) - uint (Input callee))
                 StackLimit)
     else Inr (pos, \<lparr>min_b = min_b cur + (uint (Output callee) - uint (Input callee)),
                      max_b = max_b cur + (uint (Output callee) - uint (Input callee))\<rparr>,
               setBounds st pos (min_b cur + (uint (Output callee) - uint (Input callee)))
                 (max_b cur + (uint (Output callee) - uint (Input callee)))))"
    and "checkOp_rev code sec metadata jt pos CALLF cur st =
           checkOp code sec metadata jt pos CALLF cur st"
  using assms by (simp_all add: checkOp_def checkOp_rev_def Let_def)

lemma checkOp_JUMPF_overflow:
  assumes "sliceFrom code (pos + 1) = Inr b" and "metadataAt metadata (parseUint16 b) = Inr callee"
    and "max_b cur + uint (MaxStackHeight callee) - uint (Input callee) > StackLimit"
  shows "checkOp code sec metadata jt pos JUMPF cur st =
           Inl (ErrStackOverflow (max_b cur + uint (MaxStackHeight callee) - uint (Input callee))
                  StackLimit)"
    and "checkOp_rev code sec metadata jt pos JUMPF cur st =
           Inl (ErrStackOverflow (max_b cur + uint (MaxStackHeight callee) - uint (Input callee))
                  StackLimit)"
  using assms by (simp_all add: checkOp_def checkOp_rev_def JUMPF_def CALLF_def RETF_def)

lemma checkOp_JUMPF_no_overflow:
  assumes "sliceFrom code (pos + 1) = Inr b" and "metadataAt metadata (parseUint16 b) = Inr callee"
    and "max_b cur + uint (MaxStackHeight callee) - uint (Input callee) \<le> StackLimit"
  shows "checkOp code sec metadata jt pos JUMPF cur st \<noteq> Inl (ErrStackOverflow x y)"
    and "checkOp_rev code sec metadata jt pos JUMPF cur st \<noteq> Inl (ErrStackOverflow x y)"
  using assms by (simp_all add: checkOp_def checkOp_rev_def JUMPF_def CALLF_def RETF_def)

lemma body_checkOp_err:
  "byteAt code pos = Inr op \<Longrightarrow> map_of (stackBounds st) pos = Some cur \<Longrightarrow>
   checkOp code sec metadata jt pos op cur st = Inl e \<Longrightarrow>
   body code sec metadata jt pos st = Inl e"
  by (simp add: body_def)

lemma body_rev_checkOp_err:
  "byteAt code pos = Inr op \<Longrightarrow> map_of (stackBounds st) pos = Some cur \<Longrightarrow>
   checkOp_rev code sec metadata jt pos op cur st = Inl e \<Longrightarrow>
   body_rev code sec metadata jt pos st = Inl e"
  by (simp add: body_rev_def)

lemma byteAt_slice:
  "byteAt code pos = Inr op \<Longrightarrow>
   pos < int (length code) \<and> sliceFrom code (pos + 1) = Inr (drop (nat (pos + 1)) code)"
  by (auto simp: byteAt_def sliceFrom_def split: if_splits)

lemma checkOp_call_overflow:
  assumes "op = CALLF \<or> op = JUMPF"
    and "sliceFrom code (pos + 1) = Inr b" and "metadataAt metadata (parseUint16 b) = Inr callee"
    and "op = CALLF \<longrightarrow> uint (Input callee) \<le> min_b cur"
    and "max_b cur + uint (MaxStackHeight callee) - uint (Input callee) > StackLimit"
  shows "checkOp code sec metadata jt pos op cur st =
           Inl (ErrStackOverflow (max_b cur + uint (MaxStackHeight callee) - uint (Input callee))
                  StackLimit)"
    and "checkOp_rev code sec metadata jt pos op cur st =
           Inl (ErrStackOverflow (max_b cur + uint (MaxStackHeight callee) - uint (Input callee))
                  StackLimit)"
proof -
  from assms(1) show "checkOp code sec metadata jt pos op cur st =
           Inl (ErrStackOverflow (max_b cur + uint (MaxStackHeight callee) - uint (Input callee))
                  StackLimit)"
  proof
    assume "op = CALLF"
    with assms(2-5) show ?thesis by (simp add: checkOp_CALLF)
  next
    assume "op = JUMPF"
    with assms(2,3,5) show ?thesis by (simp add: checkOp_JUMPF_overflow)
  qed
  from assms(1) show "checkOp_rev code sec metadata jt pos op cur st =
           Inl (ErrStackOverflow (max_b cur + uint (MaxStackHeight callee) - uint (Input callee))
                  StackLimit)"
  proof
    assume "op = CALLF"
    with assms(2-5) show ?thesis by (simp add: checkOp_CALLF)
  next
    assume "op = JUMPF"
    with assms(2,3,5) show ?thesis by (simp add: checkOp_JUMPF_overflow)
  qed
qed

lemma checkOp_call_no_overflow:
  assumes "op = CALLF \<or> op = JUMPF"
    and "sliceFrom code (pos + 1) = Inr b" and "metadataAt metadata (parseUint16 b) = Inr callee"
    and "max_b cur + uint (MaxStackHeight callee) - uint (Input callee) \<le> StackLimit"
  shows "checkOp code sec metadata jt pos op cur st \<noteq> Inl (ErrStackOverflow x y)"
    and "checkOp_rev code sec metadata jt pos op cur st \<noteq> Inl (ErrStackOverflow x y)"
proof -
  from assms(1) show "checkOp code sec metadata jt pos op cur st \<noteq> Inl (ErrStackOverflow x y)"
  proof
    assume "op = CALLF"
    with assms(2-4) show ?thesis by (simp add: checkOp_CALLF)
  next
    assume "op = JUMPF"
    with assms(2-4) show ?thesis by (simp add: checkOp_JUMPF_no_overflow)
  qed
  from assms(1) show "checkOp_rev code sec metadata jt pos op cur st \<noteq> Inl (ErrStackOverflow x y)"
  proof
    assume "op = CALLF"
    with assms(2-4) show ?thesis by (simp add: checkOp_CALLF)
  next
    assume "op = JUMPF"
    with assms(2-4) show ?thesis by (simp add: checkOp_JUMPF_no_overflow)
  qed
qed

lemma validate_call_overflow:
  assumes "metadataAt metadata section = Inr sec"
    and "visits code sec metadata jt pos st" and "byteAt code pos = Inr op"
    and "op = CALLF \<or> op = JUMPF" and "map_of (stackBounds st) pos = Some cur"
    and "metadataAt metadata (parseUint16 (drop (nat (pos + 1)) code)) = Inr callee"
    and "op = CALLF \<longrightarrow> uint (Input callee) \<le> min_b cur"
    and "max_b cur + uint (MaxStackHeight callee) - uint (Input callee) > StackLimit"
  shows "validateControlFlow2 code section metadata jt =
            Some (Inl (ErrStackOverflow
                         (max_b cur + uint (MaxStackHeight callee) - uint (Input callee)) StackLimit))"
proof -
  from assms(3) have r: "pos < int (length code)"
      "sliceFrom code (pos + 1) = Inr (drop (nat (pos + 1)) code)"
    using byteAt_slice [of code pos op] by simp_all
  have "checkOp code sec metadata jt pos op cur st =
           Inl (ErrStackOverflow (max_b cur + uint (MaxStackHeight callee) - uint (Input callee))
                  StackLimit)"
    by (rule checkOp_call_overflow(1) [OF assms(4) r(2) assms(6,7,8)])
  then have "body code sec metadata jt pos st =
           Inl (ErrStackOverflow (max_b cur + uint (MaxStackHeight callee) - uint (Input callee))
                  StackLimit)"
    by (rule body_checkOp_err [OF assms(3,5)])
  then show ?thesis by (rule validate_fails_at [OF assms(1,2) r(1)])
qed

lemma validate_rev_call_overflow:
  assumes "metadataAt metadata section = Inr sec"
    and "visits_rev code sec metadata jt pos st" and "byteAt code pos = Inr op"
    and "op = CALLF \<or> op = JUMPF" and "map_of (stackBounds st) pos = Some cur"
    and "metadataAt metadata (parseUint16 (drop (nat (pos + 1)) code)) = Inr callee"
    and "op = CALLF \<longrightarrow> uint (Input callee) \<le> min_b cur"
    and "max_b cur + uint (MaxStackHeight callee) - uint (Input callee) > StackLimit"
  shows "validateControlFlow2_rev code section metadata jt =
            Inl (ErrStackOverflow
                   (max_b cur + uint (MaxStackHeight callee) - uint (Input callee)) StackLimit)"
proof -
  from assms(3) have r: "pos < int (length code)"
      "sliceFrom code (pos + 1) = Inr (drop (nat (pos + 1)) code)"
    using byteAt_slice [of code pos op] by simp_all
  have "checkOp_rev code sec metadata jt pos op cur st =
           Inl (ErrStackOverflow (max_b cur + uint (MaxStackHeight callee) - uint (Input callee))
                  StackLimit)"
    by (rule checkOp_call_overflow(2) [OF assms(4) r(2) assms(6,7,8)])
  then have "body_rev code sec metadata jt pos st =
           Inl (ErrStackOverflow (max_b cur + uint (MaxStackHeight callee) - uint (Input callee))
                  StackLimit)"
    by (rule body_rev_checkOp_err [OF assms(3,5)])
  then show ?thesis by (rule validate_rev_fails_at [OF assms(1,2) r(1)])
qed

lemma checkOp_RETF:
  "checkOp code sec metadata jt pos RETF cur st =
     (if max_b cur \<noteq> min_b cur then Inl ErrInvalidNumberOfOutputs
      else if uint (Output sec) > min_b cur then Inl ErrInvalidOutputs
      else Inr (pos, cur, st))"
  "checkOp_rev code sec metadata jt pos RETF cur st =
     checkOp code sec metadata jt pos RETF cur st"
  by (simp_all add: checkOp_def checkOp_rev_def CALLF_def RETF_def)

lemma checkOp_JUMPF_nonreturning:
  assumes "sliceFrom code (pos + 1) = Inr b" and "metadataAt metadata (parseUint16 b) = Inr callee"
    and "Output callee = 0x80"
    and "max_b cur + uint (MaxStackHeight callee) - uint (Input callee) \<le> StackLimit"
  shows "checkOp code sec metadata jt pos JUMPF cur st =
           (if uint (Input callee) \<ge> min_b cur
            then Inl (ErrStackUnderflow (min_b cur) (uint (Input callee)))
            else Inr (pos, cur, st))"
    and "checkOp_rev code sec metadata jt pos JUMPF cur st =
           (if uint (Input callee) > min_b cur
            then Inl (ErrStackUnderflow (min_b cur) (uint (Input callee)))
            else Inr (pos, cur, st))"
  using assms by (simp_all add: checkOp_def checkOp_rev_def JUMPF_def CALLF_def RETF_def)

lemma checkOp_DUPN_SWAPN:
  assumes "op = DUPN \<or> op = SWAPN" and "byteAt code (pos + 1) = Inr v"
  shows "checkOp code sec metadata jt pos op cur st =
           (if uint v + 1 \<ge> min_b cur then Inl (ErrStackUnderflow (min_b cur) (uint v + 1))
            else Inr (pos + 2, cur, st))"
    and "checkOp_rev code sec metadata jt pos op cur st =
           (if uint v + 1 > min_b cur then Inl (ErrStackUnderflow (min_b cur) (uint v + 1))
            else Inr (pos + 2, cur, st))"
proof -
  have d: "op \<noteq> CALLF" "op \<noteq> RETF" "op \<noteq> JUMPF"
    using assms(1) by (auto simp: DUPN_def SWAPN_def CALLF_def RETF_def JUMPF_def)
  show "checkOp code sec metadata jt pos op cur st =
           (if uint v + 1 \<ge> min_b cur then Inl (ErrStackUnderflow (min_b cur) (uint v + 1))
            else Inr (pos + 2, cur, st))"
    using assms d by (simp add: checkOp_def Let_def)
  show "checkOp_rev code sec metadata jt pos op cur st =
           (if uint v + 1 > min_b cur then Inl (ErrStackUnderflow (min_b cur) (uint v + 1))
            else Inr (pos + 2, cur, st))"
    using assms d by (simp add: checkOp_rev_def Let_def)
qed

subsection \<open>The successors of \<open>RJUMPV\<close>\<close>

lemma rjumpvTargets_length:
  "rjumpvTargets code pos base is = Inr ts \<Longrightarrow> length ts = length is"
  by (induction "is" arbitrary: ts) (auto split: sum.splits)

lemma nextOffsets_RJUMPV:
  assumes "byteAt code (pos + 1) = Inr c"
  shows "nextOffsets code jt pos RJUMPV = Inr (next0, rest) \<Longrightarrow>
           next0 = pos + 2 + 2 * (uint c + 1) \<and> length rest = nat (uint c)"
    and "nextOffsets_rev code jt pos RJUMPV = Inr (next0, rest) \<Longrightarrow>
           next0 = pos + 1 + 2 * (uint c + 1) \<and> length rest = nat (uint c)"
  using assms
  by (auto simp: nextOffsets_def nextOffsets_rev_def Let_def RJUMPV_def RJUMP_def RJUMPI_def
      split: sum.splits dest: rjumpvTargets_length)

subsection \<open>Back-edges in the revision of part_001\<close>

text \<open>In this revision a target behind \<open>pos\<close> without stored bounds is an error, the
  map is left as it is, and the jump passes when the bounds stored at the target, moved by
  the target opcode's \<open>StackLimit - maxStack + minStack\<close>, are the current bounds at the
  jump (not its exit bounds).\<close>

lemma propagateOne_rev_back_missing:
  assumes "instr + 1 < pos" and "0 \<le> instr + 1" and "instr + 1 < int (length code)"
    and "map_of (stackBounds st) (instr + 1) = None"
  shows "propagateOne_rev code jt pos cur ex instr st = Inl ErrInvalidBackwardJump"
  using assms by (simp add: propagateOne_rev_def byteAt_def)

lemma propagateOne_rev_back_unchanged:
  assumes "instr + 1 < pos" and "propagateOne_rev code jt pos cur ex instr st = Inr st'"
  shows "st' = st"
  using assms
  by (auto simp: propagateOne_rev_def Let_def split: if_splits sum.splits option.splits)

lemma propagateOne_rev_back_accepts:
  assumes "instr + 1 < pos" and "byteAt code (instr + 1) = Inr nextOP"
    and "map_of (stackBounds st) (instr + 1) = Some nb"
  shows "propagateOne_rev code jt pos cur ex instr st = Inr st \<longleftrightarrow>
           max_b nb + changeOf jt nextOP = max_b cur \<and> min_b nb + changeOf jt nextOP = min_b cur"
  using assms by (auto simp: propagateOne_rev_def byteAt_def split: if_splits)

subsection \<open>Evaluation on concrete code\<close>

text \<open>The facts used to run both revisions on concrete sections with the table
  \<open>eofTable\<close>.\<close>

lemmas opcode_defs =
  STOP_def ADD_def CALLER_def CODESIZE_def CODECOPY_def EXTCODESIZE_def
  EXTCODECOPY_def EXTCODEHASH_def POP_def JUMP_def JUMPI_def PC_def
  GAS_def PUSH0_def PUSH1_def DATALOAD_def DATALOADN_def DATASIZE_def
  DATACOPY_def RJUMP_def RJUMPI_def RJUMPV_def CALLF_def RETF_def
  JUMPF_def DUPN_def SWAPN_def EXCHANGE_def EOFCREATE_def TXCREATE_def
  RETURNCONTRACT_def CREATE_def CALL_def CALLCODE_def DELEGATECALL_def CREATE2_def
  RETURNDATALOAD_def EXTCALL_def EXTDELEGATECALL_def STATICCALL_def SELFDESTRUCT_def

lemma eofTable_simps:
  "eofTable 0x00 = \<lparr>minStack = 0, maxStack = 1024, immediate = 0, terminal = True\<rparr>"
  "eofTable 0x01 = \<lparr>minStack = 2, maxStack = 1025, immediate = 0, terminal = False\<rparr>"
  "eofTable 0x33 = \<lparr>minStack = 0, maxStack = 1023, immediate = 0, terminal = False\<rparr>"
  "eofTable 0x50 = \<lparr>minStack = 1, maxStack = 1025, immediate = 0, terminal = False\<rparr>"
  "eofTable 0x5f = \<lparr>minStack = 0, maxStack = 1023, immediate = 0, terminal = False\<rparr>"
  "eofTable 0x60 = \<lparr>minStack = 0, maxStack = 1023, immediate = 1, terminal = False\<rparr>"
  "eofTable 0xd2 = \<lparr>minStack = 0, maxStack = 1023, immediate = 0, terminal = False\<rparr>"
  "eofTable 0xe0 = \<lparr>minStack = 0, maxStack = 1024, immediate = 2, terminal = True\<rparr>"
  "eofTable 0xe1 = \<lparr>minStack = 1, maxStack = 1025, immediate = 2, terminal = False\<rparr>"
  "eofTable 0xe2 = \<lparr>minStack = 1, maxStack = 1025, immediate = 1, terminal = False\<rparr>"
  "eofTable 0xe3 = \<lparr>minStack = 0, maxStack = 1024, immediate = 2, terminal = False\<rparr>"
  "eofTable 0xe4 = \<lparr>minStack = 0, maxStack = 1024, immediate = 0, terminal = True\<rparr>"
  "eofTable 0xe5 = \<lparr>minStack = 0, maxStack = 1024, immediate = 2, terminal = False\<rparr>"
  "eofTable 0xe6 = \<lparr>minStack = 0, maxStack = 1023, immediate = 1, terminal = False\<rparr>"
  "eofTable 0xe7 = \<lparr>minStack = 0, maxStack = 1024, immediate = 1, terminal = False\<rparr>"
  "eofTable 0xe8 = \<lparr>minStack = 0, maxStack = 1024, immediate = 1, terminal = False\<rparr>"
  by (simp_all add: eofTable_def enableEOF_def baseTable_def undefinedOp_def minStackOf_def
      maxStackOf_def opcode_defs)

lemmas table_defs = eofTable_simps

lemmas step_defs =
  body_def checkOp_def nextOffsets_def propagateOne_def
  body_rev_def checkOp_rev_def nextOffsets_rev_def propagateOne_rev_def exitBounds_rev_def
  byteAt_def sliceFrom_def parseUint16_def parseInt16_def metadataAt_def setBounds_def
  changeOf_def StackLimit_def Let_def

lemmas run_defs =
  validateControlFlow2_def validateControlFlow2_rev_def initState_def initState_rev_def
  finish_def walk.simps walk_rev.simps

lemmas eval = opcode_defs table_defs step_defs run_defs

subsection \<open>A run of validate_linear.go that does not return\<close>

text \<open>\<open>E0 FFFD\<close> is an \<open>RJUMP\<close> to itself. The revision of validate_linear.go sets
  \<open>pos\<close> to \<open>next[0] = -1\<close>, the loop's \<open>pos++\<close> brings it back to 0, and nothing
  else has changed: the loop never ends. (The revision of part_001 does not move \<open>pos\<close>
  at \<open>RJUMP\<close>; its loop is the total function \<open>walk_rev\<close>.)\<close>

lemma body_rjump_self:
  assumes "map_of (stackBounds st) 0 = Some cur" and "0 \<le> min_b cur"
  shows "body [0xe0, 0xff, 0xfd] sec metadata eofTable 0 st = Inr (- 1, st)"
  using assms by (simp add: opcode_defs table_defs step_defs)

lemma walk_rjump_self_aux:
  assumes "walk code sec metadata jt pos st = Some r"
  shows "\<not> (code = [0xe0, 0xff, 0xfd] \<and> jt = eofTable \<and> pos = 0 \<and>
            (\<exists>cur. map_of (stackBounds st) 0 = Some cur \<and> 0 \<le> min_b cur))"
proof (rule walk.raw_induct [where P = "\<lambda>code sec metadata jt pos st r.
         \<not> (code = [0xe0, 0xff, 0xfd] \<and> jt = eofTable \<and> pos = 0 \<and>
            (\<exists>cur. map_of (stackBounds st) 0 = Some cur \<and> 0 \<le> min_b cur))", OF _ assms])
  fix walk' code sec metadata jt pos st r
  assume IH: "\<And>code sec metadata jt pos st r. walk' code sec metadata jt pos st = Some r \<Longrightarrow>
         \<not> (code = [0xe0, 0xff, 0xfd] \<and> jt = eofTable \<and> pos = 0 \<and>
            (\<exists>cur. map_of (stackBounds st) 0 = Some cur \<and> 0 \<le> min_b cur))"
    and eq: "(if pos < int (length code)
      then case body code sec metadata jt pos st of Inl e \<Rightarrow> Some (Inl e)
           | Inr (pos', st') \<Rightarrow> walk' code sec metadata jt (pos' + 1) st'
      else Some (Inr st)) = Some r"
  show "\<not> (code = [0xe0, 0xff, 0xfd] \<and> jt = eofTable \<and> pos = 0 \<and>
            (\<exists>cur. map_of (stackBounds st) 0 = Some cur \<and> 0 \<le> min_b cur))"
  proof
    assume h: "code = [0xe0, 0xff, 0xfd] \<and> jt = eofTable \<and> pos = 0 \<and>
            (\<exists>cur. map_of (stackBounds st) 0 = Some cur \<and> 0 \<le> min_b cur)"
    then obtain cur where c: "map_of (stackBounds st) 0 = Some cur" "0 \<le> min_b cur" by blast
    from eq h body_rjump_self [OF c, of sec metadata]
    have "walk' code sec metadata jt 0 st = Some r" by simp
    from IH [OF this] h show False by blast
  qed
qed

lemma validateControlFlow2_may_not_return:
  "validateControlFlow2 [0xe0, 0xff, 0xfd] 0 [\<lparr>Input = 0, Output = 0x80, MaxStackHeight = 0\<rparr>]
     eofTable = None"
proof -
  let ?sec = "\<lparr>Input = 0, Output = 0x80, MaxStackHeight = 0\<rparr>"
  have "walk [0xe0, 0xff, 0xfd] ?sec [?sec] eofTable 0 (initState ?sec) \<noteq> Some r" for r
    using walk_rjump_self_aux [of "[0xe0, 0xff, 0xfd]" ?sec "[?sec]" eofTable 0 "initState ?sec" r]
    by (auto simp: initState_def)
  then have "walk [0xe0, 0xff, 0xfd] ?sec [?sec] eofTable 0 (initState ?sec) = None"
    by (cases "walk [0xe0, 0xff, 0xfd] ?sec [?sec] eofTable 0 (initState ?sec)") auto
  then show ?thesis by (simp add: validateControlFlow2_def metadataAt_def)
qed

section \<open>The claims\<close>

subsection \<open>C1: back-edges\<close>

text \<open>
  C1 (not met by the code). The claim: at a successor edge from \<open>s\<close> to a target
  \<open>t \<le> s\<close>, the entry bounds at \<open>t\<close> must already exist and must equal the exit
  bounds computed at \<open>s\<close>, else \<open>ErrInvalidBackwardJump\<close>; a back-edge never widens
  the bounds stored at \<open>t\<close>. Three runs show what the code does instead.

  validate_linear.go, code \<open>E1 0000 E1 FFFB 00\<close>, inputs 2: the loop reaches offset 3
  with bounds stored at 0 and 3 only; the \<open>RJUMPI\<close> at 3 jumps back to offset 1, which
  has no entry; the round stores bounds at 1 and goes on, and the section is accepted.

  validate_linear.go, code \<open>E1 0005 D2 E1 0001 00 E1 FFF5 00\<close>, inputs 3: the loop
  reaches offset 8 with \<open>[3, 3]\<close> stored at 0 and current bounds \<open>[3, 4]\<close>; the
  \<open>RJUMPI\<close> at 8 jumps back to 0, the round widens the bounds stored at 0 to
  \<open>[3, 4]\<close>, and the section is accepted.

  part_001, code \<open>E1 0000 D2 E1 FFF9 00\<close>, inputs 2: the loop reaches offset 4 with
  \<open>[2, 2]\<close> stored at 0; the \<open>RJUMPI\<close> at 4 has exit bounds \<open>[1, 1]\<close> and jumps
  back to 0; the round passes although \<open>[2, 2] \<noteq> [1, 1]\<close>, and the section is accepted.
\<close>

theorem C1_back_edge_failing_inputs:
  "visits [0xe1, 0x00, 0x00, 0xe1, 0xff, 0xfb, 0x00] \<lparr>Input = 2, Output = 0x80, MaxStackHeight = 2\<rparr>
     [\<lparr>Input = 2, Output = 0x80, MaxStackHeight = 2\<rparr>] eofTable 3
     \<lparr>stackBounds = [(0, \<lparr>min_b = 2, max_b = 2\<rparr>), (3, \<lparr>min_b = 2, max_b = 2\<rparr>)],
      maxStackHeight = 2\<rparr>
   \<and> propagateOne [0xe1, 0x00, 0x00, 0xe1, 0xff, 0xfb, 0x00] eofTable 3 \<lparr>min_b = 2, max_b = 2\<rparr> 0
       \<lparr>stackBounds = [(0, \<lparr>min_b = 2, max_b = 2\<rparr>), (3, \<lparr>min_b = 2, max_b = 2\<rparr>)],
        maxStackHeight = 2\<rparr>
     = Inr \<lparr>stackBounds = [(0, \<lparr>min_b = 2, max_b = 2\<rparr>), (3, \<lparr>min_b = 2, max_b = 2\<rparr>),
                           (1, \<lparr>min_b = 2, max_b = 2\<rparr>)],
            maxStackHeight = 2\<rparr>
   \<and> validateControlFlow2 [0xe1, 0x00, 0x00, 0xe1, 0xff, 0xfb, 0x00] 0
       [\<lparr>Input = 2, Output = 0x80, MaxStackHeight = 2\<rparr>] eofTable = Some (Inr 4)
   \<and> visits [0xe1, 0x00, 0x05, 0xd2, 0xe1, 0x00, 0x01, 0x00, 0xe1, 0xff, 0xf5, 0x00]
       \<lparr>Input = 3, Output = 0x80, MaxStackHeight = 4\<rparr>
       [\<lparr>Input = 3, Output = 0x80, MaxStackHeight = 4\<rparr>] eofTable 8
       \<lparr>stackBounds = [(0, \<lparr>min_b = 3, max_b = 3\<rparr>), (8, \<lparr>min_b = 3, max_b = 4\<rparr>),
                       (3, \<lparr>min_b = 3, max_b = 3\<rparr>), (4, \<lparr>min_b = 4, max_b = 4\<rparr>),
                       (7, \<lparr>min_b = 4, max_b = 4\<rparr>)],
        maxStackHeight = 4\<rparr>
   \<and> propagateOne [0xe1, 0x00, 0x05, 0xd2, 0xe1, 0x00, 0x01, 0x00, 0xe1, 0xff, 0xf5, 0x00]
       eofTable 8 \<lparr>min_b = 3, max_b = 4\<rparr> (- 1)
       \<lparr>stackBounds = [(0, \<lparr>min_b = 3, max_b = 3\<rparr>), (8, \<lparr>min_b = 3, max_b = 4\<rparr>),
                       (3, \<lparr>min_b = 3, max_b = 3\<rparr>), (4, \<lparr>min_b = 4, max_b = 4\<rparr>),
                       (7, \<lparr>min_b = 4, max_b = 4\<rparr>)],
        maxStackHeight = 4\<rparr>
     = Inr \<lparr>stackBounds = [(0, \<lparr>min_b = 3, max_b = 4\<rparr>), (8, \<lparr>min_b = 3, max_b = 4\<rparr>),
                           (3, \<lparr>min_b = 3, max_b = 3\<rparr>), (4, \<lparr>min_b = 4, max_b = 4\<rparr>),
                           (7, \<lparr>min_b = 4, max_b = 4\<rparr>)],
            maxStackHeight = 4\<rparr>
   \<and> validateControlFlow2 [0xe1, 0x00, 0x05, 0xd2, 0xe1, 0x00, 0x01, 0x00, 0xe1, 0xff, 0xf5, 0x00] 0
       [\<lparr>Input = 3, Output = 0x80, MaxStackHeight = 4\<rparr>] eofTable = Some (Inr 6)
   \<and> visits_rev [0xe1, 0x00, 0x00, 0xd2, 0xe1, 0xff, 0xf9, 0x00]
       \<lparr>Input = 2, Output = 0x80, MaxStackHeight = 2\<rparr>
       [\<lparr>Input = 2, Output = 0x80, MaxStackHeight = 2\<rparr>] eofTable 4
       \<lparr>stackBounds = [(0, \<lparr>min_b = 2, max_b = 2\<rparr>), (3, \<lparr>min_b = 1, max_b = 1\<rparr>),
                       (4, \<lparr>min_b = 2, max_b = 2\<rparr>)],
        maxStackHeight = 2\<rparr>
   \<and> exitBounds_rev eofTable RJUMPI \<lparr>min_b = 2, max_b = 2\<rparr> = \<lparr>min_b = 1, max_b = 1\<rparr>
   \<and> propagateOne_rev [0xe1, 0x00, 0x00, 0xd2, 0xe1, 0xff, 0xf9, 0x00] eofTable 4
       \<lparr>min_b = 2, max_b = 2\<rparr> \<lparr>min_b = 1, max_b = 1\<rparr> (- 1)
       \<lparr>stackBounds = [(0, \<lparr>min_b = 2, max_b = 2\<rparr>), (3, \<lparr>min_b = 1, max_b = 1\<rparr>),
                       (4, \<lparr>min_b = 2, max_b = 2\<rparr>)],
        maxStackHeight = 2\<rparr>
     = Inr \<lparr>stackBounds = [(0, \<lparr>min_b = 2, max_b = 2\<rparr>), (3, \<lparr>min_b = 1, max_b = 1\<rparr>),
                           (4, \<lparr>min_b = 2, max_b = 2\<rparr>)],
            maxStackHeight = 2\<rparr>
   \<and> validateControlFlow2_rev [0xe1, 0x00, 0x00, 0xd2, 0xe1, 0xff, 0xf9, 0x00] 0
       [\<lparr>Input = 2, Output = 0x80, MaxStackHeight = 2\<rparr>] eofTable = Inr 4"
proof (intro conjI)
  show "visits [0xe1, 0x00, 0x00, 0xe1, 0xff, 0xfb, 0x00] \<lparr>Input = 2, Output = 0x80, MaxStackHeight = 2\<rparr>
     [\<lparr>Input = 2, Output = 0x80, MaxStackHeight = 2\<rparr>] eofTable 3
     \<lparr>stackBounds = [(0, \<lparr>min_b = 2, max_b = 2\<rparr>), (3, \<lparr>min_b = 2, max_b = 2\<rparr>)],
      maxStackHeight = 2\<rparr>"
    by (rule configAfter_visits [where n = "Suc 0"])
       (simp add: opcode_defs table_defs step_defs initState_def)
  show "visits [0xe1, 0x00, 0x05, 0xd2, 0xe1, 0x00, 0x01, 0x00, 0xe1, 0xff, 0xf5, 0x00]
       \<lparr>Input = 3, Output = 0x80, MaxStackHeight = 4\<rparr>
       [\<lparr>Input = 3, Output = 0x80, MaxStackHeight = 4\<rparr>] eofTable 8
       \<lparr>stackBounds = [(0, \<lparr>min_b = 3, max_b = 3\<rparr>), (8, \<lparr>min_b = 3, max_b = 4\<rparr>),
                       (3, \<lparr>min_b = 3, max_b = 3\<rparr>), (4, \<lparr>min_b = 4, max_b = 4\<rparr>),
                       (7, \<lparr>min_b = 4, max_b = 4\<rparr>)],
        maxStackHeight = 4\<rparr>"
    by (rule configAfter_visits [where n = "Suc (Suc (Suc (Suc 0)))"])
       (simp add: opcode_defs table_defs step_defs initState_def)
  show "visits_rev [0xe1, 0x00, 0x00, 0xd2, 0xe1, 0xff, 0xf9, 0x00]
       \<lparr>Input = 2, Output = 0x80, MaxStackHeight = 2\<rparr>
       [\<lparr>Input = 2, Output = 0x80, MaxStackHeight = 2\<rparr>] eofTable 4
       \<lparr>stackBounds = [(0, \<lparr>min_b = 2, max_b = 2\<rparr>), (3, \<lparr>min_b = 1, max_b = 1\<rparr>),
                       (4, \<lparr>min_b = 2, max_b = 2\<rparr>)],
        maxStackHeight = 2\<rparr>"
    by (rule configAfter_rev_visits [where n = "Suc (Suc 0)"])
       (simp add: opcode_defs table_defs step_defs initState_rev_def)
qed (simp_all add: eval)

subsection \<open>C2: the declared maximum stack height\<close>

text \<open>
  C2 (counterexample). The claim: every disagreement between the accumulator and the
  declared \<open>MaxStackHeight\<close> is rejected with \<open>ErrInvalidMaxStackHeight\<close>. In both
  revisions the check \<open>maxStackHeight >= StackLimit\<close> comes first. The section has 8
  inputs and declares height 8; it calls eight times a section with no inputs, 127 outputs
  and \<open>MaxStackHeight\<close> 127. Every \<open>CALLF\<close> passes its checks, the loop ends with the
  accumulator at 1024, which differs from the declared 8, and both revisions return
  \<open>ErrStackOverflow\<close>, not \<open>ErrInvalidMaxStackHeight\<close>.
\<close>

theorem C2_counterexample:
  "validateControlFlow2
     [0xe3, 0, 1, 0xe3, 0, 1, 0xe3, 0, 1, 0xe3, 0, 1, 0xe3, 0, 1, 0xe3, 0, 1, 0xe3, 0, 1,
      0xe3, 0, 1, 0x00] 0
     [\<lparr>Input = 8, Output = 0x80, MaxStackHeight = 8\<rparr>,
      \<lparr>Input = 0, Output = 0x7f, MaxStackHeight = 127\<rparr>] eofTable
     = Some (Inl (ErrStackOverflow 1024 1024))
   \<and> validateControlFlow2_rev
     [0xe3, 0, 1, 0xe3, 0, 1, 0xe3, 0, 1, 0xe3, 0, 1, 0xe3, 0, 1, 0xe3, 0, 1, 0xe3, 0, 1,
      0xe3, 0, 1, 0x00] 0
     [\<lparr>Input = 8, Output = 0x80, MaxStackHeight = 8\<rparr>,
      \<lparr>Input = 0, Output = 0x7f, MaxStackHeight = 127\<rparr>] eofTable
     = Inl (ErrStackOverflow 1024 1024)
   \<and> (\<exists>bs. walk
     [0xe3, 0, 1, 0xe3, 0, 1, 0xe3, 0, 1, 0xe3, 0, 1, 0xe3, 0, 1, 0xe3, 0, 1, 0xe3, 0, 1,
      0xe3, 0, 1, 0x00] \<lparr>Input = 8, Output = 0x80, MaxStackHeight = 8\<rparr>
     [\<lparr>Input = 8, Output = 0x80, MaxStackHeight = 8\<rparr>,
      \<lparr>Input = 0, Output = 0x7f, MaxStackHeight = 127\<rparr>] eofTable 0
     (initState \<lparr>Input = 8, Output = 0x80, MaxStackHeight = 8\<rparr>)
     = Some (Inr \<lparr>stackBounds = bs, maxStackHeight = 1024\<rparr>))
   \<and> (\<exists>bs. walk_rev
     [0xe3, 0, 1, 0xe3, 0, 1, 0xe3, 0, 1, 0xe3, 0, 1, 0xe3, 0, 1, 0xe3, 0, 1, 0xe3, 0, 1,
      0xe3, 0, 1, 0x00] \<lparr>Input = 8, Output = 0x80, MaxStackHeight = 8\<rparr>
     [\<lparr>Input = 8, Output = 0x80, MaxStackHeight = 8\<rparr>,
      \<lparr>Input = 0, Output = 0x7f, MaxStackHeight = 127\<rparr>] eofTable 0
     (initState_rev \<lparr>Input = 8, Output = 0x80, MaxStackHeight = 8\<rparr>)
     = Inr \<lparr>stackBounds = bs, maxStackHeight = 1024\<rparr>)
   \<and> uint (MaxStackHeight \<lparr>Input = 8, Output = 0x80, MaxStackHeight = 8\<rparr>) = 8"
  by (simp add: eval)

text \<open>
  C2 (amended). When the loop of either revision has run to its end in state \<open>st\<close>, the
  accumulator \<open>maxStackHeight st\<close> is the largest \<open>max\<close> among the bounds the map has
  held at any moment of the walk, beginning with the bounds \<open>(Input, Input)\<close> at
  position 0 and counting bounds that were overwritten later: no state of the run holds
  bounds with a larger \<open>max\<close>, and some state of the run holds bounds with exactly this
  \<open>max\<close>. The section is accepted exactly when the accumulator is below \<open>StackLimit\<close>
  and equal to the declared \<open>MaxStackHeight\<close>. An accumulator below \<open>StackLimit\<close> that
  differs from the declared value, in either direction, gives
  \<open>ErrInvalidMaxStackHeight\<close>; an accumulator of \<open>StackLimit\<close> or more gives
  \<open>ErrStackOverflow\<close>, whatever the declared value.
\<close>

theorem C2_max_stack_height_exact:
  assumes "metadataAt metadata section = Inr sec"
    and "walk code sec metadata jt 0 (initState sec) = Some (Inr st)"
    and "metadataAt metadata' section' = Inr sec'"
    and "walk_rev code' sec' metadata' jt 0 (initState_rev sec') = Inr st'"
  shows "((\<exists>n. validateControlFlow2 code section metadata jt = Some (Inr n)) \<longleftrightarrow>
            maxStackHeight st < StackLimit \<and> maxStackHeight st = uint (MaxStackHeight sec))
       \<and> (maxStackHeight st < StackLimit \<and> maxStackHeight st \<noteq> uint (MaxStackHeight sec) \<longrightarrow>
            validateControlFlow2 code section metadata jt = Some (Inl ErrInvalidMaxStackHeight))
       \<and> (StackLimit \<le> maxStackHeight st \<longrightarrow>
            validateControlFlow2 code section metadata jt =
              Some (Inl (ErrStackOverflow (maxStackHeight st) StackLimit)))
       \<and> uint (Input sec) \<le> maxStackHeight st
       \<and> (\<forall>s p b. passes code sec metadata jt s \<and> map_of (stackBounds s) p = Some b \<longrightarrow>
            max_b b \<le> maxStackHeight st)
       \<and> (\<exists>s p b. passes code sec metadata jt s \<and> map_of (stackBounds s) p = Some b \<and>
            max_b b = maxStackHeight st)
       \<and> ((\<exists>n. validateControlFlow2_rev code' section' metadata' jt = Inr n) \<longleftrightarrow>
            maxStackHeight st' < StackLimit \<and> maxStackHeight st' = uint (MaxStackHeight sec'))
       \<and> (maxStackHeight st' < StackLimit \<and> maxStackHeight st' \<noteq> uint (MaxStackHeight sec') \<longrightarrow>
            validateControlFlow2_rev code' section' metadata' jt = Inl ErrInvalidMaxStackHeight)
       \<and> (StackLimit \<le> maxStackHeight st' \<longrightarrow>
            validateControlFlow2_rev code' section' metadata' jt =
              Inl (ErrStackOverflow (maxStackHeight st') StackLimit))
       \<and> uint (Input sec') \<le> maxStackHeight st'
       \<and> (\<forall>s p b. passes_rev code' sec' metadata' jt s \<and> map_of (stackBounds s) p = Some b \<longrightarrow>
            max_b b \<le> maxStackHeight st')
       \<and> (\<exists>s p b. passes_rev code' sec' metadata' jt s \<and> map_of (stackBounds s) p = Some b \<and>
            max_b b = maxStackHeight st')"
proof -
  have a: "validateControlFlow2 code section metadata jt = Some (finish sec st)"
    using assms(1,2) by (simp add: validateControlFlow2_def)
  have b: "validateControlFlow2_rev code' section' metadata' jt = finish sec' st'"
    using assms(3,4) by (simp add: validateControlFlow2_rev_def)
  have i: "uint (Input sec) \<le> maxStackHeight st"
    using walk_final_inv [OF assms(2)] by (simp add: boundsInv_def)
  have i': "uint (Input sec') \<le> maxStackHeight st'"
    using walk_rev_final_inv [OF assms(4)] by (simp add: boundsInv_def)
  have u: "max_b b \<le> maxStackHeight st"
    if "passes code sec metadata jt s" and "map_of (stackBounds s) p = Some b" for s p b
  proof -
    have "max_b b \<le> maxStackHeight s"
      using passes_inv [OF that(1)] that(2) by (auto simp: boundsInv_def)
    moreover have "maxStackHeight s \<le> maxStackHeight st"
      using passes_grows [OF that(1) assms(2)] by (simp add: grows_def)
    ultimately show ?thesis by simp
  qed
  have u': "max_b b \<le> maxStackHeight st'"
    if "passes_rev code' sec' metadata' jt s" and "map_of (stackBounds s) p = Some b" for s p b
  proof -
    have "max_b b \<le> maxStackHeight s"
      using passes_rev_inv [OF that(1)] that(2) by (auto simp: boundsInv_def)
    moreover have "maxStackHeight s \<le> maxStackHeight st'"
      using passes_rev_grows [OF that(1) assms(4)] by (simp add: grows_def)
    ultimately show ?thesis by simp
  qed
  have e: "\<exists>s p b. passes code sec metadata jt s \<and> map_of (stackBounds s) p = Some b \<and>
             max_b b = maxStackHeight st"
  proof -
    from walk_returns_visits_aux [OF assms(2)] visits.start [of code sec metadata jt]
    obtain p where "visits code sec metadata jt p st" by auto
    then show ?thesis by (rule visits_attained)
  qed
  have e': "\<exists>s p b. passes_rev code' sec' metadata' jt s \<and> map_of (stackBounds s) p = Some b \<and>
             max_b b = maxStackHeight st'"
  proof -
    from walk_rev_returns_visits [OF visits_rev.start_rev [of code' sec' metadata' jt]] assms(4)
    obtain p where "visits_rev code' sec' metadata' jt p st'" by auto
    then show ?thesis by (rule visits_rev_attained)
  qed
  have f: "((\<exists>n. finish sec st = Inr n) \<longleftrightarrow>
              maxStackHeight st < StackLimit \<and> maxStackHeight st = uint (MaxStackHeight sec))
       \<and> (maxStackHeight st < StackLimit \<and> maxStackHeight st \<noteq> uint (MaxStackHeight sec) \<longrightarrow>
            finish sec st = Inl ErrInvalidMaxStackHeight)
       \<and> (StackLimit \<le> maxStackHeight st \<longrightarrow>
            finish sec st = Inl (ErrStackOverflow (maxStackHeight st) StackLimit))" for sec st
    by (auto simp: finish_def)
  show ?thesis
    unfolding a b using f [of sec st] f [of sec' st'] i i' u u' e e' by (simp only: option.inject) blast
qed

text \<open>\<open>CALLER; CALLER; RJUMPI +3; CALLF 1; CALLER; STOP\<close>, where section 1 has one
  input and no outputs. The revision of validate_linear.go records \<open>(3, 3)\<close> at offset 8
  when it visits the \<open>RJUMPI\<close> and overwrites it with \<open>(1, 1)\<close> after the \<open>CALLF\<close>:
  no bounds of the final map exceed 2, the accumulator is 3, and the section is accepted
  with declared height 3 and refused with declared height 2. The revision of part_001
  reaches the accumulator 2: accepted with declared height 2, refused with 3. The last
  lines are the section of eight \<open>CALLF\<close> with accumulator 1024.\<close>

theorem C2_witness:
  "metadataAt [\<lparr>Input = 0, Output = 0x80, MaxStackHeight = 3\<rparr>,
               \<lparr>Input = 1, Output = 0, MaxStackHeight = 1\<rparr>] 0
     = Inr \<lparr>Input = 0, Output = 0x80, MaxStackHeight = 3\<rparr>
   \<and> walk [0x33, 0x33, 0xe1, 0, 3, 0xe3, 0, 1, 0x33, 0x00]
        \<lparr>Input = 0, Output = 0x80, MaxStackHeight = 3\<rparr>
        [\<lparr>Input = 0, Output = 0x80, MaxStackHeight = 3\<rparr>,
         \<lparr>Input = 1, Output = 0, MaxStackHeight = 1\<rparr>] eofTable 0
        (initState \<lparr>Input = 0, Output = 0x80, MaxStackHeight = 3\<rparr>)
       = Some (Inr \<lparr>stackBounds =
                      [(0, \<lparr>min_b = 0, max_b = 0\<rparr>), (1, \<lparr>min_b = 1, max_b = 1\<rparr>),
                       (2, \<lparr>min_b = 2, max_b = 2\<rparr>), (8, \<lparr>min_b = 1, max_b = 1\<rparr>),
                       (5, \<lparr>min_b = 1, max_b = 1\<rparr>), (9, \<lparr>min_b = 2, max_b = 2\<rparr>)],
                    maxStackHeight = 3\<rparr>)
   \<and> metadataAt [\<lparr>Input = 0, Output = 0x80, MaxStackHeight = 2\<rparr>,
               \<lparr>Input = 1, Output = 0, MaxStackHeight = 1\<rparr>] 0
     = Inr \<lparr>Input = 0, Output = 0x80, MaxStackHeight = 2\<rparr>
   \<and> walk_rev [0x33, 0x33, 0xe1, 0, 3, 0xe3, 0, 1, 0x33, 0x00]
        \<lparr>Input = 0, Output = 0x80, MaxStackHeight = 2\<rparr>
        [\<lparr>Input = 0, Output = 0x80, MaxStackHeight = 2\<rparr>,
         \<lparr>Input = 1, Output = 0, MaxStackHeight = 1\<rparr>] eofTable 0
        (initState_rev \<lparr>Input = 0, Output = 0x80, MaxStackHeight = 2\<rparr>)
       = Inr \<lparr>stackBounds =
                [(0, \<lparr>min_b = 0, max_b = 0\<rparr>), (1, \<lparr>min_b = 1, max_b = 1\<rparr>),
                 (2, \<lparr>min_b = 2, max_b = 2\<rparr>), (8, \<lparr>min_b = 0, max_b = 0\<rparr>),
                 (5, \<lparr>min_b = 0, max_b = 0\<rparr>), (9, \<lparr>min_b = 1, max_b = 1\<rparr>)],
              maxStackHeight = 2\<rparr>
   \<and> (\<exists>n. validateControlFlow2 [0x33, 0x33, 0xe1, 0, 3, 0xe3, 0, 1, 0x33, 0x00] 0
              [\<lparr>Input = 0, Output = 0x80, MaxStackHeight = 3\<rparr>,
               \<lparr>Input = 1, Output = 0, MaxStackHeight = 1\<rparr>] eofTable = Some (Inr n))
   \<and> validateControlFlow2 [0x33, 0x33, 0xe1, 0, 3, 0xe3, 0, 1, 0x33, 0x00] 0
        [\<lparr>Input = 0, Output = 0x80, MaxStackHeight = 2\<rparr>,
         \<lparr>Input = 1, Output = 0, MaxStackHeight = 1\<rparr>] eofTable
       = Some (Inl ErrInvalidMaxStackHeight)
   \<and> (\<exists>s p b. passes [0x33, 0x33, 0xe1, 0, 3, 0xe3, 0, 1, 0x33, 0x00]
                 \<lparr>Input = 0, Output = 0x80, MaxStackHeight = 3\<rparr>
                 [\<lparr>Input = 0, Output = 0x80, MaxStackHeight = 3\<rparr>,
                  \<lparr>Input = 1, Output = 0, MaxStackHeight = 1\<rparr>] eofTable s
               \<and> map_of (stackBounds s) p = Some b \<and> max_b b = 3)
   \<and> passes [0x33, 0x33, 0xe1, 0, 3, 0xe3, 0, 1, 0x33, 0x00]
        \<lparr>Input = 0, Output = 0x80, MaxStackHeight = 3\<rparr>
        [\<lparr>Input = 0, Output = 0x80, MaxStackHeight = 3\<rparr>,
         \<lparr>Input = 1, Output = 0, MaxStackHeight = 1\<rparr>] eofTable
        \<lparr>stackBounds =
           [(0, \<lparr>min_b = 0, max_b = 0\<rparr>), (1, \<lparr>min_b = 1, max_b = 1\<rparr>),
            (2, \<lparr>min_b = 2, max_b = 2\<rparr>), (8, \<lparr>min_b = 3, max_b = 3\<rparr>),
            (5, \<lparr>min_b = 2, max_b = 2\<rparr>)],
         maxStackHeight = 3\<rparr>
   \<and> (\<exists>n. validateControlFlow2_rev [0x33, 0x33, 0xe1, 0, 3, 0xe3, 0, 1, 0x33, 0x00] 0
              [\<lparr>Input = 0, Output = 0x80, MaxStackHeight = 2\<rparr>,
               \<lparr>Input = 1, Output = 0, MaxStackHeight = 1\<rparr>] eofTable = Inr n)
   \<and> validateControlFlow2_rev [0x33, 0x33, 0xe1, 0, 3, 0xe3, 0, 1, 0x33, 0x00] 0
        [\<lparr>Input = 0, Output = 0x80, MaxStackHeight = 3\<rparr>,
         \<lparr>Input = 1, Output = 0, MaxStackHeight = 1\<rparr>] eofTable
       = Inl ErrInvalidMaxStackHeight
   \<and> (\<exists>s p b. passes_rev [0x33, 0x33, 0xe1, 0, 3, 0xe3, 0, 1, 0x33, 0x00]
                 \<lparr>Input = 0, Output = 0x80, MaxStackHeight = 2\<rparr>
                 [\<lparr>Input = 0, Output = 0x80, MaxStackHeight = 2\<rparr>,
                  \<lparr>Input = 1, Output = 0, MaxStackHeight = 1\<rparr>] eofTable s
               \<and> map_of (stackBounds s) p = Some b \<and> max_b b = 2)
   \<and> validateControlFlow2
        [0xe3, 0, 1, 0xe3, 0, 1, 0xe3, 0, 1, 0xe3, 0, 1, 0xe3, 0, 1, 0xe3, 0, 1, 0xe3, 0, 1,
         0xe3, 0, 1, 0x00] 0
        [\<lparr>Input = 8, Output = 0x80, MaxStackHeight = 1024\<rparr>,
         \<lparr>Input = 0, Output = 0x7f, MaxStackHeight = 127\<rparr>] eofTable
       = Some (Inl (ErrStackOverflow 1024 1024))
   \<and> validateControlFlow2_rev
        [0xe3, 0, 1, 0xe3, 0, 1, 0xe3, 0, 1, 0xe3, 0, 1, 0xe3, 0, 1, 0xe3, 0, 1, 0xe3, 0, 1,
         0xe3, 0, 1, 0x00] 0
        [\<lparr>Input = 8, Output = 0x80, MaxStackHeight = 1024\<rparr>,
         \<lparr>Input = 0, Output = 0x7f, MaxStackHeight = 127\<rparr>] eofTable
       = Inl (ErrStackOverflow 1024 1024)"
proof -
  let ?code = "[0x33, 0x33, 0xe1, 0, 3, 0xe3, 0, 1, 0x33, 0x00] :: byte list"
  let ?calls = "[0xe3, 0, 1, 0xe3, 0, 1, 0xe3, 0, 1, 0xe3, 0, 1, 0xe3, 0, 1, 0xe3, 0, 1,
                 0xe3, 0, 1, 0xe3, 0, 1, 0x00] :: byte list"
  let ?stA = "\<lparr>stackBounds =
                [(0, \<lparr>min_b = 0, max_b = 0\<rparr>), (1, \<lparr>min_b = 1, max_b = 1\<rparr>),
                 (2, \<lparr>min_b = 2, max_b = 2\<rparr>), (8, \<lparr>min_b = 1, max_b = 1\<rparr>),
                 (5, \<lparr>min_b = 1, max_b = 1\<rparr>), (9, \<lparr>min_b = 2, max_b = 2\<rparr>)],
              maxStackHeight = 3\<rparr>"
  let ?stB = "\<lparr>stackBounds =
                [(0, \<lparr>min_b = 0, max_b = 0\<rparr>), (1, \<lparr>min_b = 1, max_b = 1\<rparr>),
                 (2, \<lparr>min_b = 2, max_b = 2\<rparr>), (8, \<lparr>min_b = 0, max_b = 0\<rparr>),
                 (5, \<lparr>min_b = 0, max_b = 0\<rparr>), (9, \<lparr>min_b = 1, max_b = 1\<rparr>)],
              maxStackHeight = 2\<rparr>"
  let ?s3 = "\<lparr>stackBounds =
               [(0, \<lparr>min_b = 0, max_b = 0\<rparr>), (1, \<lparr>min_b = 1, max_b = 1\<rparr>),
                (2, \<lparr>min_b = 2, max_b = 2\<rparr>), (8, \<lparr>min_b = 3, max_b = 3\<rparr>),
                (5, \<lparr>min_b = 2, max_b = 2\<rparr>)],
             maxStackHeight = 3\<rparr>"
  let ?sec = "\<lambda>d. \<lparr>Input = 0, Output = 0x80, MaxStackHeight = d\<rparr>"
  let ?md = "\<lambda>d. [\<lparr>Input = 0, Output = 0x80, MaxStackHeight = d\<rparr>,
                  \<lparr>Input = 1, Output = 0, MaxStackHeight = 1\<rparr>]"
  let ?sec8 = "\<lparr>Input = 8, Output = 0x80, MaxStackHeight = 1024\<rparr>"
  let ?md8 = "[\<lparr>Input = 8, Output = 0x80, MaxStackHeight = 1024\<rparr>,
               \<lparr>Input = 0, Output = 0x7f, MaxStackHeight = 127\<rparr>]"
  have m: "metadataAt (?md d) 0 = Inr (?sec d)" for d
    by (simp add: metadataAt_def)
  have w: "walk ?code (?sec d) (?md d) eofTable 0 (initState (?sec d)) = Some (Inr ?stA)" for d
    by (simp add: opcode_defs table_defs step_defs initState_def walk.simps)
  have w': "walk_rev ?code (?sec d) (?md d) eofTable 0 (initState_rev (?sec d)) = Inr ?stB" for d
    by (simp add: opcode_defs table_defs step_defs initState_rev_def walk_rev.simps)
  have c: "configAfter ?code (?sec 3) (?md 3) eofTable (Suc (Suc (Suc 0))) = Some (5, ?s3)"
    by (simp add: opcode_defs table_defs step_defs initState_def)
  have p: "passes ?code (?sec 3) (?md 3) eofTable ?s3"
    by (rule passes.at_head [OF configAfter_visits [OF c]])
  have m8: "metadataAt ?md8 0 = Inr ?sec8" by (simp add: metadataAt_def)
  obtain bs where w8: "walk ?calls ?sec8 ?md8 eofTable 0 (initState ?sec8)
      = Some (Inr \<lparr>stackBounds = bs, maxStackHeight = 1024\<rparr>)"
    by (simp add: opcode_defs table_defs step_defs initState_def walk.simps)
  obtain bs' where w8': "walk_rev ?calls ?sec8 ?md8 eofTable 0 (initState_rev ?sec8)
      = Inr \<lparr>stackBounds = bs', maxStackHeight = 1024\<rparr>"
    by (simp add: opcode_defs table_defs step_defs initState_rev_def walk_rev.simps)
  note t1 = C2_max_stack_height_exact [OF m [of 3] w [of 3] m [of 2] w' [of 2]]
  note t2 = C2_max_stack_height_exact [OF m [of 2] w [of 2] m [of 3] w' [of 3]]
  note t3 = C2_max_stack_height_exact [OF m8 w8 m8 w8']
  have r1: "(\<exists>n. validateControlFlow2 ?code 0 (?md 3) eofTable = Some (Inr n))"
    "\<exists>s p b. passes ?code (?sec 3) (?md 3) eofTable s \<and> map_of (stackBounds s) p = Some b \<and>
       max_b b = 3"
    "(\<exists>n. validateControlFlow2_rev ?code 0 (?md 2) eofTable = Inr n)"
    "\<exists>s p b. passes_rev ?code (?sec 2) (?md 2) eofTable s \<and> map_of (stackBounds s) p = Some b \<and>
       max_b b = 2"
    using t1 by (simp_all add: StackLimit_def)
  have r2: "validateControlFlow2 ?code 0 (?md 2) eofTable = Some (Inl ErrInvalidMaxStackHeight)"
    "validateControlFlow2_rev ?code 0 (?md 3) eofTable = Inl ErrInvalidMaxStackHeight"
    using t2 by (simp_all add: StackLimit_def)
  have r3: "validateControlFlow2 ?calls 0 ?md8 eofTable = Some (Inl (ErrStackOverflow 1024 1024))"
    "validateControlFlow2_rev ?calls 0 ?md8 eofTable = Inl (ErrStackOverflow 1024 1024)"
    using t3 by (simp_all add: StackLimit_def)
  from m [of 3] w [of 3] m [of 2] w' [of 2] p r1 r2 r3
  show ?thesis by (intro conjI)
qed

subsection \<open>C3: \<open>RETF\<close>\<close>

text \<open>
  C3 (not met by the code). The claim: a \<open>RETF\<close> reached with a singleton entry height
  different from the section's declared outputs, in either direction, is rejected with
  \<open>ErrInvalidOutputs\<close>. Both revisions compare with \<open>have > want\<close> (the source marks
  the line: "this should be !="), so a height above the declared outputs passes: the
  section \<open>RETF\<close> with inputs 1 and outputs 0 is accepted by both.
\<close>

theorem C3_retf_failing_input:
  "validateControlFlow2 [0xe4] 0 [\<lparr>Input = 1, Output = 0, MaxStackHeight = 1\<rparr>] eofTable
     = Some (Inr 1)
   \<and> validateControlFlow2_rev [0xe4] 0 [\<lparr>Input = 1, Output = 0, MaxStackHeight = 1\<rparr>] eofTable
     = Inr 1"
  by (simp add: eval)

subsection \<open>C4: \<open>CALLF\<close> into a non-returning section\<close>

text \<open>
  C4 (counterexample). The claim: a \<open>CALLF\<close> whose target section has outputs
  \<open>0x80\<close> is rejected with \<open>ErrCallfToNonReturning\<close>. Neither revision has such a
  check: \<open>CALLF 1; STOP\<close> with a target of outputs \<open>0x80\<close> is accepted by both.
\<close>

theorem C4_counterexample:
  "validateControlFlow2 [0xe3, 0x00, 0x01, 0x00] 0
     [\<lparr>Input = 0, Output = 0x80, MaxStackHeight = 128\<rparr>,
      \<lparr>Input = 0, Output = 0x80, MaxStackHeight = 0\<rparr>] eofTable = Some (Inr 2)
   \<and> validateControlFlow2_rev [0xe3, 0x00, 0x01, 0x00] 0
     [\<lparr>Input = 0, Output = 0x80, MaxStackHeight = 128\<rparr>,
      \<lparr>Input = 0, Output = 0x80, MaxStackHeight = 0\<rparr>] eofTable = Inr 2"
  by (simp add: eval)

text \<open>
  C4 (amended). At a \<open>CALLF\<close> whose target section has outputs \<open>0x80\<close>, both revisions
  make the two checks they make for every target, and no other: an entry \<open>min\<close> below
  the target's inputs gives \<open>ErrStackUnderflow\<close> (and that is then the result of the
  validation), a sum \<open>max + MaxStackHeight - Input\<close> above \<open>StackLimit\<close> gives
  \<open>ErrStackOverflow\<close>, and otherwise the first switch succeeds and replaces the bounds
  at the position by the entry bounds moved by \<open>128 - Input\<close>.
\<close>

theorem C4_callf_nonreturning_target:
  assumes "metadataAt metadata section = Inr sec"
    and "byteAt code pos = Inr CALLF"
    and "map_of (stackBounds st) pos = Some cur"
    and "metadataAt metadata (parseUint16 (drop (nat (pos + 1)) code)) = Inr callee"
    and "Output callee = 0x80"
  shows "checkOp code sec metadata jt pos CALLF cur st =
           (if uint (Input callee) > min_b cur
            then Inl (ErrStackUnderflow (min_b cur) (uint (Input callee)))
            else if max_b cur + uint (MaxStackHeight callee) - uint (Input callee) > StackLimit
            then Inl (ErrStackOverflow
                        (max_b cur + uint (MaxStackHeight callee) - uint (Input callee)) StackLimit)
            else Inr (pos, \<lparr>min_b = min_b cur + (128 - uint (Input callee)),
                             max_b = max_b cur + (128 - uint (Input callee))\<rparr>,
                      setBounds st pos (min_b cur + (128 - uint (Input callee)))
                        (max_b cur + (128 - uint (Input callee)))))
       \<and> checkOp_rev code sec metadata jt pos CALLF cur st =
           checkOp code sec metadata jt pos CALLF cur st
       \<and> (visits code sec metadata jt pos st \<and> uint (Input callee) > min_b cur \<longrightarrow>
            validateControlFlow2 code section metadata jt =
              Some (Inl (ErrStackUnderflow (min_b cur) (uint (Input callee)))))
       \<and> (visits_rev code sec metadata jt pos st \<and> uint (Input callee) > min_b cur \<longrightarrow>
            validateControlFlow2_rev code section metadata jt =
              Inl (ErrStackUnderflow (min_b cur) (uint (Input callee))))"
proof -
  from assms(2) have r: "pos < int (length code)"
      "sliceFrom code (pos + 1) = Inr (drop (nat (pos + 1)) code)"
    using byteAt_slice [of code pos CALLF] by simp_all
  note c = checkOp_CALLF [OF r(2) assms(4), of sec jt cur st]
  have a: "checkOp code sec metadata jt pos CALLF cur st =
           (if uint (Input callee) > min_b cur
            then Inl (ErrStackUnderflow (min_b cur) (uint (Input callee)))
            else if max_b cur + uint (MaxStackHeight callee) - uint (Input callee) > StackLimit
            then Inl (ErrStackOverflow
                        (max_b cur + uint (MaxStackHeight callee) - uint (Input callee)) StackLimit)
            else Inr (pos, \<lparr>min_b = min_b cur + (128 - uint (Input callee)),
                             max_b = max_b cur + (128 - uint (Input callee))\<rparr>,
                      setBounds st pos (min_b cur + (128 - uint (Input callee)))
                        (max_b cur + (128 - uint (Input callee)))))"
    using c(1) assms(5) by simp
  have u: "checkOp code sec metadata jt pos CALLF cur st =
             Inl (ErrStackUnderflow (min_b cur) (uint (Input callee)))"
      "checkOp_rev code sec metadata jt pos CALLF cur st =
             Inl (ErrStackUnderflow (min_b cur) (uint (Input callee)))"
    if "uint (Input callee) > min_b cur"
    using that c by simp_all
  have v: "validateControlFlow2 code section metadata jt =
              Some (Inl (ErrStackUnderflow (min_b cur) (uint (Input callee))))"
    if "visits code sec metadata jt pos st" and "uint (Input callee) > min_b cur"
    by (rule validate_fails_at [OF assms(1) that(1) r(1)],
        rule body_checkOp_err [OF assms(2,3)], rule u(1) [OF that(2)])
  have v': "validateControlFlow2_rev code section metadata jt =
              Inl (ErrStackUnderflow (min_b cur) (uint (Input callee)))"
    if "visits_rev code sec metadata jt pos st" and "uint (Input callee) > min_b cur"
    by (rule validate_rev_fails_at [OF assms(1) that(1) r(1)],
        rule body_rev_checkOp_err [OF assms(2,3)], rule u(2) [OF that(2)])
  from a c(2) v v' show ?thesis by blast
qed

text \<open>\<open>CALLF 1\<close> at height 0: a target with outputs \<open>0x80\<close> and no inputs passes and
  moves the bounds to \<open>[128, 128]\<close>; a target with outputs \<open>0x80\<close> and one input gives
  \<open>ErrStackUnderflow\<close>.\<close>

theorem C4_witness:
  "metadataAt [\<lparr>Input = 0, Output = 0x80, MaxStackHeight = 128\<rparr>,
               \<lparr>Input = 0, Output = 0x80, MaxStackHeight = 0\<rparr>] 0
     = Inr \<lparr>Input = 0, Output = 0x80, MaxStackHeight = 128\<rparr>
   \<and> byteAt [0xe3, 0x00, 0x01, 0x00] 0 = Inr CALLF
   \<and> metadataAt [\<lparr>Input = 0, Output = 0x80, MaxStackHeight = 128\<rparr>,
                 \<lparr>Input = 0, Output = 0x80, MaxStackHeight = 0\<rparr>]
         (parseUint16 (drop (nat (0 + 1)) [0xe3, 0x00, 0x01, 0x00]))
       = Inr \<lparr>Input = 0, Output = 0x80, MaxStackHeight = 0\<rparr>
   \<and> checkOp [0xe3, 0x00, 0x01, 0x00] \<lparr>Input = 0, Output = 0x80, MaxStackHeight = 128\<rparr>
        [\<lparr>Input = 0, Output = 0x80, MaxStackHeight = 128\<rparr>,
         \<lparr>Input = 0, Output = 0x80, MaxStackHeight = 0\<rparr>] eofTable 0 CALLF
        \<lparr>min_b = 0, max_b = 0\<rparr>
        \<lparr>stackBounds = [(0, \<lparr>min_b = 0, max_b = 0\<rparr>)], maxStackHeight = 0\<rparr>
       = Inr (0, \<lparr>min_b = 128, max_b = 128\<rparr>,
              \<lparr>stackBounds = [(0, \<lparr>min_b = 128, max_b = 128\<rparr>)], maxStackHeight = 128\<rparr>)
   \<and> checkOp_rev [0xe3, 0x00, 0x01, 0x00] \<lparr>Input = 0, Output = 0x80, MaxStackHeight = 128\<rparr>
        [\<lparr>Input = 0, Output = 0x80, MaxStackHeight = 128\<rparr>,
         \<lparr>Input = 0, Output = 0x80, MaxStackHeight = 0\<rparr>] eofTable 0 CALLF
        \<lparr>min_b = 0, max_b = 0\<rparr>
        \<lparr>stackBounds = [(0, \<lparr>min_b = 0, max_b = 0\<rparr>)], maxStackHeight = 0\<rparr>
       = Inr (0, \<lparr>min_b = 128, max_b = 128\<rparr>,
              \<lparr>stackBounds = [(0, \<lparr>min_b = 128, max_b = 128\<rparr>)], maxStackHeight = 128\<rparr>)
   \<and> visits [0xe3, 0x00, 0x01, 0x00] \<lparr>Input = 0, Output = 0x80, MaxStackHeight = 0\<rparr>
        [\<lparr>Input = 0, Output = 0x80, MaxStackHeight = 0\<rparr>,
         \<lparr>Input = 1, Output = 0x80, MaxStackHeight = 1\<rparr>] eofTable 0
        (initState \<lparr>Input = 0, Output = 0x80, MaxStackHeight = 0\<rparr>)
   \<and> visits_rev [0xe3, 0x00, 0x01, 0x00] \<lparr>Input = 0, Output = 0x80, MaxStackHeight = 0\<rparr>
        [\<lparr>Input = 0, Output = 0x80, MaxStackHeight = 0\<rparr>,
         \<lparr>Input = 1, Output = 0x80, MaxStackHeight = 1\<rparr>] eofTable 0
        (initState_rev \<lparr>Input = 0, Output = 0x80, MaxStackHeight = 0\<rparr>)
   \<and> validateControlFlow2 [0xe3, 0x00, 0x01, 0x00] 0
        [\<lparr>Input = 0, Output = 0x80, MaxStackHeight = 0\<rparr>,
         \<lparr>Input = 1, Output = 0x80, MaxStackHeight = 1\<rparr>] eofTable
       = Some (Inl (ErrStackUnderflow 0 1))
   \<and> validateControlFlow2_rev [0xe3, 0x00, 0x01, 0x00] 0
        [\<lparr>Input = 0, Output = 0x80, MaxStackHeight = 0\<rparr>,
         \<lparr>Input = 1, Output = 0x80, MaxStackHeight = 1\<rparr>] eofTable
       = Inl (ErrStackUnderflow 0 1)"
proof -
  let ?code = "[0xe3, 0x00, 0x01, 0x00] :: byte list"
  let ?sec = "\<lparr>Input = 0, Output = 0x80, MaxStackHeight = 128\<rparr>"
  let ?callee = "\<lparr>Input = 0, Output = 0x80, MaxStackHeight = 0\<rparr>"
  let ?sec' = "\<lparr>Input = 0, Output = 0x80, MaxStackHeight = 0\<rparr>"
  let ?callee' = "\<lparr>Input = 1, Output = 0x80, MaxStackHeight = 1\<rparr>"
  let ?cur = "\<lparr>min_b = 0, max_b = 0\<rparr>"
  let ?st = "\<lparr>stackBounds = [(0, ?cur)], maxStackHeight = 0\<rparr>"
  have m: "metadataAt [?sec, ?callee] 0 = Inr ?sec" "metadataAt [?sec', ?callee'] 0 = Inr ?sec'"
    by (simp_all add: metadataAt_def)
  have b: "byteAt ?code 0 = Inr CALLF" by (simp add: byteAt_def CALLF_def)
  have c: "map_of (stackBounds ?st) 0 = Some ?cur" by simp
  have i: "initState ?sec' = ?st" "initState_rev ?sec' = ?st"
    by (simp_all add: initState_def initState_rev_def setBounds_def)
  have k: "metadataAt [?sec, ?callee] (parseUint16 (drop (nat (0 + 1)) ?code)) = Inr ?callee"
    "metadataAt [?sec', ?callee'] (parseUint16 (drop (nat (0 + 1)) ?code)) = Inr ?callee'"
    by (simp_all add: metadataAt_def parseUint16_def)
  have v: "visits ?code ?sec' [?sec', ?callee'] eofTable 0 (initState ?sec')"
    by (rule visits.start)
  have v': "visits_rev ?code ?sec' [?sec', ?callee'] eofTable 0 (initState_rev ?sec')"
    by (rule visits_rev.start_rev)
  from C4_callf_nonreturning_target [OF m(1) b c k(1), of eofTable]
    C4_callf_nonreturning_target [OF m(2) b c k(2), of eofTable]
    m(1) b k(1) v v' i
  show ?thesis by (simp add: setBounds_def StackLimit_def)
qed

subsection \<open>C5: \<open>JUMPF\<close> into a non-returning section\<close>

text \<open>
  C5 (not met by validate_linear.go). The claim: at a \<open>JUMPF\<close> into a section with
  outputs \<open>0x80\<close>, an entry \<open>min\<close> equal to the target's inputs is accepted and only
  a smaller one gives \<open>ErrStackUnderflow\<close>. The revision of part_001 does so
  (\<open>checkOp_JUMPF_nonreturning\<close>); validate_linear.go compares with \<open>want >= have\<close>
  and rejects \<open>JUMPF 1\<close> reached with height 1 into a section of 1 input.
\<close>

theorem C5_jumpf_failing_input:
  "validateControlFlow2 [0xe5, 0x00, 0x01] 0
     [\<lparr>Input = 1, Output = 0x80, MaxStackHeight = 1\<rparr>,
      \<lparr>Input = 1, Output = 0x80, MaxStackHeight = 1\<rparr>] eofTable
     = Some (Inl (ErrStackUnderflow 1 1))
   \<and> validateControlFlow2_rev [0xe5, 0x00, 0x01] 0
     [\<lparr>Input = 1, Output = 0x80, MaxStackHeight = 1\<rparr>,
      \<lparr>Input = 1, Output = 0x80, MaxStackHeight = 1\<rparr>] eofTable
     = Inr 2"
  by (simp add: eval)

subsection \<open>C6: the successors of \<open>RJUMPV\<close>\<close>

text \<open>
  C6 (not met by the code). The claim: for the count byte \<open>c\<close> all \<open>c + 1\<close> table
  entries are decoded and their targets checked. Both revisions run the decoding loop
  \<open>count - 1 = c\<close> times (\<open>nextOffsets_RJUMPV\<close>), so the last entry is never read: with
  \<open>c = 0\<close> and the single entry \<open>7FFF\<close>, far outside the code, both accept. With
  \<open>c = 1\<close> and first entry \<open>+3\<close> at \<open>p = 0\<close>, validate_linear.go has \<open>next = [6, 9]\<close>
  (successor offsets 7 and 10), part_001 has \<open>next = [5, 8]\<close> (successor offsets 6 and
  9, those of the claim).
\<close>

theorem C6_rjumpv_failing_input:
  "nextOffsets [0xe2, 0x00, 0x7f, 0xff, 0x00] eofTable 0 RJUMPV = Inr (4, [])
   \<and> nextOffsets_rev [0xe2, 0x00, 0x7f, 0xff, 0x00] eofTable 0 RJUMPV = Inr (3, [])
   \<and> validateControlFlow2 [0xe2, 0x00, 0x7f, 0xff, 0x00] 0
       [\<lparr>Input = 1, Output = 0x80, MaxStackHeight = 1\<rparr>] eofTable = Some (Inr 2)
   \<and> validateControlFlow2_rev [0xe2, 0x00, 0x7f, 0xff, 0x00] 0
       [\<lparr>Input = 1, Output = 0x80, MaxStackHeight = 1\<rparr>] eofTable = Inr 2
   \<and> nextOffsets [0xe2, 0x01, 0x00, 0x03, 0xff, 0xf8, 0x00] eofTable 0 RJUMPV = Inr (6, [9])
   \<and> nextOffsets_rev [0xe2, 0x01, 0x00, 0x03, 0xff, 0xf8, 0x00] eofTable 0 RJUMPV = Inr (5, [8])"
  by (simp add: eval upt_rec)

subsection \<open>C7: the stack limit at \<open>CALLF\<close> and \<open>JUMPF\<close>\<close>

text \<open>
  C7 (counterexample). The claim: \<open>max + MaxStackHeight - Input \<le> 1023\<close> is required
  at \<open>CALLF\<close> and \<open>JUMPF\<close>. Both revisions compare with \<open>have > limit\<close>, where
  \<open>limit\<close> is \<open>StackLimit = 1024\<close>: \<open>CALLF 1; STOP\<close> at height 0 with a target of
  \<open>MaxStackHeight\<close> 1024 and no inputs has the sum 1024 and is accepted by both.
\<close>

theorem C7_counterexample:
  "validateControlFlow2 [0xe3, 0x00, 0x01, 0x00] 0
     [\<lparr>Input = 0, Output = 0x80, MaxStackHeight = 0\<rparr>,
      \<lparr>Input = 0, Output = 0, MaxStackHeight = 1024\<rparr>] eofTable = Some (Inr 2)
   \<and> validateControlFlow2_rev [0xe3, 0x00, 0x01, 0x00] 0
     [\<lparr>Input = 0, Output = 0x80, MaxStackHeight = 0\<rparr>,
      \<lparr>Input = 0, Output = 0, MaxStackHeight = 1024\<rparr>] eofTable = Inr 2
   \<and> max_b \<lparr>min_b = 0, max_b = 0\<rparr>
        + uint (MaxStackHeight \<lparr>Input = 0, Output = 0, MaxStackHeight = 1024\<rparr>)
        - uint (Input \<lparr>Input = 0, Output = 0, MaxStackHeight = 1024\<rparr>) = 1024"
  by (simp add: eval)

text \<open>
  C7 (amended). At every \<open>CALLF\<close> and \<open>JUMPF\<close> the loop of either revision visits, with
  the target section in the type table (and, at \<open>CALLF\<close>, entry \<open>min\<close> at least the
  target's inputs, the check that comes first): when
  \<open>max + MaxStackHeight - Input\<close> exceeds \<open>StackLimit = 1024\<close>, validation fails with
  \<open>ErrStackOverflow\<close> carrying that sum and the limit; when the sum is at most 1024, the
  first switch does not return \<open>ErrStackOverflow\<close>.
\<close>

theorem C7_stack_limit_at_call:
  assumes "metadataAt metadata section = Inr sec"
  shows "(visits code sec metadata jt pos st \<and> byteAt code pos = Inr op \<and>
            (op = CALLF \<or> op = JUMPF) \<and> map_of (stackBounds st) pos = Some cur \<and>
            metadataAt metadata (parseUint16 (drop (nat (pos + 1)) code)) = Inr callee \<and>
            (op = CALLF \<longrightarrow> uint (Input callee) \<le> min_b cur) \<and>
            max_b cur + uint (MaxStackHeight callee) - uint (Input callee) > StackLimit \<longrightarrow>
          validateControlFlow2 code section metadata jt =
            Some (Inl (ErrStackOverflow
                         (max_b cur + uint (MaxStackHeight callee) - uint (Input callee)) StackLimit)))
       \<and> (visits_rev code sec metadata jt pos st \<and> byteAt code pos = Inr op \<and>
            (op = CALLF \<or> op = JUMPF) \<and> map_of (stackBounds st) pos = Some cur \<and>
            metadataAt metadata (parseUint16 (drop (nat (pos + 1)) code)) = Inr callee \<and>
            (op = CALLF \<longrightarrow> uint (Input callee) \<le> min_b cur) \<and>
            max_b cur + uint (MaxStackHeight callee) - uint (Input callee) > StackLimit \<longrightarrow>
          validateControlFlow2_rev code section metadata jt =
            Inl (ErrStackOverflow
                   (max_b cur + uint (MaxStackHeight callee) - uint (Input callee)) StackLimit))
       \<and> (sliceFrom code (pos + 1) = Inr b \<and> metadataAt metadata (parseUint16 b) = Inr callee \<and>
            (op = CALLF \<or> op = JUMPF) \<and>
            max_b cur + uint (MaxStackHeight callee) - uint (Input callee) \<le> StackLimit \<longrightarrow>
          checkOp code sec metadata jt pos op cur st \<noteq> Inl (ErrStackOverflow x y) \<and>
          checkOp_rev code sec metadata jt pos op cur st \<noteq> Inl (ErrStackOverflow x y))"
proof (intro conjI impI)
  assume h: "visits code sec metadata jt pos st \<and> byteAt code pos = Inr op \<and>
            (op = CALLF \<or> op = JUMPF) \<and> map_of (stackBounds st) pos = Some cur \<and>
            metadataAt metadata (parseUint16 (drop (nat (pos + 1)) code)) = Inr callee \<and>
            (op = CALLF \<longrightarrow> uint (Input callee) \<le> min_b cur) \<and>
            max_b cur + uint (MaxStackHeight callee) - uint (Input callee) > StackLimit"
  show "validateControlFlow2 code section metadata jt =
            Some (Inl (ErrStackOverflow
                         (max_b cur + uint (MaxStackHeight callee) - uint (Input callee)) StackLimit))"
    by (rule validate_call_overflow [OF assms, of code jt pos st op]) (use h in blast)+
next
  assume h: "visits_rev code sec metadata jt pos st \<and> byteAt code pos = Inr op \<and>
            (op = CALLF \<or> op = JUMPF) \<and> map_of (stackBounds st) pos = Some cur \<and>
            metadataAt metadata (parseUint16 (drop (nat (pos + 1)) code)) = Inr callee \<and>
            (op = CALLF \<longrightarrow> uint (Input callee) \<le> min_b cur) \<and>
            max_b cur + uint (MaxStackHeight callee) - uint (Input callee) > StackLimit"
  show "validateControlFlow2_rev code section metadata jt =
            Inl (ErrStackOverflow
                   (max_b cur + uint (MaxStackHeight callee) - uint (Input callee)) StackLimit)"
    by (rule validate_rev_call_overflow [OF assms, of code jt pos st op]) (use h in blast)+
next
  assume h: "sliceFrom code (pos + 1) = Inr b \<and> metadataAt metadata (parseUint16 b) = Inr callee \<and>
            (op = CALLF \<or> op = JUMPF) \<and>
            max_b cur + uint (MaxStackHeight callee) - uint (Input callee) \<le> StackLimit"
  show "checkOp code sec metadata jt pos op cur st \<noteq> Inl (ErrStackOverflow x y)"
    by (rule checkOp_call_no_overflow(1) [of op code pos b metadata callee]) (use h in blast)+
  show "checkOp_rev code sec metadata jt pos op cur st \<noteq> Inl (ErrStackOverflow x y)"
    by (rule checkOp_call_no_overflow(2) [of op code pos b metadata callee]) (use h in blast)+
qed

theorem C7_witness:
  "metadataAt [\<lparr>Input = 0, Output = 0x80, MaxStackHeight = 0\<rparr>,
               \<lparr>Input = 0, Output = 0, MaxStackHeight = 1025\<rparr>] 0
     = Inr \<lparr>Input = 0, Output = 0x80, MaxStackHeight = 0\<rparr>
   \<and> visits [0xe3, 0x00, 0x01, 0x00] \<lparr>Input = 0, Output = 0x80, MaxStackHeight = 0\<rparr>
        [\<lparr>Input = 0, Output = 0x80, MaxStackHeight = 0\<rparr>,
         \<lparr>Input = 0, Output = 0, MaxStackHeight = 1025\<rparr>] eofTable 0
        (initState \<lparr>Input = 0, Output = 0x80, MaxStackHeight = 0\<rparr>)
   \<and> visits_rev [0xe3, 0x00, 0x01, 0x00] \<lparr>Input = 0, Output = 0x80, MaxStackHeight = 0\<rparr>
        [\<lparr>Input = 0, Output = 0x80, MaxStackHeight = 0\<rparr>,
         \<lparr>Input = 0, Output = 0, MaxStackHeight = 1025\<rparr>] eofTable 0
        (initState_rev \<lparr>Input = 0, Output = 0x80, MaxStackHeight = 0\<rparr>)
   \<and> byteAt [0xe3, 0x00, 0x01, 0x00] 0 = Inr CALLF
   \<and> validateControlFlow2 [0xe3, 0x00, 0x01, 0x00] 0
        [\<lparr>Input = 0, Output = 0x80, MaxStackHeight = 0\<rparr>,
         \<lparr>Input = 0, Output = 0, MaxStackHeight = 1025\<rparr>] eofTable
       = Some (Inl (ErrStackOverflow 1025 1024))
   \<and> validateControlFlow2_rev [0xe3, 0x00, 0x01, 0x00] 0
        [\<lparr>Input = 0, Output = 0x80, MaxStackHeight = 0\<rparr>,
         \<lparr>Input = 0, Output = 0, MaxStackHeight = 1025\<rparr>] eofTable
       = Inl (ErrStackOverflow 1025 1024)
   \<and> checkOp [0xe3, 0x00, 0x01, 0x00] \<lparr>Input = 0, Output = 0x80, MaxStackHeight = 0\<rparr>
        [\<lparr>Input = 0, Output = 0x80, MaxStackHeight = 0\<rparr>,
         \<lparr>Input = 0, Output = 0, MaxStackHeight = 1024\<rparr>] eofTable 0 CALLF
        \<lparr>min_b = 0, max_b = 0\<rparr> (initState \<lparr>Input = 0, Output = 0x80, MaxStackHeight = 0\<rparr>)
       \<noteq> Inl (ErrStackOverflow 1024 1024)
   \<and> checkOp_rev [0xe3, 0x00, 0x01, 0x00] \<lparr>Input = 0, Output = 0x80, MaxStackHeight = 0\<rparr>
        [\<lparr>Input = 0, Output = 0x80, MaxStackHeight = 0\<rparr>,
         \<lparr>Input = 0, Output = 0, MaxStackHeight = 1024\<rparr>] eofTable 0 CALLF
        \<lparr>min_b = 0, max_b = 0\<rparr> (initState \<lparr>Input = 0, Output = 0x80, MaxStackHeight = 0\<rparr>)
       \<noteq> Inl (ErrStackOverflow 1024 1024)"
proof -
  let ?sec = "\<lparr>Input = 0, Output = 0x80, MaxStackHeight = 0\<rparr>"
  let ?big = "\<lparr>Input = 0, Output = 0, MaxStackHeight = 1025\<rparr>"
  let ?fit = "\<lparr>Input = 0, Output = 0, MaxStackHeight = 1024\<rparr>"
  let ?code = "[0xe3, 0x00, 0x01, 0x00] :: byte list"
  let ?cur = "\<lparr>min_b = 0, max_b = 0\<rparr>"
  have m: "metadataAt [?sec, ?big] 0 = Inr ?sec" by (simp add: metadataAt_def)
  have v: "visits ?code ?sec [?sec, ?big] eofTable 0 (initState ?sec)" by (rule visits.start)
  have v': "visits_rev ?code ?sec [?sec, ?big] eofTable 0 (initState_rev ?sec)"
    by (rule visits_rev.start_rev)
  have b: "byteAt ?code 0 = Inr CALLF" by (simp add: byteAt_def CALLF_def)
  have c: "map_of (stackBounds (initState ?sec)) 0 = Some ?cur"
    "map_of (stackBounds (initState_rev ?sec)) 0 = Some ?cur"
    by (simp_all add: initState_def initState_rev_def setBounds_def)
  have k: "metadataAt [?sec, ?big] (parseUint16 (drop (nat (0 + 1)) ?code)) = Inr ?big"
    by (simp add: metadataAt_def parseUint16_def)
  have o: "max_b ?cur + uint (MaxStackHeight ?big) - uint (Input ?big) = 1025"
    "StackLimit = 1024" "uint (Input ?big) \<le> min_b ?cur"
    by (simp_all add: StackLimit_def)
  have s: "sliceFrom ?code (0 + 1) = Inr [0x00, 0x01, 0x00]" by (simp add: sliceFrom_def)
  have k': "metadataAt [?sec, ?fit] (parseUint16 [0x00, 0x01, 0x00]) = Inr ?fit"
    by (simp add: metadataAt_def parseUint16_def)
  have o': "max_b ?cur + uint (MaxStackHeight ?fit) - uint (Input ?fit) \<le> StackLimit"
    by (simp add: StackLimit_def)
  from C7_stack_limit_at_call [OF m, where code = ?code and jt = eofTable and pos = 0
      and st = "initState ?sec" and op = CALLF and cur = ?cur and callee = ?big]
    v b c(1) k o
  have r1: "validateControlFlow2 ?code 0 [?sec, ?big] eofTable
              = Some (Inl (ErrStackOverflow 1025 1024))"
    by simp
  from C7_stack_limit_at_call [OF m, where code = ?code and jt = eofTable and pos = 0
      and st = "initState_rev ?sec" and op = CALLF and cur = ?cur and callee = ?big]
    v' b c(2) k o
  have r2: "validateControlFlow2_rev ?code 0 [?sec, ?big] eofTable
              = Inl (ErrStackOverflow 1025 1024)"
    by simp
  have m2: "metadataAt [?sec, ?fit] 0 = Inr ?sec" by (simp add: metadataAt_def)
  from C7_stack_limit_at_call [OF m2, where code = ?code and jt = eofTable and pos = 0
      and st = "initState ?sec" and op = CALLF and cur = ?cur and callee = ?fit
      and b = "[0x00, 0x01, 0x00]" and x = 1024 and y = 1024]
    s k' o'
  have r3: "checkOp ?code ?sec [?sec, ?fit] eofTable 0 CALLF ?cur (initState ?sec)
              \<noteq> Inl (ErrStackOverflow 1024 1024)
          \<and> checkOp_rev ?code ?sec [?sec, ?fit] eofTable 0 CALLF ?cur (initState ?sec)
              \<noteq> Inl (ErrStackOverflow 1024 1024)"
    by simp
  from m v v' b r1 r2 r3 show ?thesis by simp
qed

subsection \<open>C8: \<open>DUPN\<close> and \<open>SWAPN\<close>\<close>

text \<open>
  C8 (not met by part_001). The claim: with operand byte \<open>v\<close> and \<open>n = v + 1\<close>, an
  entry \<open>min\<close> below \<open>n + 1\<close> gives \<open>ErrStackUnderflow\<close>. validate_linear.go does so
  (\<open>checkOp_DUPN_SWAPN\<close>: it fails when \<open>n \<ge> min\<close>); part_001 compares with
  \<open>want > have\<close> and accepts \<open>min = n\<close>: \<open>SWAPN 0\<close> and \<open>DUPN 0\<close> reached with
  height 1 pass.
\<close>

theorem C8_swapn_failing_input:
  "validateControlFlow2_rev [0xe7, 0x00, 0x00, 0x00, 0x00] 0
     [\<lparr>Input = 1, Output = 0x80, MaxStackHeight = 1\<rparr>] eofTable = Inr 2
   \<and> validateControlFlow2_rev [0xe6, 0x00, 0x00, 0x00, 0x00] 0
     [\<lparr>Input = 1, Output = 0x80, MaxStackHeight = 2\<rparr>] eofTable = Inr 2
   \<and> validateControlFlow2 [0xe7, 0x00, 0x00, 0x00, 0x00] 0
     [\<lparr>Input = 1, Output = 0x80, MaxStackHeight = 1\<rparr>] eofTable
     = Some (Inl (ErrStackUnderflow 1 1))
   \<and> validateControlFlow2 [0xe6, 0x00, 0x00, 0x00, 0x00] 0
     [\<lparr>Input = 1, Output = 0x80, MaxStackHeight = 2\<rparr>] eofTable
     = Some (Inl (ErrStackUnderflow 1 1))"
  by (simp add: eval)

subsection \<open>C9: an offset without entry bounds\<close>

text \<open>
  C9. Whenever the loop reaches a code offset for which no entry bounds are recorded,
  validation fails with \<open>ErrUnreachableCode\<close>. This holds in both revisions: for
  every configuration \<open>(pos, st)\<close> the loop visits with \<open>pos\<close> inside the code and no
  entry for \<open>pos\<close> in \<open>stackBounds\<close>, the result of the whole function is
  \<open>ErrUnreachableCode\<close>. In particular the one-section program \<open>E0 0001 33 00\<close>
  (\<open>RJUMP +1; CALLER; STOP\<close>) with declared \<open>MaxStackHeight\<close> 0 is rejected with
  \<open>ErrUnreachableCode\<close> by both revisions.
\<close>

theorem C9_unset_bounds_unreachable:
  assumes "metadataAt metadata section = Inr sec"
  shows "(visits code sec metadata jt pos st \<and> 0 \<le> pos \<and> pos < int (length code) \<and>
            map_of (stackBounds st) pos = None \<longrightarrow>
          validateControlFlow2 code section metadata jt = Some (Inl ErrUnreachableCode))
       \<and> (visits_rev code sec metadata jt pos' st' \<and> pos' < int (length code) \<and>
            map_of (stackBounds st') pos' = None \<longrightarrow>
          validateControlFlow2_rev code section metadata jt = Inl ErrUnreachableCode)
       \<and> validateControlFlow2 [0xe0, 0x00, 0x01, 0x33, 0x00] 0
            [\<lparr>Input = 0, Output = 0, MaxStackHeight = 0\<rparr>] eofTable = Some (Inl ErrUnreachableCode)
       \<and> validateControlFlow2_rev [0xe0, 0x00, 0x01, 0x33, 0x00] 0
            [\<lparr>Input = 0, Output = 0, MaxStackHeight = 0\<rparr>] eofTable = Inl ErrUnreachableCode"
proof (intro conjI impI)
  assume h: "visits code sec metadata jt pos st \<and> 0 \<le> pos \<and> pos < int (length code) \<and>
            map_of (stackBounds st) pos = None"
  then have "body code sec metadata jt pos st = Inl ErrUnreachableCode"
    by (simp add: body_def byteAt_def)
  with assms h show "validateControlFlow2 code section metadata jt = Some (Inl ErrUnreachableCode)"
    by (blast intro: validate_fails_at)
next
  assume h: "visits_rev code sec metadata jt pos' st' \<and> pos' < int (length code) \<and>
            map_of (stackBounds st') pos' = None"
  then have "0 \<le> pos'" by (blast dest: visits_rev_nonneg)
  with h have "body_rev code sec metadata jt pos' st' = Inl ErrUnreachableCode"
    by (simp add: body_rev_def byteAt_def)
  with assms h show "validateControlFlow2_rev code section metadata jt = Inl ErrUnreachableCode"
    by (blast intro: validate_rev_fails_at)
next
  show "validateControlFlow2 [0xe0, 0x00, 0x01, 0x33, 0x00] 0
            [\<lparr>Input = 0, Output = 0, MaxStackHeight = 0\<rparr>] eofTable = Some (Inl ErrUnreachableCode)"
    by (simp add: eval)
next
  show "validateControlFlow2_rev [0xe0, 0x00, 0x01, 0x33, 0x00] 0
            [\<lparr>Input = 0, Output = 0, MaxStackHeight = 0\<rparr>] eofTable = Inl ErrUnreachableCode"
    by (simp add: eval)
qed

text \<open>The program of the claim: the revision of validate_linear.go finds offset 4
  without bounds after following \<open>RJUMP\<close>, the revision of part_001 finds offset 1
  without bounds.\<close>

theorem C9_witness:
  "metadataAt [\<lparr>Input = 0, Output = 0, MaxStackHeight = 0\<rparr>] 0
     = Inr \<lparr>Input = 0, Output = 0, MaxStackHeight = 0\<rparr>
   \<and> visits [0xe0, 0x00, 0x01, 0x33, 0x00] \<lparr>Input = 0, Output = 0, MaxStackHeight = 0\<rparr>
        [\<lparr>Input = 0, Output = 0, MaxStackHeight = 0\<rparr>] eofTable 4
        (initState \<lparr>Input = 0, Output = 0, MaxStackHeight = 0\<rparr>)
   \<and> map_of (stackBounds (initState \<lparr>Input = 0, Output = 0, MaxStackHeight = 0\<rparr>)) 4 = None
   \<and> visits_rev [0xe0, 0x00, 0x01, 0x33, 0x00] \<lparr>Input = 0, Output = 0, MaxStackHeight = 0\<rparr>
        [\<lparr>Input = 0, Output = 0, MaxStackHeight = 0\<rparr>] eofTable 1
        (initState_rev \<lparr>Input = 0, Output = 0, MaxStackHeight = 0\<rparr>)
   \<and> map_of (stackBounds (initState_rev \<lparr>Input = 0, Output = 0, MaxStackHeight = 0\<rparr>)) 1 = None
   \<and> validateControlFlow2 [0xe0, 0x00, 0x01, 0x33, 0x00] 0
        [\<lparr>Input = 0, Output = 0, MaxStackHeight = 0\<rparr>] eofTable = Some (Inl ErrUnreachableCode)
   \<and> validateControlFlow2_rev [0xe0, 0x00, 0x01, 0x33, 0x00] 0
        [\<lparr>Input = 0, Output = 0, MaxStackHeight = 0\<rparr>] eofTable = Inl ErrUnreachableCode"
proof -
  let ?sec = "\<lparr>Input = 0, Output = 0, MaxStackHeight = 0\<rparr>"
  let ?code = "[0xe0, 0x00, 0x01, 0x33, 0x00] :: byte list"
  have m: "metadataAt [?sec] 0 = Inr ?sec" by (simp add: metadataAt_def)
  have b: "body ?code ?sec [?sec] eofTable 0 (initState ?sec) = Inr (3, initState ?sec)"
    by (simp add: opcode_defs table_defs step_defs initState_def)
  have v: "visits ?code ?sec [?sec] eofTable (3 + 1) (initState ?sec)"
    by (rule visits.step [OF visits.start _ b]) simp
  have n: "map_of (stackBounds (initState ?sec)) 4 = None" by (simp add: initState_def)
  have b': "body_rev ?code ?sec [?sec] eofTable 0 (initState_rev ?sec) = Inr (0, initState_rev ?sec)"
    by (simp add: opcode_defs table_defs step_defs initState_rev_def)
  have v': "visits_rev ?code ?sec [?sec] eofTable (0 + 1) (initState_rev ?sec)"
    by (rule visits_rev.step_rev [OF visits_rev.start_rev _ b']) simp
  have n': "map_of (stackBounds (initState_rev ?sec)) 1 = None"
    by (simp add: initState_rev_def setBounds_def)
  from C9_unset_bounds_unreachable [OF m, of ?code eofTable 4 "initState ?sec" 1 "initState_rev ?sec"]
    m v n v' n'
  show ?thesis by simp
qed

subsection \<open>C10: the integer returned\<close>

text \<open>
  C10 (counterexample). The claim: the integer returned is the number of distinct code
  offsets for which bounds were recorded. Both revisions record bounds at \<open>pos + 1\<close>
  after every instruction that is not terminal, also after the last one. The section
  \<open>JUMPF 1\<close> has three bytes and one instruction, at offset 0; both revisions record
  bounds at 0 and at 3, which is \<open>len(code)\<close> and no offset of the code, and return 2.
\<close>

theorem C10_counterexample:
  "validateControlFlow2 [0xe5, 0x00, 0x01] 0
     [\<lparr>Input = 1, Output = 0x80, MaxStackHeight = 1\<rparr>,
      \<lparr>Input = 0, Output = 0x80, MaxStackHeight = 0\<rparr>] eofTable = Some (Inr 2)
   \<and> validateControlFlow2_rev [0xe5, 0x00, 0x01] 0
     [\<lparr>Input = 1, Output = 0x80, MaxStackHeight = 1\<rparr>,
      \<lparr>Input = 0, Output = 0x80, MaxStackHeight = 0\<rparr>] eofTable = Inr 2
   \<and> walk [0xe5, 0x00, 0x01] \<lparr>Input = 1, Output = 0x80, MaxStackHeight = 1\<rparr>
     [\<lparr>Input = 1, Output = 0x80, MaxStackHeight = 1\<rparr>,
      \<lparr>Input = 0, Output = 0x80, MaxStackHeight = 0\<rparr>] eofTable 0
     (initState \<lparr>Input = 1, Output = 0x80, MaxStackHeight = 1\<rparr>)
     = Some (Inr \<lparr>stackBounds = [(0, \<lparr>min_b = 1, max_b = 1\<rparr>), (3, \<lparr>min_b = 1, max_b = 1\<rparr>)],
                  maxStackHeight = 1\<rparr>)
   \<and> walk_rev [0xe5, 0x00, 0x01] \<lparr>Input = 1, Output = 0x80, MaxStackHeight = 1\<rparr>
     [\<lparr>Input = 1, Output = 0x80, MaxStackHeight = 1\<rparr>,
      \<lparr>Input = 0, Output = 0x80, MaxStackHeight = 0\<rparr>] eofTable 0
     (initState_rev \<lparr>Input = 1, Output = 0x80, MaxStackHeight = 1\<rparr>)
     = Inr \<lparr>stackBounds = [(0, \<lparr>min_b = 1, max_b = 1\<rparr>), (3, \<lparr>min_b = 1, max_b = 1\<rparr>)],
            maxStackHeight = 1\<rparr>
   \<and> byteAt [0xe5, 0x00, 0x01] 3 = Inl Panic
   \<and> filter (\<lambda>k. 0 \<le> k \<and> k < int (length [0xe5, 0x00, 0x01 :: byte]))
        (map fst [(0 :: int, \<lparr>min_b = 1, max_b = 1\<rparr>), (3, \<lparr>min_b = 1, max_b = 1\<rparr>)]) = [0]"
  by (simp add: eval)

text \<open>
  C10 (amended). On a successful run of either revision the integer returned is the
  number of distinct keys of the bounds map at the end of the loop. These keys are the
  positions at which bounds were recorded at any moment of the walk, since no key is
  ever removed; among them is every offset at which the loop decoded an instruction,
  and there may be positions that are no offsets of the code. The integer is not the
  maximum stack height of the run: that is the accumulator, which on success equals
  the declared \<open>MaxStackHeight\<close>.
\<close>

theorem C10_returns_map_size:
  assumes "metadataAt metadata section = Inr sec"
    and "walk code sec metadata jt 0 (initState sec) = Some (Inr st)"
    and "metadataAt metadata' section' = Inr sec'"
    and "walk_rev code' sec' metadata' jt 0 (initState_rev sec') = Inr st'"
  shows "(validateControlFlow2 code section metadata jt = Some (Inr n) \<longrightarrow>
            n = int (card (dom (map_of (stackBounds st)))) \<and>
            maxStackHeight st = uint (MaxStackHeight sec))
       \<and> dom (map_of (stackBounds st))
           = {k. \<exists>s. passes code sec metadata jt s \<and> k \<in> dom (map_of (stackBounds s))}
       \<and> (\<forall>pos s. visits code sec metadata jt pos s \<and> pos < int (length code) \<longrightarrow>
            pos \<in> dom (map_of (stackBounds st)))
       \<and> (validateControlFlow2_rev code' section' metadata' jt = Inr n' \<longrightarrow>
            n' = int (card (dom (map_of (stackBounds st')))) \<and>
            maxStackHeight st' = uint (MaxStackHeight sec'))
       \<and> dom (map_of (stackBounds st'))
           = {k. \<exists>s. passes_rev code' sec' metadata' jt s \<and> k \<in> dom (map_of (stackBounds s))}
       \<and> (\<forall>pos s. visits_rev code' sec' metadata' jt pos s \<and> pos < int (length code') \<longrightarrow>
            pos \<in> dom (map_of (stackBounds st')))"
proof -
  have a: "validateControlFlow2 code section metadata jt = Some (finish sec st)"
    using assms(1,2) by (simp add: validateControlFlow2_def)
  have b: "validateControlFlow2_rev code' section' metadata' jt = finish sec' st'"
    using assms(3,4) by (simp add: validateControlFlow2_rev_def)
  have i: "length (stackBounds st) = card (dom (map_of (stackBounds st)))"
    using assms(2) by (blast intro: length_stackBounds walk_final_inv)
  have i': "length (stackBounds st') = card (dom (map_of (stackBounds st')))"
    using assms(4) by (blast intro: length_stackBounds walk_rev_final_inv)
  have r: "validateControlFlow2 code section metadata jt = Some (Inr n) \<longrightarrow>
            n = int (card (dom (map_of (stackBounds st)))) \<and>
            maxStackHeight st = uint (MaxStackHeight sec)"
    unfolding a using i by (auto simp: finish_def split: if_splits)
  have r': "validateControlFlow2_rev code' section' metadata' jt = Inr n' \<longrightarrow>
            n' = int (card (dom (map_of (stackBounds st')))) \<and>
            maxStackHeight st' = uint (MaxStackHeight sec')"
    unfolding b using i' by (auto simp: finish_def split: if_splits)
  have f: "passes code sec metadata jt st"
  proof -
    from walk_returns_visits_aux [OF assms(2)] visits.start [of code sec metadata jt]
    obtain p where "visits code sec metadata jt p st" by auto
    then show ?thesis by (rule passes.at_head)
  qed
  have f': "passes_rev code' sec' metadata' jt st'"
  proof -
    from walk_rev_returns_visits [OF visits_rev.start_rev [of code' sec' metadata' jt]] assms(4)
    obtain p where "visits_rev code' sec' metadata' jt p st'" by auto
    then show ?thesis by (rule passes_rev.at_head_rev)
  qed
  have g: "dom (map_of (stackBounds s)) \<subseteq> dom (map_of (stackBounds st))"
    if "passes code sec metadata jt s" for s
    using passes_grows [OF that assms(2)] by (simp add: grows_def)
  have g': "dom (map_of (stackBounds s)) \<subseteq> dom (map_of (stackBounds st'))"
    if "passes_rev code' sec' metadata' jt s" for s
    using passes_rev_grows [OF that assms(4)] by (simp add: grows_def)
  have d: "dom (map_of (stackBounds st))
           = {k. \<exists>s. passes code sec metadata jt s \<and> k \<in> dom (map_of (stackBounds s))}"
    using f g by blast
  have d': "dom (map_of (stackBounds st'))
           = {k. \<exists>s. passes_rev code' sec' metadata' jt s \<and> k \<in> dom (map_of (stackBounds s))}"
    using f' g' by blast
  have v: "pos \<in> dom (map_of (stackBounds st))"
    if "visits code sec metadata jt pos s" and "pos < int (length code)" for pos s
  proof -
    from walk_visits [OF that(1)] assms(2)
    have "walk code sec metadata jt pos s = Some (Inr st)" by simp
    from this that(2) obtain pos' s' where "body code sec metadata jt pos s = Inr (pos', s')"
      by (rule walk_round)
    then obtain cb where "map_of (stackBounds s) pos = Some cb" by (rule body_parts)
    then have "pos \<in> dom (map_of (stackBounds s))" by blast
    with g [OF passes.at_head [OF that(1)]] show ?thesis by blast
  qed
  have v': "pos \<in> dom (map_of (stackBounds st'))"
    if "visits_rev code' sec' metadata' jt pos s" and "pos < int (length code')" for pos s
  proof -
    from walk_rev_visits [OF that(1)] assms(4)
    have "walk_rev code' sec' metadata' jt pos s = Inr st'" by simp
    from this that(2) obtain pos' s' where "body_rev code' sec' metadata' jt pos s = Inr (pos', s')"
      by (rule walk_rev_round)
    then obtain cb where "map_of (stackBounds s) pos = Some cb" by (rule body_rev_parts)
    then have "pos \<in> dom (map_of (stackBounds s))" by blast
    with g' [OF passes_rev.at_head_rev [OF that(1)]] show ?thesis by blast
  qed
  from r d v r' d' v' show ?thesis by blast
qed

text \<open>\<open>PUSH0; RJUMPI +1; STOP; STOP\<close>: the second \<open>STOP\<close>, at offset 5, is reached
  through the jump only. Both revisions record bounds at the four positions 0, 1, 5 and
  4 and return 4, while the maximum stack height is 1; offset 5 is decoded in the
  fourth round of either loop.
  \<open>CALLER; CALLER; RJUMPI +3; CALLF 1; CALLER; STOP\<close>, where section 1 has one input
  and no outputs: both revisions record bounds at the six positions 0, 1, 2, 8, 5 and 9
  and return 6, the revision of validate_linear.go with maximum stack height 3 and the
  revision of part_001 with maximum stack height 2.\<close>

theorem C10_witness:
  "metadataAt [\<lparr>Input = 0, Output = 0x80, MaxStackHeight = 1\<rparr>] 0 = Inr \<lparr>Input = 0, Output = 0x80, MaxStackHeight = 1\<rparr>
   \<and> walk [0x5f, 0xe1, 0x00, 0x01, 0x00, 0x00] \<lparr>Input = 0, Output = 0x80, MaxStackHeight = 1\<rparr> [\<lparr>Input = 0, Output = 0x80, MaxStackHeight = 1\<rparr>] eofTable 0 (initState \<lparr>Input = 0, Output = 0x80, MaxStackHeight = 1\<rparr>)
       = Some (Inr \<lparr>stackBounds =
                   [(0, \<lparr>min_b = 0, max_b = 0\<rparr>), (1, \<lparr>min_b = 1, max_b = 1\<rparr>),
                    (5, \<lparr>min_b = 1, max_b = 1\<rparr>), (4, \<lparr>min_b = 1, max_b = 1\<rparr>)],
                  maxStackHeight = 1\<rparr>)
   \<and> walk_rev [0x5f, 0xe1, 0x00, 0x01, 0x00, 0x00] \<lparr>Input = 0, Output = 0x80, MaxStackHeight = 1\<rparr> [\<lparr>Input = 0, Output = 0x80, MaxStackHeight = 1\<rparr>] eofTable 0 (initState_rev \<lparr>Input = 0, Output = 0x80, MaxStackHeight = 1\<rparr>)
       = Inr \<lparr>stackBounds =
             [(0, \<lparr>min_b = 0, max_b = 0\<rparr>), (1, \<lparr>min_b = 1, max_b = 1\<rparr>),
              (5, \<lparr>min_b = 0, max_b = 0\<rparr>), (4, \<lparr>min_b = 0, max_b = 0\<rparr>)],
            maxStackHeight = 1\<rparr>
   \<and> validateControlFlow2 [0x5f, 0xe1, 0x00, 0x01, 0x00, 0x00] 0 [\<lparr>Input = 0, Output = 0x80, MaxStackHeight = 1\<rparr>] eofTable = Some (Inr 4)
   \<and> validateControlFlow2_rev [0x5f, 0xe1, 0x00, 0x01, 0x00, 0x00] 0 [\<lparr>Input = 0, Output = 0x80, MaxStackHeight = 1\<rparr>] eofTable = Inr 4
   \<and> (4 :: int) = int (card {0, 1, 5, 4 :: int})
   \<and> {k. \<exists>s. passes [0x5f, 0xe1, 0x00, 0x01, 0x00, 0x00] \<lparr>Input = 0, Output = 0x80, MaxStackHeight = 1\<rparr> [\<lparr>Input = 0, Output = 0x80, MaxStackHeight = 1\<rparr>] eofTable s
              \<and> k \<in> dom (map_of (stackBounds s))} = {0, 1, 5, 4}
   \<and> {k. \<exists>s. passes_rev [0x5f, 0xe1, 0x00, 0x01, 0x00, 0x00] \<lparr>Input = 0, Output = 0x80, MaxStackHeight = 1\<rparr> [\<lparr>Input = 0, Output = 0x80, MaxStackHeight = 1\<rparr>] eofTable s
              \<and> k \<in> dom (map_of (stackBounds s))} = {0, 1, 5, 4}
   \<and> (\<exists>s. visits [0x5f, 0xe1, 0x00, 0x01, 0x00, 0x00] \<lparr>Input = 0, Output = 0x80, MaxStackHeight = 1\<rparr> [\<lparr>Input = 0, Output = 0x80, MaxStackHeight = 1\<rparr>] eofTable 5 s)
   \<and> (\<exists>s. visits_rev [0x5f, 0xe1, 0x00, 0x01, 0x00, 0x00] \<lparr>Input = 0, Output = 0x80, MaxStackHeight = 1\<rparr> [\<lparr>Input = 0, Output = 0x80, MaxStackHeight = 1\<rparr>] eofTable 5 s)
   \<and> metadataAt [\<lparr>Input = 0, Output = 0x80, MaxStackHeight = 3\<rparr>,
         \<lparr>Input = 1, Output = 0, MaxStackHeight = 1\<rparr>] 0
       = Inr \<lparr>Input = 0, Output = 0x80, MaxStackHeight = 3\<rparr>
   \<and> walk [0x33, 0x33, 0xe1, 0, 3, 0xe3, 0, 1, 0x33, 0x00]
        \<lparr>Input = 0, Output = 0x80, MaxStackHeight = 3\<rparr>
        [\<lparr>Input = 0, Output = 0x80, MaxStackHeight = 3\<rparr>,
         \<lparr>Input = 1, Output = 0, MaxStackHeight = 1\<rparr>] eofTable 0
        (initState \<lparr>Input = 0, Output = 0x80, MaxStackHeight = 3\<rparr>)
       = Some (Inr \<lparr>stackBounds =
                   [(0, \<lparr>min_b = 0, max_b = 0\<rparr>), (1, \<lparr>min_b = 1, max_b = 1\<rparr>),
                    (2, \<lparr>min_b = 2, max_b = 2\<rparr>), (8, \<lparr>min_b = 1, max_b = 1\<rparr>),
                    (5, \<lparr>min_b = 1, max_b = 1\<rparr>), (9, \<lparr>min_b = 2, max_b = 2\<rparr>)],
                  maxStackHeight = 3\<rparr>)
   \<and> metadataAt [\<lparr>Input = 0, Output = 0x80, MaxStackHeight = 2\<rparr>,
         \<lparr>Input = 1, Output = 0, MaxStackHeight = 1\<rparr>] 0
       = Inr \<lparr>Input = 0, Output = 0x80, MaxStackHeight = 2\<rparr>
   \<and> walk_rev [0x33, 0x33, 0xe1, 0, 3, 0xe3, 0, 1, 0x33, 0x00]
        \<lparr>Input = 0, Output = 0x80, MaxStackHeight = 2\<rparr>
        [\<lparr>Input = 0, Output = 0x80, MaxStackHeight = 2\<rparr>,
         \<lparr>Input = 1, Output = 0, MaxStackHeight = 1\<rparr>] eofTable 0
        (initState_rev \<lparr>Input = 0, Output = 0x80, MaxStackHeight = 2\<rparr>)
       = Inr \<lparr>stackBounds =
             [(0, \<lparr>min_b = 0, max_b = 0\<rparr>), (1, \<lparr>min_b = 1, max_b = 1\<rparr>),
              (2, \<lparr>min_b = 2, max_b = 2\<rparr>), (8, \<lparr>min_b = 0, max_b = 0\<rparr>),
              (5, \<lparr>min_b = 0, max_b = 0\<rparr>), (9, \<lparr>min_b = 1, max_b = 1\<rparr>)],
            maxStackHeight = 2\<rparr>
   \<and> validateControlFlow2 [0x33, 0x33, 0xe1, 0, 3, 0xe3, 0, 1, 0x33, 0x00] 0
        [\<lparr>Input = 0, Output = 0x80, MaxStackHeight = 3\<rparr>,
         \<lparr>Input = 1, Output = 0, MaxStackHeight = 1\<rparr>] eofTable = Some (Inr 6)
   \<and> validateControlFlow2_rev [0x33, 0x33, 0xe1, 0, 3, 0xe3, 0, 1, 0x33, 0x00] 0
        [\<lparr>Input = 0, Output = 0x80, MaxStackHeight = 2\<rparr>,
         \<lparr>Input = 1, Output = 0, MaxStackHeight = 1\<rparr>] eofTable = Inr 6
   \<and> (6 :: int) = int (card {0, 1, 2, 8, 5, 9 :: int})
   \<and> {k. \<exists>s. passes [0x33, 0x33, 0xe1, 0, 3, 0xe3, 0, 1, 0x33, 0x00]
                \<lparr>Input = 0, Output = 0x80, MaxStackHeight = 3\<rparr>
                [\<lparr>Input = 0, Output = 0x80, MaxStackHeight = 3\<rparr>,
         \<lparr>Input = 1, Output = 0, MaxStackHeight = 1\<rparr>] eofTable s
              \<and> k \<in> dom (map_of (stackBounds s))} = {0, 1, 2, 8, 5, 9}
   \<and> {k. \<exists>s. passes_rev [0x33, 0x33, 0xe1, 0, 3, 0xe3, 0, 1, 0x33, 0x00]
                \<lparr>Input = 0, Output = 0x80, MaxStackHeight = 2\<rparr>
                [\<lparr>Input = 0, Output = 0x80, MaxStackHeight = 2\<rparr>,
         \<lparr>Input = 1, Output = 0, MaxStackHeight = 1\<rparr>] eofTable s
              \<and> k \<in> dom (map_of (stackBounds s))} = {0, 1, 2, 8, 5, 9}"
proof -
  let ?w = "[0x5f, 0xe1, 0x00, 0x01, 0x00, 0x00] :: byte list"
  let ?sec = "\<lparr>Input = 0, Output = 0x80, MaxStackHeight = 1\<rparr>"
  let ?wA = "\<lparr>stackBounds =
               [(0, \<lparr>min_b = 0, max_b = 0\<rparr>), (1, \<lparr>min_b = 1, max_b = 1\<rparr>),
                (5, \<lparr>min_b = 1, max_b = 1\<rparr>), (4, \<lparr>min_b = 1, max_b = 1\<rparr>)],
              maxStackHeight = 1\<rparr>"
  let ?wB = "\<lparr>stackBounds =
               [(0, \<lparr>min_b = 0, max_b = 0\<rparr>), (1, \<lparr>min_b = 1, max_b = 1\<rparr>),
                (5, \<lparr>min_b = 0, max_b = 0\<rparr>), (4, \<lparr>min_b = 0, max_b = 0\<rparr>)],
              maxStackHeight = 1\<rparr>"
  let ?code = "[0x33, 0x33, 0xe1, 0, 3, 0xe3, 0, 1, 0x33, 0x00] :: byte list"
  let ?stA = "\<lparr>stackBounds =
                [(0, \<lparr>min_b = 0, max_b = 0\<rparr>), (1, \<lparr>min_b = 1, max_b = 1\<rparr>),
                 (2, \<lparr>min_b = 2, max_b = 2\<rparr>), (8, \<lparr>min_b = 1, max_b = 1\<rparr>),
                 (5, \<lparr>min_b = 1, max_b = 1\<rparr>), (9, \<lparr>min_b = 2, max_b = 2\<rparr>)],
               maxStackHeight = 3\<rparr>"
  let ?stB = "\<lparr>stackBounds =
                [(0, \<lparr>min_b = 0, max_b = 0\<rparr>), (1, \<lparr>min_b = 1, max_b = 1\<rparr>),
                 (2, \<lparr>min_b = 2, max_b = 2\<rparr>), (8, \<lparr>min_b = 0, max_b = 0\<rparr>),
                 (5, \<lparr>min_b = 0, max_b = 0\<rparr>), (9, \<lparr>min_b = 1, max_b = 1\<rparr>)],
               maxStackHeight = 2\<rparr>"
  let ?secA = "\<lparr>Input = 0, Output = 0x80, MaxStackHeight = 3\<rparr>"
  let ?mdA = "[\<lparr>Input = 0, Output = 0x80, MaxStackHeight = 3\<rparr>,
         \<lparr>Input = 1, Output = 0, MaxStackHeight = 1\<rparr>]"
  let ?secB = "\<lparr>Input = 0, Output = 0x80, MaxStackHeight = 2\<rparr>"
  let ?mdB = "[\<lparr>Input = 0, Output = 0x80, MaxStackHeight = 2\<rparr>,
         \<lparr>Input = 1, Output = 0, MaxStackHeight = 1\<rparr>]"
  have n: "metadataAt [?sec] 0 = Inr ?sec" by (simp add: metadataAt_def)
  have x: "walk ?w ?sec [?sec] eofTable 0 (initState ?sec) = Some (Inr ?wA)"
    by (simp add: opcode_defs table_defs step_defs initState_def walk.simps)
  have x': "walk_rev ?w ?sec [?sec] eofTable 0 (initState_rev ?sec) = Inr ?wB"
    by (simp add: opcode_defs table_defs step_defs initState_rev_def walk_rev.simps)
  have q: "validateControlFlow2 ?w 0 [?sec] eofTable = Some (Inr 4)"
    "validateControlFlow2_rev ?w 0 [?sec] eofTable = Inr 4"
    using n x x' by (simp_all add: validateControlFlow2_def validateControlFlow2_rev_def
        finish_def StackLimit_def)
  have c: "\<exists>s. configAfter ?w ?sec [?sec] eofTable (Suc (Suc (Suc 0))) = Some (5, s)"
    by (simp add: opcode_defs table_defs step_defs initState_def)
  have c': "\<exists>s. configAfter_rev ?w ?sec [?sec] eofTable (Suc (Suc (Suc 0))) = Some (5, s)"
    by (simp add: opcode_defs table_defs step_defs initState_rev_def)
  have v: "\<exists>s. visits ?w ?sec [?sec] eofTable 5 s"
    using c by (blast intro: configAfter_visits)
  have v': "\<exists>s. visits_rev ?w ?sec [?sec] eofTable 5 s"
    using c' by (blast intro: configAfter_rev_visits)
  have j: "(4 :: int) = int (card {0, 1, 5, 4 :: int})" by simp
  note u = C10_returns_map_size [OF n x n x', where n = 4 and n' = 4]
  have g: "dom (map_of (stackBounds ?wA))
             = {k. \<exists>s. passes ?w ?sec [?sec] eofTable s \<and> k \<in> dom (map_of (stackBounds s))}"
    using u by (elim conjE)
  have g': "dom (map_of (stackBounds ?wB))
             = {k. \<exists>s. passes_rev ?w ?sec [?sec] eofTable s \<and> k \<in> dom (map_of (stackBounds s))}"
    using u by (elim conjE)
  have h: "{k. \<exists>s. passes ?w ?sec [?sec] eofTable s \<and> k \<in> dom (map_of (stackBounds s))}
             = {0, 1, 5, 4}"
    unfolding g [symmetric] by auto
  have h': "{k. \<exists>s. passes_rev ?w ?sec [?sec] eofTable s \<and> k \<in> dom (map_of (stackBounds s))}
             = {0, 1, 5, 4}"
    unfolding g' [symmetric] by auto
  have m: "metadataAt ?mdA 0 = Inr ?secA" by (simp add: metadataAt_def)
  have m': "metadataAt ?mdB 0 = Inr ?secB" by (simp add: metadataAt_def)
  have w: "walk ?code ?secA ?mdA eofTable 0 (initState ?secA) = Some (Inr ?stA)"
    by (simp add: opcode_defs table_defs step_defs initState_def walk.simps)
  have w': "walk_rev ?code ?secB ?mdB eofTable 0 (initState_rev ?secB) = Inr ?stB"
    by (simp add: opcode_defs table_defs step_defs initState_rev_def walk_rev.simps)
  have r: "validateControlFlow2 ?code 0 ?mdA eofTable = Some (Inr 6)"
    "validateControlFlow2_rev ?code 0 ?mdB eofTable = Inr 6"
    using m m' w w' by (simp_all add: validateControlFlow2_def validateControlFlow2_rev_def
        finish_def StackLimit_def)
  have k: "(6 :: int) = int (card {0, 1, 2, 8, 5, 9 :: int})" by simp
  note t = C10_returns_map_size [OF m w m' w', where n = 6 and n' = 6]
  have e: "dom (map_of (stackBounds ?stA))
             = {k. \<exists>s. passes ?code ?secA ?mdA eofTable s \<and> k \<in> dom (map_of (stackBounds s))}"
    using t by (elim conjE)
  have e': "dom (map_of (stackBounds ?stB))
             = {k. \<exists>s. passes_rev ?code ?secB ?mdB eofTable s \<and> k \<in> dom (map_of (stackBounds s))}"
    using t by (elim conjE)
  have d: "{k. \<exists>s. passes ?code ?secA ?mdA eofTable s \<and> k \<in> dom (map_of (stackBounds s))}
             = {0, 1, 2, 8, 5, 9}"
    unfolding e [symmetric] by auto
  have d': "{k. \<exists>s. passes_rev ?code ?secB ?mdB eofTable s \<and> k \<in> dom (map_of (stackBounds s))}
             = {0, 1, 2, 8, 5, 9}"
    unfolding e' [symmetric] by auto
  from n x x' q j h h' v v' m w m' w' r k d d' show ?thesis by (intro conjI)
qed

end
